theory Spec2Isabelle
  imports Main "HOL-Library.Word" "HOL-Library.Char_ord" "HOL-Library.List_Lexorder"
begin

section \<open>Values shared by the bag engine\<close>

text \<open>
  A byte sequence is a \<^typ>\<open>string\<close>: a \<^typ>\<open>char\<close> is one 8-bit byte, as in
  \<^verbatim>\<open>std::string\<close>. The integers of the engine are \<^verbatim>\<open>uint32_t\<close> and
  \<^verbatim>\<open>uint64_t\<close>; they are words, so arithmetic wraps as in the source.
\<close>

type_synonym u32 = "32 word"
type_synonym u64 = "64 word"

subsection \<open>Exceptions\<close>

text \<open>
  The exception classes the engine throws (\<^verbatim>\<open>BagException\<close> and its subclasses
  \<^verbatim>\<open>BagIOException\<close>, \<^verbatim>\<open>BagFormatException\<close>,
  \<^verbatim>\<open>BagUnindexedException\<close>), each with its message. The
  specification's error kinds name them InvalidArgument (a plain \<^verbatim>\<open>BagException\<close>),
  IoError and FormatError. \<open>OtherException\<close> stands for what a caller-provided
  hook (an encryptor, a deserializer) may throw.
\<close>

datatype BagError =
    BagException string
  | BagIOException string
  | BagFormatException string
  | BagUnindexedException
  | OtherException string

text \<open>
  A member function that mutates the object and may throw is a function from the state to
  an outcome and the state it leaves behind: \<open>(Inr r, s')\<close> when it returns \<open>r\<close>,
  \<open>(Inl e, s')\<close> when it throws \<open>e\<close>; \<open>s'\<close> keeps what was mutated before the
  throw. \<open>andThen\<close> sequences two such steps.
\<close>

definition andThen ::
  "('e + 'a) \<times> 's \<Rightarrow> ('a \<Rightarrow> 's \<Rightarrow> ('e + 'b) \<times> 's) \<Rightarrow> ('e + 'b) \<times> 's" where
  "andThen r f = (case r of (Inl e, s) \<Rightarrow> (Inl e, s) | (Inr a, s) \<Rightarrow> f a s)"

definition returned :: "('e + 'a) \<times> 's \<Rightarrow> bool" where
  "returned r = (case fst r of Inl e \<Rightarrow> False | Inr a \<Rightarrow> True)"

subsection \<open>Time\<close>

text \<open>\<^verbatim>\<open>TimeBase\<close> of \<^verbatim>\<open>ros/time.h\<close>: two public \<^verbatim>\<open>uint32_t\<close> fields.\<close>

record Time =
  sec :: u32
  nsec :: u32

text \<open>
  Modelled from the spec: the comparison operators of \<^verbatim>\<open>TimeBase\<close> are declared in
  \<^verbatim>\<open>ros/time.h\<close> and defined in a header that is not among the sources. The
  specification has \<open>Time = (sec, nsec)\<close> as an ordered value type; the order is the
  lexicographic one on the pair.
\<close>

definition time_less :: "Time \<Rightarrow> Time \<Rightarrow> bool" where
  "time_less a b = (if sec a < sec b then True
                    else if sec a = sec b \<and> nsec a < nsec b then True
                    else False)"

definition time_greater :: "Time \<Rightarrow> Time \<Rightarrow> bool" where
  "time_greater a b = (if sec a > sec b then True
                       else if sec a = sec b \<and> nsec a > nsec b then True
                       else False)"

definition time_le :: "Time \<Rightarrow> Time \<Rightarrow> bool" where
  "time_le a b = (if sec a < sec b then True
                  else if sec a = sec b \<and> nsec a \<le> nsec b then True
                  else False)"

text \<open>
  Modelled from the spec: \<^verbatim>\<open>ros::TIME_MIN\<close> is declared \<^verbatim>\<open>extern\<close> in
  \<^verbatim>\<open>ros/time.h\<close>; its value \<open>(0,1)\<close> is the specification's. The specification's
  \<open>+\<infinity>\<close>, to which a chunk's time range is reset, is the greatest time of the order.
\<close>

definition TIME_MIN :: Time where
  "TIME_MIN = \<lparr>sec = 0, nsec = 1\<rparr>"

definition TIME_INFINITY :: Time where
  "TIME_INFINITY = \<lparr>sec = - 1, nsec = - 1\<rparr>"

subsection \<open>std::map and std::multiset\<close>

text \<open>
  A \<^verbatim>\<open>std::map\<close> that the engine iterates over is an association list kept in
  strictly increasing key order, which is the order of iteration. \<open>map_find\<close> is
  \<^verbatim>\<open>find\<close>, \<open>map_set\<close> is \<^verbatim>\<open>m[k] = v\<close>, \<open>length\<close> is \<^verbatim>\<open>size()\<close>.
\<close>

type_synonym ('k, 'v) std_map = "('k \<times> 'v) list"

fun map_find :: "('k, 'v) std_map \<Rightarrow> 'k \<Rightarrow> 'v option" where
  "map_find [] k = None"
| "map_find ((k', v') # m) k = (if k = k' then Some v' else map_find m k)"

fun map_set :: "'k::linorder \<Rightarrow> 'v \<Rightarrow> ('k, 'v) std_map \<Rightarrow> ('k, 'v) std_map" where
  "map_set k v [] = [(k, v)]"
| "map_set k v ((k', v') # m) =
     (if k < k' then (k, v) # (k', v') # m
      else if k = k' then (k, v) # m
      else (k', v') # map_set k v m)"

text \<open>\<^verbatim>\<open>ros::M_string\<close> is \<^verbatim>\<open>std::map<std::string, std::string>\<close>.\<close>

type_synonym M_string = "(string, string) std_map"

text \<open>
  A \<^verbatim>\<open>std::multiset\<close> is the list of its elements in iteration order, which
  is sorted by the comparison \<open>lt\<close> it is built with.
  \<^verbatim>\<open>s.insert(s.end(), x)\<close> places \<open>x\<close> as close to the end as the order allows:
  behind every element that is not greater than \<open>x\<close>.
\<close>

fun multiset_insert_end :: "('a \<Rightarrow> 'a \<Rightarrow> bool) \<Rightarrow> 'a \<Rightarrow> 'a list \<Rightarrow> 'a list" where
  "multiset_insert_end lt x [] = [x]"
| "multiset_insert_end lt x (y # ys) =
     (if lt x y then x # y # ys else y # multiset_insert_end lt x ys)"

subsection \<open>Structures\<close>

text \<open>
  The structures of \<^verbatim>\<open>structures.h\<close>, which is not among the sources; their
  fields are those the engine reads and writes in \<^verbatim>\<open>bag.h\<close>, and the
  specification lists them. A field of \<^verbatim>\<open>ConnectionInfo\<close> carries the prefix
  \<open>ci_\<close>.
\<close>

record ConnectionInfo =
  ci_id :: u32
  ci_topic :: string
  ci_datatype :: string
  ci_md5sum :: string
  ci_msg_def :: string
  ci_header :: M_string

record ChunkInfo =
  start_time :: Time
  end_time :: Time
  pos :: u64
  connection_counts :: "(u32, u32) std_map"

record ChunkHeader =
  ch_compression :: string
  compressed_size :: u32
  uncompressed_size :: u32

record IndexEntry =
  time :: Time
  chunk_pos :: u64
  offset :: u32

text \<open>
  Modelled from the spec: the comparison of \<^verbatim>\<open>IndexEntry\<close> that orders a
  \<^verbatim>\<open>std::multiset<IndexEntry>\<close> is defined in \<^verbatim>\<open>structures.h\<close>. The
  specification gives the ordering key \<open>(time, chunk_pos, offset)\<close>.
\<close>

definition index_less :: "IndexEntry \<Rightarrow> IndexEntry \<Rightarrow> bool" where
  "index_less a b =
     (if time_less (time a) (time b) then True
      else if time_less (time b) (time a) then False
      else if chunk_pos a < chunk_pos b then True
      else if chunk_pos b < chunk_pos a then False
      else offset a < offset b)"


subsection \<open>Little-endian fields\<close>

text \<open>
  \<^verbatim>\<open>toHeaderString(&x)\<close> is the object representation of \<open>x\<close>:
  \<^verbatim>\<open>sizeof(T)\<close> bytes, least significant first. \<open>le_bytes n v\<close> is the \<open>n\<close>
  low bytes of \<open>v\<close>; \<open>le_nat\<close> reads such bytes back, as the \<^verbatim>\<open>memcpy\<close> of
  \<^verbatim>\<open>readField\<close> does.
\<close>

fun le_bytes :: "nat \<Rightarrow> nat \<Rightarrow> string" where
  "le_bytes 0 v = []"
| "le_bytes (Suc n) v = char_of v # le_bytes n (v div 256)"

fun le_nat :: "string \<Rightarrow> nat" where
  "le_nat [] = 0"
| "le_nat (c # cs) = of_char c + 256 * le_nat cs"

definition u8_bytes :: "8 word \<Rightarrow> string" where
  "u8_bytes w = le_bytes 1 (unat w)"

definition u32_bytes :: "u32 \<Rightarrow> string" where
  "u32_bytes w = le_bytes 4 (unat w)"

definition u64_bytes :: "u64 \<Rightarrow> string" where
  "u64_bytes w = le_bytes 8 (unat w)"

definition time_bytes :: "Time \<Rightarrow> string" where
  "time_bytes t = u32_bytes (sec t) @ u32_bytes (nsec t)"

definition bytes_u8 :: "string \<Rightarrow> 8 word" where
  "bytes_u8 b = of_nat (le_nat b)"

definition bytes_u32 :: "string \<Rightarrow> u32" where
  "bytes_u32 b = of_nat (le_nat b)"

definition bytes_u64 :: "string \<Rightarrow> u64" where
  "bytes_u64 b = of_nat (le_nat b)"

definition bytes_time :: "string \<Rightarrow> Time" where
  "bytes_time b = \<lparr>sec = bytes_u32 (take 4 b), nsec = bytes_u32 (take 4 (drop 4 b))\<rparr>"

text \<open>
  Writing \<open>d\<close> at position \<open>p\<close> of a byte region: the bytes under it are replaced, and
  the region grows when \<open>d\<close> reaches past its end (a gap is filled with zero bytes, as
  a file system does).
\<close>

definition overwrite :: "nat \<Rightarrow> string \<Rightarrow> string \<Rightarrow> string" where
  "overwrite p d r =
     take p r @ replicate (p - length r) (CHR 0x00) @ d @ drop (p + length d) r"

section \<open>Buffer\<close>

text \<open>
  Modelled from the spec: \<^verbatim>\<open>buffer.h\<close> declares the class, its member functions
  are defined in a file that is not among the sources. The specification: a growable byte
  region with data, capacity and size; \<open>set_size(n)\<close> grows the capacity by doubling to
  \<open>max(capacity*2, n)\<close> and never shrinks it. \<open>buf_data\<close> is the allocated region
  (its length is the capacity), \<open>buf_size\<close> the size in use; new memory reads as zero
  bytes.
\<close>

record Buffer =
  buf_data :: string
  buf_size :: u32

definition empty_Buffer :: Buffer where
  "empty_Buffer = \<lparr>buf_data = [], buf_size = 0\<rparr>"

definition getCapacity :: "Buffer \<Rightarrow> u32" where
  "getCapacity b = of_nat (length (buf_data b))"

definition ensureCapacity :: "u32 \<Rightarrow> Buffer \<Rightarrow> Buffer" where
  "ensureCapacity n b =
     (if unat n \<le> length (buf_data b) then b
      else b\<lparr>buf_data := buf_data b @
              replicate (max (unat (getCapacity b * 2)) (unat n) - length (buf_data b)) (CHR 0x00)\<rparr>)"

definition setSize :: "u32 \<Rightarrow> Buffer \<Rightarrow> Buffer" where
  "setSize n b = (ensureCapacity n b)\<lparr>buf_size := n\<rparr>"

text \<open>\<^verbatim>\<open>memcpy(b.getData() + p, d, |d|)\<close>.\<close>

definition buffer_memcpy :: "u32 \<Rightarrow> string \<Rightarrow> Buffer \<Rightarrow> Buffer" where
  "buffer_memcpy p d b = b\<lparr>buf_data := overwrite (unat p) d (buf_data b)\<rparr>"

text \<open>The bytes in use: the first \<open>size\<close> bytes of the region.\<close>

definition buffer_contents :: "Buffer \<Rightarrow> string" where
  "buffer_contents b = take (unat (buf_size b)) (buf_data b)"

section \<open>ChunkedFile\<close>

text \<open>
  Modelled from the spec: \<^verbatim>\<open>chunked_file.h\<close> is not among the sources. The
  specification (4.2): a seekable byte stream that applies one of the codecs raw, bz2, lz4
  to the write stream of a chunk. \<open>set_write_mode c\<close> starts feeding the encoder of
  \<open>c\<close>: raw is streamed to the file as it is written, bz2 and lz4 buffer the whole
  payload and compress it into one block on \<open>stop_write\<close>, which returns the
  compressed and the uncompressed size. \<open>read\<close> and \<open>seek\<close> are raw access;
  \<open>get_offset\<close> is the absolute position in the file. An operation on a file whose
  handle is not held fails with IoError, as does a write to a file opened for reading and
  a read past the end of the file. The compression algorithms are libraries outside the
  repository: the file object holds them as two functions.
\<close>

datatype CompressionType = Uncompressed | BZ2 | LZ4

datatype WriteState = Idle | Writing CompressionType

record ChunkedFile =
  cf_open :: bool
  cf_writable :: bool
  cf_bytes :: string
  cf_offset :: nat
  cf_state :: WriteState
  cf_bytes_in :: nat
  cf_pending :: string
  cf_compress :: "CompressionType \<Rightarrow> string \<Rightarrow> string"
  cf_decompress :: "CompressionType \<Rightarrow> string \<Rightarrow> BagError + string"

datatype seekdir = ios_beg | ios_cur | ios_end

definition cf_isOpen :: "ChunkedFile \<Rightarrow> bool" where
  "cf_isOpen f = cf_open f"

definition cf_getOffset :: "ChunkedFile \<Rightarrow> u64" where
  "cf_getOffset f = of_nat (cf_offset f)"

definition cf_seek :: "u64 \<Rightarrow> seekdir \<Rightarrow> ChunkedFile \<Rightarrow> (BagError + unit) \<times> ChunkedFile" where
  "cf_seek p origin f =
     (if \<not> cf_open f then (Inl (BagIOException ''seek: file not open''), f)
      else case origin of
             ios_beg \<Rightarrow> (Inr (), f\<lparr>cf_offset := unat p\<rparr>)
           | ios_cur \<Rightarrow> (Inr (), f\<lparr>cf_offset := cf_offset f + unat p\<rparr>)
           | ios_end \<Rightarrow> (Inr (), f\<lparr>cf_offset := length (cf_bytes f) + unat p\<rparr>))"

definition cf_raw_write :: "string \<Rightarrow> ChunkedFile \<Rightarrow> ChunkedFile" where
  "cf_raw_write d f =
     f\<lparr>cf_bytes := overwrite (cf_offset f) d (cf_bytes f),
       cf_offset := cf_offset f + length d\<rparr>"

definition cf_write :: "string \<Rightarrow> ChunkedFile \<Rightarrow> (BagError + unit) \<times> ChunkedFile" where
  "cf_write d f =
     (if \<not> cf_open f then (Inl (BagIOException ''write: file not open''), f)
      else if \<not> cf_writable f then (Inl (BagIOException ''write: file opened for reading''), f)
      else case cf_state f of
             Idle \<Rightarrow> (Inr (), cf_raw_write d f)
           | Writing Uncompressed \<Rightarrow>
               (Inr (), (cf_raw_write d f)\<lparr>cf_bytes_in := cf_bytes_in f + length d\<rparr>)
           | Writing c \<Rightarrow>
               (Inr (), f\<lparr>cf_bytes_in := cf_bytes_in f + length d,
                          cf_pending := cf_pending f @ d\<rparr>))"

definition cf_stop_write :: "ChunkedFile \<Rightarrow> (BagError + u32 \<times> u32) \<times> ChunkedFile" where
  "cf_stop_write f =
     (if \<not> cf_open f then (Inl (BagIOException ''stop_write: file not open''), f)
      else case cf_state f of
             Idle \<Rightarrow> (Inr (0, 0), f)
           | Writing Uncompressed \<Rightarrow>
               (Inr (of_nat (cf_bytes_in f), of_nat (cf_bytes_in f)),
                f\<lparr>cf_state := Idle, cf_bytes_in := 0, cf_pending := []\<rparr>)
           | Writing c \<Rightarrow>
               (let block = cf_compress f c (cf_pending f) in
                (Inr (of_nat (length block), of_nat (cf_bytes_in f)),
                 (cf_raw_write block f)\<lparr>cf_state := Idle, cf_bytes_in := 0, cf_pending := []\<rparr>)))"

definition cf_set_write_mode ::
  "CompressionType \<Rightarrow> ChunkedFile \<Rightarrow> (BagError + unit) \<times> ChunkedFile" where
  "cf_set_write_mode c f =
     andThen (cf_stop_write f)
       (\<lambda>_ f'. (Inr (), f'\<lparr>cf_state := Writing c, cf_bytes_in := 0, cf_pending := []\<rparr>))"

definition cf_read :: "nat \<Rightarrow> ChunkedFile \<Rightarrow> (BagError + string) \<times> ChunkedFile" where
  "cf_read n f =
     (if \<not> cf_open f then (Inl (BagIOException ''read: file not open''), f)
      else if length (cf_bytes f) < cf_offset f + n
        then (Inl (BagIOException ''read: end of file''), f)
      else (Inr (take n (drop (cf_offset f) (cf_bytes f))), f\<lparr>cf_offset := cf_offset f + n\<rparr>))"

definition cf_close :: "ChunkedFile \<Rightarrow> ChunkedFile" where
  "cf_close f = f\<lparr>cf_open := False, cf_state := Idle, cf_bytes_in := 0, cf_pending := []\<rparr>"

text \<open>
  Opening: for writing the file is created empty; for reading and appending it holds the
  bytes \<open>disk\<close> that the path names.
\<close>

definition cf_openWrite :: "ChunkedFile \<Rightarrow> ChunkedFile" where
  "cf_openWrite f = f\<lparr>cf_open := True, cf_writable := True, cf_bytes := [], cf_offset := 0,
                      cf_state := Idle, cf_bytes_in := 0, cf_pending := []\<rparr>"

definition cf_openRead :: "string \<Rightarrow> ChunkedFile \<Rightarrow> ChunkedFile" where
  "cf_openRead disk f = f\<lparr>cf_open := True, cf_writable := False, cf_bytes := disk, cf_offset := 0,
                          cf_state := Idle, cf_bytes_in := 0, cf_pending := []\<rparr>"

definition cf_openReadWrite :: "string \<Rightarrow> ChunkedFile \<Rightarrow> ChunkedFile" where
  "cf_openReadWrite disk f = f\<lparr>cf_open := True, cf_writable := True, cf_bytes := disk, cf_offset := 0,
                               cf_state := Idle, cf_bytes_in := 0, cf_pending := []\<rparr>"

section \<open>The bag engine: state\<close>

subsection \<open>Constants and record framing\<close>

text \<open>
  Modelled from the spec: \<^verbatim>\<open>constants.h\<close> is not among the sources. The opcodes
  (section 3), the header field names (section 6), the file magic and
  \<open>FILE_HEADER_LENGTH = 4096\<close> are the specification's.
\<close>

definition OP_MSG_DATA :: "8 word" where "OP_MSG_DATA = 0x02"
definition OP_FILE_HEADER :: "8 word" where "OP_FILE_HEADER = 0x03"
definition OP_INDEX_DATA :: "8 word" where "OP_INDEX_DATA = 0x04"
definition OP_CHUNK :: "8 word" where "OP_CHUNK = 0x05"
definition OP_CHUNK_INFO :: "8 word" where "OP_CHUNK_INFO = 0x06"
definition OP_CONNECTION :: "8 word" where "OP_CONNECTION = 0x07"

definition OP_FIELD_NAME :: string where "OP_FIELD_NAME = ''op''"
definition TOPIC_FIELD_NAME :: string where "TOPIC_FIELD_NAME = ''topic''"
definition VER_FIELD_NAME :: string where "VER_FIELD_NAME = ''ver''"
definition COUNT_FIELD_NAME :: string where "COUNT_FIELD_NAME = ''count''"
definition INDEX_POS_FIELD_NAME :: string where "INDEX_POS_FIELD_NAME = ''index_pos''"
definition CONNECTION_COUNT_FIELD_NAME :: string where "CONNECTION_COUNT_FIELD_NAME = ''conn_count''"
definition CHUNK_COUNT_FIELD_NAME :: string where "CHUNK_COUNT_FIELD_NAME = ''chunk_count''"
definition CONNECTION_FIELD_NAME :: string where "CONNECTION_FIELD_NAME = ''conn''"
definition COMPRESSION_FIELD_NAME :: string where "COMPRESSION_FIELD_NAME = ''compression''"
definition SIZE_FIELD_NAME :: string where "SIZE_FIELD_NAME = ''size''"
definition TIME_FIELD_NAME :: string where "TIME_FIELD_NAME = ''time''"
definition START_TIME_FIELD_NAME :: string where "START_TIME_FIELD_NAME = ''start_time''"
definition END_TIME_FIELD_NAME :: string where "END_TIME_FIELD_NAME = ''end_time''"
definition CHUNK_POS_FIELD_NAME :: string where "CHUNK_POS_FIELD_NAME = ''chunk_pos''"
definition ENCRYPTOR_FIELD_NAME :: string where "ENCRYPTOR_FIELD_NAME = ''encryptor''"
definition LATCHING_FIELD_NAME :: string where "LATCHING_FIELD_NAME = ''latching''"
definition CALLERID_FIELD_NAME :: string where "CALLERID_FIELD_NAME = ''callerid''"

definition FILE_HEADER_LENGTH :: u32 where "FILE_HEADER_LENGTH = 4096"
definition INDEX_VERSION :: u32 where "INDEX_VERSION = 1"
definition CHUNK_INFO_VERSION :: u32 where "CHUNK_INFO_VERSION = 1"

definition VERSION_LINE :: string where
  "VERSION_LINE = ''#ROSBAG V2.0'' @ [CHR 0x0A]"

definition compression_name :: "CompressionType \<Rightarrow> string" where
  "compression_name c = (case c of Uncompressed \<Rightarrow> ''none'' | BZ2 \<Rightarrow> ''bz2'' | LZ4 \<Rightarrow> ''lz4'')"

text \<open>
  Modelled from the spec: the serialisation of a header (\<^verbatim>\<open>ros::Header::write\<close>,
  not among the sources). Section 6: each field is \<open>u32 field_len\<close> (little-endian) and
  \<open>field_len\<close> bytes of \<open>name=value\<close>; the fields are written in the map's order.
\<close>

definition field_bytes :: "string \<times> string \<Rightarrow> string" where
  "field_bytes kv = u32_bytes (of_nat (length (fst kv) + 1 + length (snd kv)))
                      @ fst kv @ ''='' @ snd kv"

definition header_bytes :: "M_string \<Rightarrow> string" where
  "header_bytes hdr = concat (map field_bytes hdr)"

subsection \<open>Encryptor\<close>

text \<open>
  The plugin interface \<^verbatim>\<open>EncryptorBase\<close> of \<^verbatim>\<open>encryptor.h\<close>: an object with
  virtual member functions is a record of functions. A hook works on the file it is
  handed; \<open>writeEncryptedHeader\<close> and \<open>readEncryptedHeader\<close> receive the functor
  that writes or reads a plain header.
\<close>

record Encryptor =
  encryptChunk :: "u32 \<Rightarrow> u64 \<Rightarrow> ChunkedFile \<Rightarrow> (BagError + u32) \<times> ChunkedFile"
  decryptChunk :: "ChunkHeader \<Rightarrow> ChunkedFile \<Rightarrow> (BagError + string) \<times> ChunkedFile"
  addFieldsToFileHeader :: "M_string \<Rightarrow> M_string"
  readFieldsFromFileHeader :: "M_string \<Rightarrow> BagError + unit"
  writeEncryptedHeader ::
    "(M_string \<Rightarrow> ChunkedFile \<Rightarrow> (BagError + unit) \<times> ChunkedFile) \<Rightarrow> M_string \<Rightarrow>
       ChunkedFile \<Rightarrow> (BagError + unit) \<times> ChunkedFile"
  readEncryptedHeader ::
    "(ChunkedFile \<Rightarrow> (BagError + M_string option) \<times> ChunkedFile) \<Rightarrow>
       ChunkedFile \<Rightarrow> (BagError + M_string option) \<times> ChunkedFile"

text \<open>
  \<^verbatim>\<open>NoEncryptor\<close> of \<^verbatim>\<open>no_encryptor.h\<close>: \<^verbatim>\<open>addFieldsToFileHeader\<close> and
  \<^verbatim>\<open>readFieldsFromFileHeader\<close> have empty bodies there. Modelled from the spec: its
  other member functions are declared only; the specification has the no-op plugin
  forward chunks and headers unmodified.
\<close>

definition NoEncryptor :: Encryptor where
  "NoEncryptor = \<lparr>
     encryptChunk = (\<lambda>chunk_size chunk_data_pos f. (Inr chunk_size, f)),
     decryptChunk = (\<lambda>chunk_header f. cf_read (unat (compressed_size chunk_header)) f),
     addFieldsToFileHeader = (\<lambda>hdr. hdr),
     readFieldsFromFileHeader = (\<lambda>hdr. Inr ()),
     writeEncryptedHeader = (\<lambda>write_header hdr f. write_header hdr f),
     readEncryptedHeader = (\<lambda>read_header f. read_header f)\<rparr>"

subsection \<open>The Bag object\<close>

datatype BagMode = Write | Read | Append

text \<open>\<^verbatim>\<open>current_buffer_\<close> points at one of the engine's own buffers, or nowhere.\<close>

datatype BufferRef = NullBuffer | RecordBuffer | DecompressBuffer

text \<open>
  The private members of \<^verbatim>\<open>class Bag\<close> (\<^verbatim>\<open>bag.h\<close>, lines 311 to 351), without
  their trailing underscore (\<^verbatim>\<open>file_\<close> is \<open>bag_file\<close>).
  \<^verbatim>\<open>connections_\<close> maps to pointers: \<open>None\<close> is the
  null pointer that \<^verbatim>\<open>operator[]\<close> stores for a key it does not find. The two maps
  from keys to connection ids are only searched and assigned, so they are partial
  functions.
\<close>

record Bag =
  mode :: BagMode
  bag_file :: ChunkedFile
  version :: int
  compression :: CompressionType
  chunk_threshold :: u32
  bag_revision :: u32
  file_size :: u64
  file_header_pos :: u64
  index_data_pos :: u64
  connection_count :: u32
  chunk_count :: u32
  chunk_open :: bool
  curr_chunk_info :: ChunkInfo
  curr_chunk_data_pos :: u64
  topic_connection_ids :: "string \<rightharpoonup> u32"
  header_connection_ids :: "M_string \<rightharpoonup> u32"
  connections :: "(u32, ConnectionInfo option) std_map"
  chunks :: "ChunkInfo list"
  connection_indexes :: "(u32, IndexEntry list) std_map"
  curr_chunk_connection_indexes :: "(u32, IndexEntry list) std_map"
  header_buffer :: Buffer
  record_buffer :: Buffer
  chunk_buffer :: Buffer
  decompress_buffer :: Buffer
  outgoing_chunk_buffer :: Buffer
  current_buffer :: BufferRef
  decompressed_chunk :: u64
  encryptor :: Encryptor

text \<open>
  The message handed to \<^verbatim>\<open>write\<close>: what the traits of its type give
  (\<^verbatim>\<open>datatype\<close>, \<^verbatim>\<open>md5sum\<close>, \<^verbatim>\<open>definition\<close>) and the bytes its serializer
  produces. \<^verbatim>\<open>serializationLength\<close> is a \<^verbatim>\<open>uint32_t\<close>.
\<close>

record Message =
  msg_datatype :: string
  msg_md5sum :: string
  msg_definition :: string
  msg_bytes :: string

definition serializationLength :: "Message \<Rightarrow> u32" where
  "serializationLength m = of_nat (length (msg_bytes m))"

section \<open>The writer path\<close>

subsection \<open>Low-level I/O and record headers\<close>

definition on_file ::
  "(ChunkedFile \<Rightarrow> ('e + 'a) \<times> ChunkedFile) \<Rightarrow> Bag \<Rightarrow> ('e + 'a) \<times> Bag" where
  "on_file f s = (case f (bag_file s) of (r, f') \<Rightarrow> (r, s\<lparr>bag_file := f'\<rparr>))"

fun forEach :: "('x \<Rightarrow> 's \<Rightarrow> ('e + unit) \<times> 's) \<Rightarrow> 'x list \<Rightarrow> 's \<Rightarrow> ('e + unit) \<times> 's" where
  "forEach f [] s = (Inr (), s)"
| "forEach f (x # xs) s =
     (case f x s of (Inl e, s') \<Rightarrow> (Inl e, s') | (Inr u, s') \<Rightarrow> forEach f xs s')"

text \<open>
  Modelled from the spec: \<^verbatim>\<open>Bag::write\<close>, \<^verbatim>\<open>Bag::read\<close>, \<^verbatim>\<open>Bag::seek\<close>,
  \<^verbatim>\<open>Bag::writeHeader\<close>, \<^verbatim>\<open>Bag::writeDataLength\<close>,
  \<^verbatim>\<open>Bag::appendHeaderToBuffer\<close> and \<^verbatim>\<open>Bag::appendDataLengthToBuffer\<close> are
  declared in \<^verbatim>\<open>bag.h\<close> and defined in a file that is not among the sources. The
  low-level functions pass to the chunked file. The record framing is that of section 6:
  \<open>u32 header_len\<close>, the fields, \<open>u32 data_len\<close>, the data.
\<close>

definition bag_write :: "string \<Rightarrow> Bag \<Rightarrow> (BagError + unit) \<times> Bag" where
  "bag_write d s = on_file (cf_write d) s"

definition bag_read :: "nat \<Rightarrow> Bag \<Rightarrow> (BagError + string) \<times> Bag" where
  "bag_read n s = on_file (cf_read n) s"

definition seek :: "u64 \<Rightarrow> seekdir \<Rightarrow> Bag \<Rightarrow> (BagError + unit) \<times> Bag" where
  "seek p origin s = on_file (cf_seek p origin) s"

definition cf_writeHeader :: "M_string \<Rightarrow> ChunkedFile \<Rightarrow> (BagError + unit) \<times> ChunkedFile" where
  "cf_writeHeader hdr f =
     (let hb = header_bytes hdr; header_len = (of_nat (length hb) :: u32)
      in andThen (cf_write (u32_bytes header_len) f) (\<lambda>_. cf_write hb))"

definition writeHeader :: "M_string \<Rightarrow> Bag \<Rightarrow> (BagError + unit) \<times> Bag" where
  "writeHeader hdr s = on_file (cf_writeHeader hdr) s"

definition writeDataLength :: "u32 \<Rightarrow> Bag \<Rightarrow> (BagError + unit) \<times> Bag" where
  "writeDataLength data_len s = bag_write (u32_bytes data_len) s"

definition appendHeaderToBuffer :: "M_string \<Rightarrow> Buffer \<Rightarrow> Buffer" where
  "appendHeaderToBuffer hdr buf =
     (let hb = header_bytes hdr; header_len = (of_nat (length hb) :: u32);
          off = buf_size buf;
          buf = setSize (buf_size buf + 4 + header_len) buf;
          buf = buffer_memcpy off (u32_bytes header_len) buf
      in buffer_memcpy (off + 4) hb buf)"

definition appendDataLengthToBuffer :: "u32 \<Rightarrow> Buffer \<Rightarrow> Buffer" where
  "appendDataLengthToBuffer data_len buf =
     (let off = buf_size buf;
          buf = setSize (buf_size buf + 4) buf
      in buffer_memcpy off (u32_bytes data_len) buf)"

subsection \<open>Connection records and chunks\<close>

text \<open>
  Modelled from the spec: \<^verbatim>\<open>Bag::writeConnectionRecord\<close> and
  \<^verbatim>\<open>Bag::appendConnectionRecordToBuffer\<close> are not among the sources. A connection
  record (opcode \<open>0x07\<close>) has the header fields \<open>op\<close>, \<open>topic\<close>, \<open>conn\<close>; its
  data are the connection's own header fields, framed as a header. With \<open>encrypt\<close>
  the two headers go through the encryptor's \<open>write_encrypted_header\<close>.
\<close>

definition connection_record_header :: "ConnectionInfo \<Rightarrow> M_string" where
  "connection_record_header connection_info =
     map_set CONNECTION_FIELD_NAME (u32_bytes (ci_id connection_info))
       (map_set TOPIC_FIELD_NAME (ci_topic connection_info)
          (map_set OP_FIELD_NAME (u8_bytes OP_CONNECTION) []))"

definition writeConnectionRecord :: "ConnectionInfo \<Rightarrow> bool \<Rightarrow> Bag \<Rightarrow> (BagError + unit) \<times> Bag" where
  "writeConnectionRecord connection_info encrypt s =
     (let hdr = connection_record_header connection_info in
      if encrypt then
        andThen (on_file (writeEncryptedHeader (encryptor s) cf_writeHeader hdr) s)
          (\<lambda>_ s. on_file (writeEncryptedHeader (encryptor s) cf_writeHeader
                             (ci_header connection_info)) s)
      else
        andThen (writeHeader hdr s) (\<lambda>_. writeHeader (ci_header connection_info)))"

definition appendConnectionRecordToBuffer :: "ConnectionInfo \<Rightarrow> Buffer \<Rightarrow> Buffer" where
  "appendConnectionRecordToBuffer connection_info buf =
     appendHeaderToBuffer (ci_header connection_info)
       (appendHeaderToBuffer (connection_record_header connection_info) buf)"

text \<open>
  Modelled from the spec: \<^verbatim>\<open>Bag::getChunkOffset\<close> is not among the sources; step 6
  of \<open>write\<close> has the offset of an index entry be the current uncompressed chunk
  size.
\<close>

definition getChunkOffset :: "Bag \<Rightarrow> u32" where
  "getChunkOffset s = of_nat (cf_bytes_in (bag_file s))"

text \<open>
  Modelled from the spec: \<^verbatim>\<open>Bag::writeChunkHeader\<close> is not among the sources. A
  chunk record (opcode \<open>0x05\<close>) has the header fields \<open>op\<close>, \<open>compression\<close> and
  \<open>size\<close> (the uncompressed size); its data length is the compressed size.
\<close>

definition chunk_record_header :: "CompressionType \<Rightarrow> u32 \<Rightarrow> M_string" where
  "chunk_record_header c usize =
     map_set SIZE_FIELD_NAME (u32_bytes usize)
       (map_set COMPRESSION_FIELD_NAME (compression_name c)
          (map_set OP_FIELD_NAME (u8_bytes OP_CHUNK) []))"

definition writeChunkHeader :: "CompressionType \<Rightarrow> u32 \<Rightarrow> u32 \<Rightarrow> Bag \<Rightarrow> (BagError + unit) \<times> Bag" where
  "writeChunkHeader c csize usize s =
     andThen (writeHeader (chunk_record_header c usize) s) (\<lambda>_. writeDataLength csize)"

text \<open>
  The update of the current chunk's time range by a message's time, as the last
  statement of \<^verbatim>\<open>Bag::writeMessageDataRecord\<close> makes it (\<^verbatim>\<open>bag.h\<close>, lines 659
  to 663).
\<close>

definition update_time_range :: "Time \<Rightarrow> ChunkInfo \<Rightarrow> ChunkInfo" where
  "update_time_range t ci =
     (if time_greater t (end_time ci) then ci\<lparr>end_time := t\<rparr>
      else if time_less t (start_time ci) then ci\<lparr>start_time := t\<rparr>
      else ci)"

text \<open>
  Modelled from the spec: \<^verbatim>\<open>Bag::startWritingChunk\<close> is not among the sources. Step
  4 of \<open>write\<close>: record \<open>chunk_pos\<close> as the current offset, write a placeholder
  chunk record header (compression, zero sizes), then transition the chunked file to
  \<open>Writing(compression)\<close>; reset \<open>curr_chunk_info\<close> with
  \<open>start_time = end_time = +\<infinity>\<close>, then update with this message's time. The data of
  the chunk start where the file stands after the placeholder.
\<close>

definition startWritingChunk :: "Time \<Rightarrow> Bag \<Rightarrow> (BagError + unit) \<times> Bag" where
  "startWritingChunk t s =
     (let chunk_pos = cf_getOffset (bag_file s) in
      andThen (writeChunkHeader (compression s) 0 0 s) (\<lambda>_ s.
      andThen (on_file (cf_set_write_mode (compression s)) s) (\<lambda>_ s.
        (Inr (),
         s\<lparr>curr_chunk_info :=
             update_time_range t
               \<lparr>start_time = TIME_INFINITY, end_time = TIME_INFINITY, pos = chunk_pos,
                connection_counts = []\<rparr>,
           curr_chunk_data_pos := cf_getOffset (bag_file s),
           chunk_open := True\<rparr>))))"

text \<open>
  Modelled from the spec: \<^verbatim>\<open>Bag::writeIndexRecords\<close> and
  \<^verbatim>\<open>Bag::stopWritingChunk\<close> are not among the sources. The specification:
  call \<open>stop_write\<close> on the chunked file to obtain the compressed and uncompressed
  sizes; call the encryptor's \<open>encrypt_chunk\<close> to get the final size; seek back to
  the chunk record's header and patch compression and sizes; seek to EOF; for each
  \<open>(conn_id, entries)\<close> of \<open>curr_chunk_connection_indexes\<close> emit an index-data
  record (opcode \<open>0x04\<close>, fields \<open>ver = 1\<close>, \<open>conn\<close>, \<open>count\<close>, data the
  \<open>(time, offset)\<close> pairs); append the \<open>ChunkInfo\<close> snapshot to \<open>chunks\<close>;
  clear \<open>curr_chunk_connection_indexes\<close>; mark the chunk closed.
\<close>

definition index_record_header :: "u32 \<Rightarrow> u32 \<Rightarrow> M_string" where
  "index_record_header conn_id cnt =
     map_set COUNT_FIELD_NAME (u32_bytes cnt)
       (map_set VER_FIELD_NAME (u32_bytes INDEX_VERSION)
          (map_set CONNECTION_FIELD_NAME (u32_bytes conn_id)
             (map_set OP_FIELD_NAME (u8_bytes OP_INDEX_DATA) [])))"

definition writeIndexEntry :: "IndexEntry \<Rightarrow> Bag \<Rightarrow> (BagError + unit) \<times> Bag" where
  "writeIndexEntry e s =
     andThen (bag_write (time_bytes (time e)) s) (\<lambda>_. bag_write (u32_bytes (offset e)))"

definition writeIndexRecord :: "u32 \<times> IndexEntry list \<Rightarrow> Bag \<Rightarrow> (BagError + unit) \<times> Bag" where
  "writeIndexRecord ce s =
     (let cnt = (of_nat (length (snd ce)) :: u32) in
      andThen (writeHeader (index_record_header (fst ce) cnt) s) (\<lambda>_ s.
      andThen (writeDataLength (cnt * 12) s) (\<lambda>_ s.
        forEach writeIndexEntry (snd ce) s)))"

definition writeIndexRecords :: "Bag \<Rightarrow> (BagError + unit) \<times> Bag" where
  "writeIndexRecords s = forEach writeIndexRecord (curr_chunk_connection_indexes s) s"

definition stopWritingChunk :: "Bag \<Rightarrow> (BagError + unit) \<times> Bag" where
  "stopWritingChunk s =
     andThen (on_file cf_stop_write s) (\<lambda>sizes s.
     andThen (on_file (encryptChunk (encryptor s) (fst sizes) (curr_chunk_data_pos s)) s)
       (\<lambda>csize s.
     andThen (seek (pos (curr_chunk_info s)) ios_beg s) (\<lambda>_ s.
     andThen (writeChunkHeader (compression s) csize (snd sizes) s) (\<lambda>_ s.
     andThen (seek 0 ios_end s) (\<lambda>_ s.
     andThen (writeIndexRecords s) (\<lambda>_ s.
       (Inr (),
        s\<lparr>chunks := chunks s @ [curr_chunk_info s],
          curr_chunk_connection_indexes := [],
          chunk_open := False\<rparr>)))))))"

subsection \<open>Writing a message\<close>

text \<open>
  \<^verbatim>\<open>m[k]\<close> on a \<^verbatim>\<open>std::map\<close>: the value found, or the default value, which is
  then stored under \<open>k\<close>.
\<close>

definition map_subscript :: "'v \<Rightarrow> 'k::linorder \<Rightarrow> ('k, 'v) std_map \<Rightarrow> 'v \<times> ('k, 'v) std_map" where
  "map_subscript dflt k m =
     (case map_find m k of Some v \<Rightarrow> (v, m) | None \<Rightarrow> (dflt, map_set k dflt m))"

text \<open>\<^verbatim>\<open>Bag::writeMessageDataRecord\<close> (\<^verbatim>\<open>bag.h\<close>, lines 624 to 664).\<close>

definition message_record_header :: "u32 \<Rightarrow> Time \<Rightarrow> M_string" where
  "message_record_header conn_id t =
     map_set TIME_FIELD_NAME (time_bytes t)
       (map_set CONNECTION_FIELD_NAME (u32_bytes conn_id)
          (map_set OP_FIELD_NAME (u8_bytes OP_MSG_DATA) []))"

definition writeMessageDataRecord :: "u32 \<Rightarrow> Time \<Rightarrow> Message \<Rightarrow> Bag \<Rightarrow> (BagError + unit) \<times> Bag" where
  "writeMessageDataRecord conn_id t msg s =
     (let hdr = message_record_header conn_id t;
          msg_ser_len = serializationLength msg;
          s = s\<lparr>record_buffer :=
                  buffer_memcpy 0 (take (unat msg_ser_len) (msg_bytes msg))
                    (setSize msg_ser_len (record_buffer s))\<rparr>
      in
      andThen (seek 0 ios_end s) (\<lambda>_ s.
      andThen (Inr (), s\<lparr>file_size := cf_getOffset (bag_file s)\<rparr>) (\<lambda>_ s.
      andThen (writeHeader hdr s) (\<lambda>_ s.
      andThen (writeDataLength msg_ser_len s) (\<lambda>_ s.
      andThen (bag_write (take (unat msg_ser_len) (buf_data (record_buffer s))) s) (\<lambda>_ s.
        (let ob = appendDataLengthToBuffer msg_ser_len
                    (appendHeaderToBuffer hdr (outgoing_chunk_buffer s));
             off = buf_size ob;
             ob = setSize (buf_size ob + msg_ser_len) ob;
             ob = buffer_memcpy off (take (unat msg_ser_len) (buf_data (record_buffer s))) ob
         in (Inr (),
             s\<lparr>outgoing_chunk_buffer := ob,
               curr_chunk_info := update_time_range t (curr_chunk_info s)\<rparr>))))))))"

text \<open>
  \<^verbatim>\<open>Bag::doWrite\<close> (\<^verbatim>\<open>bag.h\<close>, lines 511 to 622), in the order of its
  statements. \<open>doWrite_connection_id\<close> is lines 522 to 557: it gives \<open>conn_id\<close> and
  \<open>connection_info\<close> (\<open>None\<close> is \<^verbatim>\<open>NULL\<close>). A missing
  \<^verbatim>\<open>connection_header\<close> (a null shared pointer) is \<open>None\<close>.
\<close>

definition doWrite_connection_id ::
  "string \<Rightarrow> M_string option \<Rightarrow> Bag \<Rightarrow> (u32 \<times> ConnectionInfo option) \<times> Bag" where
  "doWrite_connection_id topic connection_header s =
     (case connection_header of
        None \<Rightarrow>
          (case topic_connection_ids s topic of
             None \<Rightarrow>
               (let conn_id = (of_nat (length (connections s)) :: u32)
                in ((conn_id, None),
                    s\<lparr>topic_connection_ids := (topic_connection_ids s)(topic \<mapsto> conn_id)\<rparr>))
           | Some conn_id \<Rightarrow>
               (let r = map_subscript None conn_id (connections s)
                in ((conn_id, fst r), s\<lparr>connections := snd r\<rparr>)))
      | Some h \<Rightarrow>
          (let connection_header_copy = map_set ''topic'' topic h in
           case header_connection_ids s connection_header_copy of
             None \<Rightarrow>
               (let conn_id = (of_nat (length (connections s)) :: u32)
                in ((conn_id, None),
                    s\<lparr>header_connection_ids :=
                        (header_connection_ids s)(connection_header_copy \<mapsto> conn_id)\<rparr>))
           | Some conn_id \<Rightarrow>
               (let r = map_subscript None conn_id (connections s)
                in ((conn_id, fst r), s\<lparr>connections := snd r\<rparr>))))"

text \<open>Lines 568 to 589: the connection record of a connection seen for the first time.\<close>

definition new_ConnectionInfo :: "u32 \<Rightarrow> string \<Rightarrow> Message \<Rightarrow> M_string option \<Rightarrow> ConnectionInfo" where
  "new_ConnectionInfo conn_id topic msg connection_header =
     \<lparr>ci_id = conn_id, ci_topic = topic, ci_datatype = msg_datatype msg,
      ci_md5sum = msg_md5sum msg, ci_msg_def = msg_definition msg,
      ci_header =
        (case connection_header of
           Some h \<Rightarrow> h
         | None \<Rightarrow>
             map_set ''message_definition'' (msg_definition msg)
               (map_set ''md5sum'' (msg_md5sum msg)
                  (map_set ''type'' (msg_datatype msg) [])))\<rparr>"

definition doWrite_connection_info ::
  "u32 \<Rightarrow> ConnectionInfo option \<Rightarrow> string \<Rightarrow> Message \<Rightarrow> M_string option \<Rightarrow> Bag \<Rightarrow>
     (BagError + ConnectionInfo) \<times> Bag" where
  "doWrite_connection_info conn_id connection_info topic msg connection_header s =
     (case connection_info of
        None \<Rightarrow>
          (let info = new_ConnectionInfo conn_id topic msg connection_header;
               s = s\<lparr>connections := map_set conn_id (Some info) (connections s)\<rparr>
           in andThen (writeConnectionRecord info False s) (\<lambda>_ s.
                (Inr info,
                 s\<lparr>outgoing_chunk_buffer :=
                     appendConnectionRecordToBuffer info (outgoing_chunk_buffer s)\<rparr>)))
      | Some info \<Rightarrow> (Inr info, s))"

text \<open>Lines 591 to 606: the index entry of the message and the connection's count.\<close>

definition index_of :: "(u32, IndexEntry list) std_map \<Rightarrow> u32 \<Rightarrow> IndexEntry list" where
  "index_of m k = (case map_find m k of None \<Rightarrow> [] | Some idx \<Rightarrow> idx)"

definition doWrite_index :: "ConnectionInfo \<Rightarrow> Time \<Rightarrow> Bag \<Rightarrow> Bag" where
  "doWrite_index connection_info t s =
     (let index_entry = \<lparr>time = t, chunk_pos = pos (curr_chunk_info s),
                         offset = getChunkOffset s\<rparr>;
          k = ci_id connection_info;
          s = s\<lparr>curr_chunk_connection_indexes :=
                  map_set k (multiset_insert_end index_less index_entry
                               (index_of (curr_chunk_connection_indexes s) k))
                    (curr_chunk_connection_indexes s)\<rparr>;
          s = (if mode s \<noteq> Write
               then s\<lparr>connection_indexes :=
                        map_set k (multiset_insert_end index_less index_entry
                                     (index_of (connection_indexes s) k))
                          (connection_indexes s)\<rparr>
               else s);
          ci = curr_chunk_info s;
          n = (case map_find (connection_counts ci) k of None \<Rightarrow> 0 | Some c \<Rightarrow> c)
      in s\<lparr>curr_chunk_info := ci\<lparr>connection_counts := map_set k (n + 1) (connection_counts ci)\<rparr>\<rparr>)"

text \<open>Lines 559 to 621: the block that writes to the file.\<close>

definition doWrite_block ::
  "u32 \<Rightarrow> ConnectionInfo option \<Rightarrow> string \<Rightarrow> Time \<Rightarrow> Message \<Rightarrow> M_string option \<Rightarrow> Bag \<Rightarrow>
     (BagError + unit) \<times> Bag" where
  "doWrite_block conn_id connection_info topic t msg connection_header s =
     andThen (seek 0 ios_end s) (\<lambda>_ s.
     andThen (Inr (), s\<lparr>file_size := cf_getOffset (bag_file s)\<rparr>) (\<lambda>_ s.
     andThen (if \<not> chunk_open s then startWritingChunk t s else (Inr (), s)) (\<lambda>_ s.
     andThen (doWrite_connection_info conn_id connection_info topic msg connection_header s)
       (\<lambda>info s.
     andThen (writeMessageDataRecord conn_id t msg (doWrite_index info t s)) (\<lambda>_ s.
       (let chunk_size = getChunkOffset s in
        if chunk_size > chunk_threshold s then
          andThen (stopWritingChunk s) (\<lambda>_ s.
            (Inr (),
             s\<lparr>outgoing_chunk_buffer := setSize 0 (outgoing_chunk_buffer s),
               curr_chunk_info := (curr_chunk_info s)\<lparr>pos := - 1\<rparr>\<rparr>))
        else (Inr (), s)))))))"

definition doWrite :: "string \<Rightarrow> Time \<Rightarrow> Message \<Rightarrow> M_string option \<Rightarrow> Bag \<Rightarrow> (BagError + unit) \<times> Bag" where
  "doWrite topic t msg connection_header s =
     (if time_less t TIME_MIN
      then (Inl (BagException ''Tried to insert a message with time less than ros::TIME_MIN''), s)
      else
        (let s = s\<lparr>bag_revision := bag_revision s + 1\<rparr>;
             r = doWrite_connection_id topic connection_header s
         in doWrite_block (fst (fst r)) (snd (fst r)) topic t msg connection_header (snd r)))"

subsection \<open>Opening for writing and closing\<close>

text \<open>
  Modelled from the spec: \<^verbatim>\<open>Bag::writeVersion\<close>, \<^verbatim>\<open>Bag::writeFileHeaderRecord\<close>,
  \<^verbatim>\<open>Bag::startWriting\<close> and \<^verbatim>\<open>Bag::openWrite\<close> are not among the sources.
  The specification, \<open>open(Write)\<close>: create the file, write the magic, reserve a
  fixed-width file-header record (opcode \<open>0x03\<close>, fields \<open>chunk_count\<close>,
  \<open>conn_count\<close>, \<open>index_pos\<close> and those the encryptor contributes) padded so that
  its total length on disk is \<open>FILE_HEADER_LENGTH\<close>, and remember
  \<open>file_header_pos\<close>. The padding is the data of the record, filled with spaces. The
  counts are those of \<open>connections\<close> and \<open>chunks\<close> at the time of writing.
\<close>

definition writeVersion :: "Bag \<Rightarrow> (BagError + unit) \<times> Bag" where
  "writeVersion s = bag_write VERSION_LINE s"

definition file_header_fields :: "u64 \<Rightarrow> u32 \<Rightarrow> u32 \<Rightarrow> M_string" where
  "file_header_fields index_pos conn_count chunks_count =
     map_set CHUNK_COUNT_FIELD_NAME (u32_bytes chunks_count)
       (map_set CONNECTION_COUNT_FIELD_NAME (u32_bytes conn_count)
          (map_set INDEX_POS_FIELD_NAME (u64_bytes index_pos)
             (map_set OP_FIELD_NAME (u8_bytes OP_FILE_HEADER) [])))"

definition writeFileHeaderRecord :: "Bag \<Rightarrow> (BagError + unit) \<times> Bag" where
  "writeFileHeaderRecord s =
     (let s = s\<lparr>connection_count := of_nat (length (connections s)),
                chunk_count := of_nat (length (chunks s))\<rparr>;
          hdr = addFieldsToFileHeader (encryptor s)
                  (file_header_fields (index_data_pos s) (connection_count s) (chunk_count s));
          hb = header_bytes hdr;
          header_len = (of_nat (length hb) :: u32);
          data_len = (if header_len + 8 < FILE_HEADER_LENGTH
                      then FILE_HEADER_LENGTH - (header_len + 8) else 0)
      in
      andThen (bag_write (u32_bytes header_len) s) (\<lambda>_ s.
      andThen (bag_write hb s) (\<lambda>_ s.
      andThen (bag_write (u32_bytes data_len) s) (\<lambda>_ s.
        if data_len > 0 then bag_write (replicate (unat data_len) (CHR '' '')) s
        else (Inr (), s)))))"

definition startWriting :: "Bag \<Rightarrow> (BagError + unit) \<times> Bag" where
  "startWriting s =
     andThen (writeVersion s) (\<lambda>_ s.
     andThen (Inr (), s\<lparr>file_header_pos := cf_getOffset (bag_file s)\<rparr>) (\<lambda>_ s.
       writeFileHeaderRecord s))"

definition openWrite :: "Bag \<Rightarrow> (BagError + unit) \<times> Bag" where
  "openWrite s = startWriting (s\<lparr>bag_file := cf_openWrite (bag_file s)\<rparr>)"

text \<open>
  Modelled from the spec: \<^verbatim>\<open>Bag::writeConnectionRecords\<close>,
  \<^verbatim>\<open>Bag::writeChunkInfoRecords\<close>, \<^verbatim>\<open>Bag::stopWriting\<close>,
  \<^verbatim>\<open>Bag::closeWrite\<close>, \<^verbatim>\<open>Bag::isOpen\<close> and \<^verbatim>\<open>Bag::close\<close> are not
  among the sources. The specification, \<open>close (Write)\<close>: if a chunk is open, close
  it; record \<open>index_data_pos\<close> as the current offset, which is the end of the file
  (invariant 6: a write seeks to EOF first); emit one connection record per known
  connection, then one chunk-info record per chunk (opcode \<open>0x06\<close>, fields
  \<open>ver = 1\<close>, \<open>chunk_pos\<close>, \<open>start_time\<close>, \<open>end_time\<close>, \<open>count\<close>, data
  the \<open>(conn_id, msg_count)\<close> pairs); patch the file header record in place.
  \<open>close\<close> releases the file handle and is idempotent: on an engine that is not
  open it does nothing. A null connection pointer cannot be written: the model throws
  where the program would dereference it.
\<close>

definition writeConnectionRecords :: "Bag \<Rightarrow> (BagError + unit) \<times> Bag" where
  "writeConnectionRecords s =
     forEach (\<lambda>c s. case snd c of
                       None \<Rightarrow> (Inl (OtherException ''null ConnectionInfo''), s)
                     | Some connection_info \<Rightarrow> writeConnectionRecord connection_info True s)
       (connections s) s"

definition chunk_info_header :: "ChunkInfo \<Rightarrow> M_string" where
  "chunk_info_header chunk_info =
     map_set COUNT_FIELD_NAME (u32_bytes (of_nat (length (connection_counts chunk_info))))
       (map_set END_TIME_FIELD_NAME (time_bytes (end_time chunk_info))
          (map_set START_TIME_FIELD_NAME (time_bytes (start_time chunk_info))
             (map_set CHUNK_POS_FIELD_NAME (u64_bytes (pos chunk_info))
                (map_set VER_FIELD_NAME (u32_bytes CHUNK_INFO_VERSION)
                   (map_set OP_FIELD_NAME (u8_bytes OP_CHUNK_INFO) [])))))"

definition writeConnectionCount :: "u32 \<times> u32 \<Rightarrow> Bag \<Rightarrow> (BagError + unit) \<times> Bag" where
  "writeConnectionCount cc s =
     andThen (bag_write (u32_bytes (fst cc)) s) (\<lambda>_. bag_write (u32_bytes (snd cc)))"

definition writeChunkInfoRecord :: "ChunkInfo \<Rightarrow> Bag \<Rightarrow> (BagError + unit) \<times> Bag" where
  "writeChunkInfoRecord chunk_info s =
     (let chunk_connection_count = (of_nat (length (connection_counts chunk_info)) :: u32) in
      andThen (writeHeader (chunk_info_header chunk_info) s) (\<lambda>_ s.
      andThen (writeDataLength (8 * chunk_connection_count) s) (\<lambda>_ s.
        forEach writeConnectionCount (connection_counts chunk_info) s)))"

definition writeChunkInfoRecords :: "Bag \<Rightarrow> (BagError + unit) \<times> Bag" where
  "writeChunkInfoRecords s = forEach writeChunkInfoRecord (chunks s) s"

definition stopWriting :: "Bag \<Rightarrow> (BagError + unit) \<times> Bag" where
  "stopWriting s =
     andThen (if chunk_open s then stopWritingChunk s else (Inr (), s)) (\<lambda>_ s.
     andThen (seek 0 ios_end s) (\<lambda>_ s.
     andThen (Inr (), s\<lparr>index_data_pos := cf_getOffset (bag_file s)\<rparr>) (\<lambda>_ s.
     andThen (writeConnectionRecords s) (\<lambda>_ s.
     andThen (writeChunkInfoRecords s) (\<lambda>_ s.
     andThen (seek (file_header_pos s) ios_beg s) (\<lambda>_ s.
       writeFileHeaderRecord s))))))"

definition closeWrite :: "Bag \<Rightarrow> (BagError + unit) \<times> Bag" where
  "closeWrite s = stopWriting s"

definition isOpen :: "Bag \<Rightarrow> bool" where
  "isOpen s = cf_isOpen (bag_file s)"

definition close :: "Bag \<Rightarrow> (BagError + unit) \<times> Bag" where
  "close s =
     (if \<not> isOpen s then (Inr (), s)
      else
        andThen (if mode s = Write \<or> mode s = Append then closeWrite s else (Inr (), s))
          (\<lambda>_ s. (Inr (), s\<lparr>bag_file := cf_close (bag_file s)\<rparr>)))"

section \<open>The reader path\<close>

subsection \<open>Parsing a header\<close>

text \<open>
  Modelled from the spec: \<^verbatim>\<open>ros::Header::parse\<close> is not among the sources. The
  specification (4.3, Read): the fields are decoded by splitting each \<open><u32, bytes>\<close>
  on the first \<open>=\<close>; a missing \<open>=\<close> and a field that appears twice are format
  errors, as is a field that is cut short. \<open>None\<close> is the failed parse.
\<close>

definition split_field :: "string \<Rightarrow> (string \<times> string) option" where
  "split_field fld =
     (if CHR ''='' \<in> set fld
      then Some (takeWhile (\<lambda>c. c \<noteq> CHR ''='') fld, drop 1 (dropWhile (\<lambda>c. c \<noteq> CHR ''='') fld))
      else None)"

function parse_fields :: "string \<Rightarrow> M_string \<Rightarrow> M_string option" where
  "parse_fields bs acc =
     (if bs = [] then Some acc
      else if length bs < 4 then None
      else if length (drop 4 bs) < unat (bytes_u32 (take 4 bs)) then None
      else case split_field (take (unat (bytes_u32 (take 4 bs))) (drop 4 bs)) of
             None \<Rightarrow> None
           | Some kv \<Rightarrow>
               if map_find acc (fst kv) \<noteq> None then None
               else parse_fields (drop (unat (bytes_u32 (take 4 bs))) (drop 4 bs))
                      (map_set (fst kv) (snd kv) acc))"
  by pat_completeness auto
termination
  by (relation "measure (\<lambda>(bs, acc). length bs)") auto

definition parse_header :: "string \<Rightarrow> M_string option" where
  "parse_header bs = parse_fields bs []"

text \<open>
  Modelled from the spec: \<^verbatim>\<open>Bag::readHeader\<close>, \<^verbatim>\<open>Bag::readDataLength\<close>,
  \<^verbatim>\<open>Bag::checkField\<close>, \<^verbatim>\<open>Bag::isOp\<close> and the overloads of
  \<^verbatim>\<open>Bag::readField\<close> for strings and times are declared in \<^verbatim>\<open>bag.h\<close> only.
  A header is \<open>u32 header_len\<close> and \<open>header_len\<close> bytes of fields; a required field
  that is missing, or a field of the wrong size, is a FormatError. \<open>readHeader\<close>
  returns \<open>None\<close> for \<^verbatim>\<open>false\<close> (the header does not parse).
\<close>

definition cf_readHeader :: "ChunkedFile \<Rightarrow> (BagError + M_string option) \<times> ChunkedFile" where
  "cf_readHeader f =
     andThen (cf_read 4 f) (\<lambda>header_len f.
     andThen (cf_read (unat (bytes_u32 header_len)) f) (\<lambda>hb f.
       (Inr (parse_header hb), f)))"

definition readHeader :: "Bag \<Rightarrow> (BagError + M_string option) \<times> Bag" where
  "readHeader s = on_file cf_readHeader s"

definition readDataLength :: "Bag \<Rightarrow> (BagError + u32) \<times> Bag" where
  "readDataLength s = andThen (bag_read 4 s) (\<lambda>b s. (Inr (bytes_u32 b), s))"

definition checkField :: "M_string \<Rightarrow> string \<Rightarrow> nat \<Rightarrow> nat \<Rightarrow> bool \<Rightarrow> BagError + string option" where
  "checkField hdr field_name min_len max_len required =
     (case map_find hdr field_name of
        None \<Rightarrow>
          if required
          then Inl (BagFormatException (''Required field missing: '' @ field_name))
          else Inr None
      | Some v \<Rightarrow>
          if length v < min_len \<or> length v > max_len
          then Inl (BagFormatException (''Field is wrong size: '' @ field_name))
          else Inr (Some v))"

text \<open>
  The template \<^verbatim>\<open>Bag::readField<T>\<close> (\<^verbatim>\<open>bag.h\<close>, lines 389 to 396): the field
  must have exactly \<^verbatim>\<open>sizeof(T)\<close> bytes; when it is absent the variable keeps its
  value \<open>data\<close>. The \<^verbatim>\<open>bool\<close> it returns is ignored by every caller.
\<close>

definition readField_raw ::
  "M_string \<Rightarrow> string \<Rightarrow> nat \<Rightarrow> bool \<Rightarrow> (string \<Rightarrow> 'a) \<Rightarrow> 'a \<Rightarrow> BagError + 'a" where
  "readField_raw hdr field_name n required decode data =
     (case checkField hdr field_name n n required of
        Inl e \<Rightarrow> Inl e
      | Inr None \<Rightarrow> Inr data
      | Inr (Some v) \<Rightarrow> Inr (decode v))"

definition readField_u8 :: "M_string \<Rightarrow> string \<Rightarrow> bool \<Rightarrow> 8 word \<Rightarrow> BagError + 8 word" where
  "readField_u8 hdr field_name required data = readField_raw hdr field_name 1 required bytes_u8 data"

definition readField_u32 :: "M_string \<Rightarrow> string \<Rightarrow> bool \<Rightarrow> u32 \<Rightarrow> BagError + u32" where
  "readField_u32 hdr field_name required data = readField_raw hdr field_name 4 required bytes_u32 data"

definition readField_u64 :: "M_string \<Rightarrow> string \<Rightarrow> bool \<Rightarrow> u64 \<Rightarrow> BagError + u64" where
  "readField_u64 hdr field_name required data = readField_raw hdr field_name 8 required bytes_u64 data"

definition readField_time :: "M_string \<Rightarrow> string \<Rightarrow> bool \<Rightarrow> Time \<Rightarrow> BagError + Time" where
  "readField_time hdr field_name required data = readField_raw hdr field_name 8 required bytes_time data"

definition readField_string :: "M_string \<Rightarrow> string \<Rightarrow> bool \<Rightarrow> string \<Rightarrow> BagError + string" where
  "readField_string hdr field_name required data =
     (case checkField hdr field_name 0 (2 ^ 32 - 1) required of
        Inl e \<Rightarrow> Inl e
      | Inr None \<Rightarrow> Inr data
      | Inr (Some v) \<Rightarrow> Inr v)"

definition isOp :: "M_string \<Rightarrow> 8 word \<Rightarrow> BagError + bool" where
  "isOp hdr reqOp =
     (case readField_u8 hdr OP_FIELD_NAME True 0xFF of
        Inl e \<Rightarrow> Inl e
      | Inr op \<Rightarrow> Inr (op = reqOp))"

subsection \<open>Opening for reading\<close>

text \<open>
  Modelled from the spec: \<^verbatim>\<open>Bag::readVersion\<close> and
  \<^verbatim>\<open>Bag::readFileHeaderRecord\<close> are not among the sources. The specification:
  read the magic line and parse \<open>V1.2\<close> or \<open>V2.0\<close>; read the file-header record and
  extract \<open>index_pos\<close>, \<open>chunk_count\<close>, \<open>conn_count\<close> and the optional
  \<open>encryptor\<close>. A file header with \<open>index_pos = 0\<close> is an UnindexedBagError. The
  registration table of encryptor plugins holds the built-in no-op plugin only, which
  contributes no \<open>encryptor\<close> field: a file that names a plugin is refused
  (InvalidArgument, unknown encryptor plugin name).
\<close>

definition VERSION_LINE_102 :: string where
  "VERSION_LINE_102 = ''#ROSBAG V1.2'' @ [CHR 0x0A]"

definition readVersion :: "Bag \<Rightarrow> (BagError + unit) \<times> Bag" where
  "readVersion s =
     andThen (bag_read 13 s) (\<lambda>line s.
       if line = VERSION_LINE then (Inr (), s\<lparr>version := 200\<rparr>)
       else if line = VERSION_LINE_102 then (Inr (), s\<lparr>version := 102\<rparr>)
       else (Inl (BagFormatException ''Bad magic''), s))"

definition readFileHeaderRecord :: "Bag \<Rightarrow> (BagError + unit) \<times> Bag" where
  "readFileHeaderRecord s =
     andThen (readHeader s) (\<lambda>header s.
       case header of
         None \<Rightarrow> (Inl (BagFormatException ''Error reading FILE_HEADER record''), s)
       | Some hdr \<Rightarrow>
     andThen (readDataLength s) (\<lambda>data_size s.
     andThen (isOp hdr OP_FILE_HEADER, s) (\<lambda>is_op s.
       if \<not> is_op then (Inl (BagFormatException ''Expected FILE_HEADER op not found''), s)
       else
     andThen (readField_u64 hdr INDEX_POS_FIELD_NAME True (index_data_pos s), s) (\<lambda>v s.
     andThen (Inr (), s\<lparr>index_data_pos := v\<rparr>) (\<lambda>_ s.
       if index_data_pos s = 0 then (Inl BagUnindexedException, s)
       else
     andThen (readField_u32 hdr CONNECTION_COUNT_FIELD_NAME True (connection_count s), s) (\<lambda>v s.
     andThen (Inr (), s\<lparr>connection_count := v\<rparr>) (\<lambda>_ s.
     andThen (readField_u32 hdr CHUNK_COUNT_FIELD_NAME True (chunk_count s), s) (\<lambda>v s.
     andThen (Inr (), s\<lparr>chunk_count := v\<rparr>) (\<lambda>_ s.
     andThen (readField_string hdr ENCRYPTOR_FIELD_NAME False [], s) (\<lambda>encryptor_plugin s.
       if encryptor_plugin \<noteq> []
       then (Inl (BagException (''Unknown encryptor plugin: '' @ encryptor_plugin)), s)
       else
     andThen (readFieldsFromFileHeader (encryptor s) hdr, s) (\<lambda>_ s.
       seek (ucast data_size) ios_cur s)))))))))))"

fun repeat :: "nat \<Rightarrow> ('s \<Rightarrow> ('e + unit) \<times> 's) \<Rightarrow> 's \<Rightarrow> ('e + unit) \<times> 's" where
  "repeat 0 m s = (Inr (), s)"
| "repeat (Suc n) m s =
     (case m s of (Inl e, s') \<Rightarrow> (Inl e, s') | (Inr u, s') \<Rightarrow> repeat n m s')"

text \<open>
  Modelled from the spec: \<^verbatim>\<open>Bag::readConnectionRecord\<close>,
  \<^verbatim>\<open>Bag::readChunkInfoRecord\<close>, \<^verbatim>\<open>Bag::readChunkHeader\<close>,
  \<^verbatim>\<open>Bag::readConnectionIndexRecord200\<close> and \<^verbatim>\<open>Bag::startReadingVersion200\<close>
  are not among the sources. The specification (4.7, V2.00 load): read the file-header
  record; seek to \<open>index_pos\<close>; read \<open>conn_count\<close> connection records (populating
  \<open>connections\<close>); read \<open>chunk_count\<close> chunk-info records (populating
  \<open>chunks\<close>); for each \<open>ChunkInfo\<close> seek to its \<open>pos\<close>, read the chunk record
  header, skip the compressed body, then read the per-connection index-data records that
  follow it, one for each connection the chunk counts, each contributing
  \<open>(time, offset)\<close> entries to \<open>connection_indexes[conn_id]\<close> with
  \<open>chunk_pos = ChunkInfo.pos\<close>. The entries enter the multiset of their connection,
  which keeps them sorted by key. The headers of a connection record are read through the
  encryptor's \<open>read_encrypted_header\<close>; the descriptors of a connection are the
  fields \<open>type\<close>, \<open>md5sum\<close> and \<open>message_definition\<close> of its header.
\<close>

definition header_value :: "M_string \<Rightarrow> string \<Rightarrow> string" where
  "header_value hdr k = (case map_find hdr k of None \<Rightarrow> [] | Some v \<Rightarrow> v)"

definition readConnectionRecord :: "Bag \<Rightarrow> (BagError + unit) \<times> Bag" where
  "readConnectionRecord s =
     andThen (on_file (readEncryptedHeader (encryptor s) cf_readHeader) s) (\<lambda>header s.
       case header of
         None \<Rightarrow> (Inl (BagFormatException ''Error reading CONNECTION header''), s)
       | Some hdr \<Rightarrow>
     andThen (isOp hdr OP_CONNECTION, s) (\<lambda>is_op s.
       if \<not> is_op then (Inl (BagFormatException ''Expected CONNECTION op not found''), s)
       else
     andThen (readField_u32 hdr CONNECTION_FIELD_NAME True 0, s) (\<lambda>conn_id s.
     andThen (readField_string hdr TOPIC_FIELD_NAME True [], s) (\<lambda>topic s.
     andThen (on_file (readEncryptedHeader (encryptor s) cf_readHeader) s) (\<lambda>header2 s.
       case header2 of
         None \<Rightarrow> (Inl (BagFormatException ''Error reading connection header''), s)
       | Some connection_header \<Rightarrow>
           (case map_find (connections s) conn_id of
              Some existing \<Rightarrow> (Inr (), s)
            | None \<Rightarrow>
                (Inr (),
                 s\<lparr>connections :=
                     map_set conn_id
                       (Some \<lparr>ci_id = conn_id, ci_topic = topic,
                              ci_datatype = header_value connection_header ''type'',
                              ci_md5sum = header_value connection_header ''md5sum'',
                              ci_msg_def = header_value connection_header ''message_definition'',
                              ci_header = connection_header\<rparr>)
                       (connections s)\<rparr>)))))))"

fun readConnectionCounts ::
  "nat \<Rightarrow> (u32, u32) std_map \<Rightarrow> Bag \<Rightarrow> (BagError + (u32, u32) std_map) \<times> Bag" where
  "readConnectionCounts 0 counts s = (Inr counts, s)"
| "readConnectionCounts (Suc n) counts s =
     (case bag_read 8 s of
        (Inl e, s') \<Rightarrow> (Inl e, s')
      | (Inr b, s') \<Rightarrow>
          readConnectionCounts n
            (map_set (bytes_u32 (take 4 b)) (bytes_u32 (take 4 (drop 4 b))) counts) s')"

definition readChunkInfoRecord :: "Bag \<Rightarrow> (BagError + unit) \<times> Bag" where
  "readChunkInfoRecord s =
     andThen (readHeader s) (\<lambda>header s.
       case header of
         None \<Rightarrow> (Inl (BagFormatException ''Error reading CHUNK_INFO record header''), s)
       | Some hdr \<Rightarrow>
     andThen (readDataLength s) (\<lambda>data_size s.
     andThen (isOp hdr OP_CHUNK_INFO, s) (\<lambda>is_op s.
       if \<not> is_op then (Inl (BagFormatException ''Expected CHUNK_INFO op not found''), s)
       else
     andThen (readField_u32 hdr VER_FIELD_NAME True 0, s) (\<lambda>chunk_info_version s.
       if chunk_info_version \<noteq> CHUNK_INFO_VERSION
       then (Inl (BagFormatException ''Expected CHUNK_INFO version 1''), s)
       else
     andThen (readField_u64 hdr CHUNK_POS_FIELD_NAME True 0, s) (\<lambda>p s.
     andThen (readField_time hdr START_TIME_FIELD_NAME True \<lparr>sec = 0, nsec = 0\<rparr>, s) (\<lambda>st s.
     andThen (readField_time hdr END_TIME_FIELD_NAME True \<lparr>sec = 0, nsec = 0\<rparr>, s) (\<lambda>et s.
     andThen (readField_u32 hdr COUNT_FIELD_NAME True 0, s) (\<lambda>chunk_connection_count s.
     andThen (readConnectionCounts (unat chunk_connection_count) [] s) (\<lambda>counts s.
       (Inr (),
        s\<lparr>chunks := chunks s @
             [\<lparr>start_time = st, end_time = et, pos = p, connection_counts = counts\<rparr>]\<rparr>))))))))))"

definition readChunkHeader :: "Bag \<Rightarrow> (BagError + ChunkHeader) \<times> Bag" where
  "readChunkHeader s =
     andThen (readHeader s) (\<lambda>header s.
       case header of
         None \<Rightarrow> (Inl (BagFormatException ''Error reading CHUNK record''), s)
       | Some hdr \<Rightarrow>
     andThen (readDataLength s) (\<lambda>csize s.
     andThen (isOp hdr OP_CHUNK, s) (\<lambda>is_op s.
       if \<not> is_op then (Inl (BagFormatException ''Expected CHUNK op not found''), s)
       else
     andThen (readField_string hdr COMPRESSION_FIELD_NAME True [], s) (\<lambda>c s.
     andThen (readField_u32 hdr SIZE_FIELD_NAME True 0, s) (\<lambda>usize s.
       (Inr \<lparr>ch_compression = c, compressed_size = csize, uncompressed_size = usize\<rparr>, s))))))"

definition insert_index_entry ::
  "u32 \<Rightarrow> IndexEntry \<Rightarrow> (u32, IndexEntry list) std_map \<Rightarrow> (u32, IndexEntry list) std_map" where
  "insert_index_entry k e m = map_set k (multiset_insert_end index_less e (index_of m k)) m"

definition readIndexEntry :: "u32 \<Rightarrow> Bag \<Rightarrow> (BagError + unit) \<times> Bag" where
  "readIndexEntry conn_id s =
     andThen (bag_read 12 s) (\<lambda>b s.
       (Inr (),
        s\<lparr>connection_indexes :=
            insert_index_entry conn_id
              \<lparr>time = bytes_time (take 8 b), chunk_pos = pos (curr_chunk_info s),
               offset = bytes_u32 (take 4 (drop 8 b))\<rparr>
              (connection_indexes s)\<rparr>))"

definition readConnectionIndexRecord200 :: "Bag \<Rightarrow> (BagError + unit) \<times> Bag" where
  "readConnectionIndexRecord200 s =
     andThen (readHeader s) (\<lambda>header s.
       case header of
         None \<Rightarrow> (Inl (BagFormatException ''Error reading INDEX_DATA header''), s)
       | Some hdr \<Rightarrow>
     andThen (readDataLength s) (\<lambda>data_size s.
     andThen (isOp hdr OP_INDEX_DATA, s) (\<lambda>is_op s.
       if \<not> is_op then (Inl (BagFormatException ''Expected INDEX_DATA record''), s)
       else
     andThen (readField_u32 hdr VER_FIELD_NAME True 0, s) (\<lambda>index_version s.
       if index_version \<noteq> INDEX_VERSION
       then (Inl (BagFormatException ''Unsupported INDEX_DATA version''), s)
       else
     andThen (readField_u32 hdr CONNECTION_FIELD_NAME True 0, s) (\<lambda>connection_id s.
     andThen (readField_u32 hdr COUNT_FIELD_NAME True 0, s) (\<lambda>cnt s.
       repeat (unat cnt) (readIndexEntry connection_id) s))))))"

definition readChunkIndex :: "ChunkInfo \<Rightarrow> Bag \<Rightarrow> (BagError + unit) \<times> Bag" where
  "readChunkIndex chunk_info s =
     andThen (Inr (), s\<lparr>curr_chunk_info := chunk_info\<rparr>) (\<lambda>_ s.
     andThen (seek (pos (curr_chunk_info s)) ios_beg s) (\<lambda>_ s.
     andThen (readChunkHeader s) (\<lambda>chunk_header s.
     andThen (seek (ucast (compressed_size chunk_header)) ios_cur s) (\<lambda>_ s.
       repeat (length (connection_counts chunk_info)) readConnectionIndexRecord200 s))))"

definition startReadingVersion200 :: "Bag \<Rightarrow> (BagError + unit) \<times> Bag" where
  "startReadingVersion200 s =
     andThen (readFileHeaderRecord s) (\<lambda>_ s.
     andThen (seek (index_data_pos s) ios_beg s) (\<lambda>_ s.
     andThen (repeat (unat (connection_count s)) readConnectionRecord s) (\<lambda>_ s.
     andThen (repeat (unat (chunk_count s)) readChunkInfoRecord s) (\<lambda>_ s.
       forEach readChunkIndex (chunks s) s))))"

text \<open>
  Modelled from the spec: \<^verbatim>\<open>Bag::startReadingVersion102\<close> is not among the
  sources. The specification (4.7, V1.02 load): the legacy format has per-topic index
  records at the tail of the file that point at individual message records; a synthetic
  \<open>ConnectionInfo\<close> keyed by topic is built for each and \<open>connection_indexes\<close> is
  populated accordingly; \<open>chunks\<close> stays empty. The specification does not give the
  layout of the legacy records: \<open>legacy_index\<close> stands for their decoding, from the
  bytes of the file to the topics with their descriptors and index entries.
\<close>

type_synonym legacy_topic = "string \<times> (string \<times> string \<times> string) \<times> IndexEntry list"

definition addLegacyTopic :: "legacy_topic \<Rightarrow> Bag \<Rightarrow> (BagError + unit) \<times> Bag" where
  "addLegacyTopic lt s =
     (let topic = fst lt; descr = fst (snd lt);
          conn_id = (of_nat (length (connections s)) :: u32);
          info = \<lparr>ci_id = conn_id, ci_topic = topic, ci_datatype = fst descr,
                  ci_md5sum = fst (snd descr), ci_msg_def = snd (snd descr),
                  ci_header =
                    map_set ''message_definition'' (snd (snd descr))
                      (map_set ''md5sum'' (fst (snd descr))
                         (map_set ''type'' (fst descr) []))\<rparr>
      in (Inr (),
          s\<lparr>topic_connection_ids := (topic_connection_ids s)(topic \<mapsto> conn_id),
            connections := map_set conn_id (Some info) (connections s),
            connection_indexes :=
              fold (insert_index_entry conn_id) (snd (snd lt)) (connection_indexes s)\<rparr>))"

definition startReadingVersion102 ::
  "(string \<Rightarrow> BagError + legacy_topic list) \<Rightarrow> Bag \<Rightarrow> (BagError + unit) \<times> Bag" where
  "startReadingVersion102 legacy_index s =
     (case legacy_index (cf_bytes (bag_file s)) of
        Inl e \<Rightarrow> (Inl e, s)
      | Inr topics \<Rightarrow> forEach addLegacyTopic topics s)"

text \<open>
  Modelled from the spec: \<^verbatim>\<open>Bag::openRead\<close>, \<^verbatim>\<open>Bag::openAppend\<close> and
  \<^verbatim>\<open>Bag::open\<close> are not among the sources. \<open>open(Read)\<close> reads the magic line
  and dispatches to the loader of the version. \<open>open(Append)\<close> reads the existing
  index, truncates the trailing records and leaves the engine open for writing with no
  chunk open, the file positioned at its end. The position behind the magic line is where
  the file header record stands (\<open>file_header_pos\<close>). \<open>open\<close> records the mode and
  sets \<open>file_size\<close> to the length of the file. \<open>disk\<close> is the content of the file
  that the path names.
\<close>

definition openRead ::
  "(string \<Rightarrow> BagError + legacy_topic list) \<Rightarrow> string \<Rightarrow> Bag \<Rightarrow> (BagError + unit) \<times> Bag" where
  "openRead legacy_index disk s =
     andThen (readVersion (s\<lparr>bag_file := cf_openRead disk (bag_file s)\<rparr>)) (\<lambda>_ s.
     andThen (Inr (), s\<lparr>file_header_pos := cf_getOffset (bag_file s)\<rparr>) (\<lambda>_ s.
       if version s = 102 then startReadingVersion102 legacy_index s
       else if version s = 200 then startReadingVersion200 s
       else (Inl (BagException ''Unsupported bag file version''), s)))"

definition cf_truncate :: "u64 \<Rightarrow> ChunkedFile \<Rightarrow> (BagError + unit) \<times> ChunkedFile" where
  "cf_truncate n f =
     (if \<not> cf_open f then (Inl (BagIOException ''truncate: file not open''), f)
      else if \<not> cf_writable f then (Inl (BagIOException ''truncate: file opened for reading''), f)
      else (Inr (), f\<lparr>cf_bytes := take (unat n) (cf_bytes f)\<rparr>))"

definition openAppend :: "string \<Rightarrow> Bag \<Rightarrow> (BagError + unit) \<times> Bag" where
  "openAppend disk s =
     andThen (readVersion (s\<lparr>bag_file := cf_openReadWrite disk (bag_file s)\<rparr>)) (\<lambda>_ s.
     andThen (Inr (), s\<lparr>file_header_pos := cf_getOffset (bag_file s)\<rparr>) (\<lambda>_ s.
       if version s \<noteq> 200
       then (Inl (BagException ''Bag file version is unsupported for appending''), s)
       else
     andThen (startReadingVersion200 s) (\<lambda>_ s.
     andThen (on_file (cf_truncate (index_data_pos s)) s) (\<lambda>_ s.
       seek 0 ios_end s))))"

definition open_bag ::
  "(string \<Rightarrow> BagError + legacy_topic list) \<Rightarrow> string \<Rightarrow> BagMode \<Rightarrow> Bag \<Rightarrow> (BagError + unit) \<times> Bag" where
  "open_bag legacy_index disk m s =
     andThen (Inr (), s\<lparr>mode := m\<rparr>) (\<lambda>_ s.
     andThen (case m of
                Append \<Rightarrow> openAppend disk s
              | Write \<Rightarrow> openWrite s
              | Read \<Rightarrow> openRead legacy_index disk s) (\<lambda>_ s.
     (let off = cf_getOffset (bag_file s) in
      andThen (seek 0 ios_end s) (\<lambda>_ s.
      andThen (Inr (), s\<lparr>file_size := cf_getOffset (bag_file s)\<rparr>) (\<lambda>_ s.
        seek off ios_beg s)))))"

subsection \<open>Reading a message\<close>

text \<open>
  Modelled from the spec: \<^verbatim>\<open>Bag::decompressChunk\<close>,
  \<^verbatim>\<open>Bag::readHeaderFromBuffer\<close>, \<^verbatim>\<open>Bag::readMessageDataHeaderFromBuffer\<close> and
  \<^verbatim>\<open>Bag::readMessageDataRecord102\<close> are not among the sources. The specification
  (4.7): \<open>decompress_chunk(pos)\<close> is a no-op if the chunk is already loaded; otherwise
  it seeks to \<open>pos\<close>, reads the chunk record header, calls the encryptor's
  \<open>decrypt_chunk\<close> to get the raw compressed bytes, decompresses them with the codec
  named in the header into \<open>decompress_buffer\<close> and updates \<open>decompressed_chunk\<close>;
  \<open>current_buffer\<close> points at \<open>decompress_buffer\<close> for v2.00 and at the directly
  read \<open>record_buffer\<close> for v1.02. \<open>read_message\<close>: at \<open>current_buffer[offset]\<close>
  decode the record header, assert \<open>op = 0x02\<close>, read the data length; the data are
  the slice behind the header region. The header of a message record is written plain by
  \<^verbatim>\<open>Bag::writeMessageDataRecord\<close>, and is read plain. A read outside the bytes of
  a buffer is a FormatError. A v1.02 index entry points directly at a message-data
  record in the file, which is read into \<open>record_buffer\<close>.
\<close>

definition store_buffer :: "u32 \<Rightarrow> string \<Rightarrow> Buffer \<Rightarrow> Buffer" where
  "store_buffer n d b = buffer_memcpy 0 (take (unat n) d) (setSize n b)"

definition chunk_codec :: "string \<Rightarrow> CompressionType option" where
  "chunk_codec name =
     (if name = ''none'' then Some Uncompressed
      else if name = ''bz2'' then Some BZ2
      else if name = ''lz4'' then Some LZ4
      else None)"

definition decompressChunk :: "u64 \<Rightarrow> Bag \<Rightarrow> (BagError + unit) \<times> Bag" where
  "decompressChunk p s =
     (if decompressed_chunk s = p \<and> current_buffer s = DecompressBuffer then (Inr (), s)
      else
        andThen (seek p ios_beg s) (\<lambda>_ s.
        andThen (readChunkHeader s) (\<lambda>chunk_header s.
        andThen (on_file (decryptChunk (encryptor s) chunk_header) s) (\<lambda>raw s.
          case chunk_codec (ch_compression chunk_header) of
            None \<Rightarrow> (Inl (BagException (''Unknown compression: '' @ ch_compression chunk_header)), s)
          | Some c \<Rightarrow>
              (case (if c = Uncompressed then Inr raw else cf_decompress (bag_file s) c raw) of
                 Inl e \<Rightarrow> (Inl e, s)
               | Inr d \<Rightarrow>
                   (Inr (),
                    s\<lparr>decompress_buffer :=
                        store_buffer (uncompressed_size chunk_header) d (decompress_buffer s),
                      current_buffer := DecompressBuffer,
                      decompressed_chunk := p\<rparr>))))))"

definition readHeaderFromBuffer :: "Buffer \<Rightarrow> u32 \<Rightarrow> BagError + M_string \<times> u32 \<times> u32" where
  "readHeaderFromBuffer buffer off =
     (let bs = drop (unat off) (buffer_contents buffer) in
      if length bs < 4 then Inl (BagFormatException ''Error parsing header'')
      else
        (let header_len = bytes_u32 (take 4 bs); rest = drop 4 bs in
         if length rest < unat header_len + 4 then Inl (BagFormatException ''Error parsing header'')
         else
           (case parse_header (take (unat header_len) rest) of
              None \<Rightarrow> Inl (BagFormatException ''Error parsing header'')
            | Some hdr \<Rightarrow>
                Inr (hdr, bytes_u32 (take 4 (drop (unat header_len) rest)), header_len + 8))))"

definition readMessageDataHeaderFromBuffer ::
  "Buffer \<Rightarrow> u32 \<Rightarrow> BagError + M_string \<times> u32 \<times> u32" where
  "readMessageDataHeaderFromBuffer buffer off =
     (case readHeaderFromBuffer buffer off of
        Inl e \<Rightarrow> Inl e
      | Inr r \<Rightarrow>
          (case isOp (fst r) OP_MSG_DATA of
             Inl e \<Rightarrow> Inl e
           | Inr is_op \<Rightarrow>
               if is_op then Inr r else Inl (BagFormatException ''Expected MSG_DATA op not found'')))"

definition readMessageDataRecord102 :: "u64 \<Rightarrow> Bag \<Rightarrow> (BagError + M_string) \<times> Bag" where
  "readMessageDataRecord102 off s =
     andThen (seek off ios_beg s) (\<lambda>_ s.
     andThen (readHeader s) (\<lambda>header s.
       case header of
         None \<Rightarrow> (Inl (BagFormatException ''Error reading header''), s)
       | Some hdr \<Rightarrow>
     andThen (readDataLength s) (\<lambda>data_size s.
     andThen (isOp hdr OP_MSG_DATA, s) (\<lambda>is_op s.
       if \<not> is_op then (Inl (BagFormatException ''Expected MSG_DATA op not found''), s)
       else
     andThen (bag_read (unat data_size) s) (\<lambda>d s.
       (Inr hdr,
        s\<lparr>record_buffer := store_buffer data_size d (record_buffer s),
          current_buffer := RecordBuffer\<rparr>))))))"

text \<open>The buffer \<^verbatim>\<open>current_buffer_\<close> points at; it cannot be read through a null pointer.\<close>

definition deref_current_buffer :: "Bag \<Rightarrow> BagError + Buffer" where
  "deref_current_buffer s =
     (case current_buffer s of
        NullBuffer \<Rightarrow> Inl (OtherException ''null current_buffer'')
      | RecordBuffer \<Rightarrow> Inr (record_buffer s)
      | DecompressBuffer \<Rightarrow> Inr (decompress_buffer s))"

text \<open>\<^verbatim>\<open>boost::format("%1%")\<close> of a number: its decimal digits.\<close>

function dec_string :: "nat \<Rightarrow> string" where
  "dec_string n =
     (if n < 10 then [char_of (48 + n)]
      else dec_string (n div 10) @ [char_of (48 + n mod 10)])"
  by pat_completeness auto
termination
  by (relation "measure (\<lambda>n. n)") auto

definition int_string :: "int \<Rightarrow> string" where
  "int_string i = (if i < 0 then ''-'' @ dec_string (nat (- i)) else dec_string (nat i))"

text \<open>
  \<^verbatim>\<open>Bag::readMessageDataIntoStream\<close> (\<^verbatim>\<open>bag.h\<close>, lines 398 to 424). The
  result is what the function copies into the stream.
\<close>

definition readMessageDataIntoStream :: "IndexEntry \<Rightarrow> Bag \<Rightarrow> (BagError + string) \<times> Bag" where
  "readMessageDataIntoStream index_entry s =
     (if version s = 200 then
        andThen (decompressChunk (chunk_pos index_entry) s) (\<lambda>_ s.
        andThen (deref_current_buffer s, s) (\<lambda>buffer s.
        andThen (readMessageDataHeaderFromBuffer buffer (offset index_entry), s) (\<lambda>r s.
          (let data_size = fst (snd r); bytes_read = snd (snd r) in
           if data_size > 0
           then (Inr (take (unat data_size)
                        (drop (unat (offset index_entry) + unat bytes_read) (buf_data buffer))), s)
           else (Inr [], s)))))
      else if version s = 102 then
        andThen (readMessageDataRecord102 (chunk_pos index_entry) s) (\<lambda>header s.
          (let data_size = buf_size (record_buffer s) in
           if data_size > 0
           then (Inr (take (unat data_size) (buf_data (record_buffer s))), s)
           else (Inr [], s)))
      else (Inl (BagFormatException (''Unhandled version: '' @ int_string (version s))), s))"

text \<open>
  The message type \<open>T\<close> of \<^verbatim>\<open>instantiate<T>\<close>: the md5sum registered for it
  (\<^verbatim>\<open>MD5Sum<T>::value()\<close>) and its deserializer, which is handed the connection
  header and the bytes of the message and may throw.
\<close>

record 'T MsgType =
  mt_md5sum :: string
  mt_deserialize :: "M_string \<Rightarrow> string \<Rightarrow> BagError + 'T"

text \<open>
  \<^verbatim>\<open>Bag::instantiateBuffer<T>\<close> (\<^verbatim>\<open>bag.h\<close>, lines 426 to 509). The shared
  pointer it returns is never empty: \<open>Some p\<close>.
\<close>

definition instantiateBuffer :: "'T MsgType \<Rightarrow> IndexEntry \<Rightarrow> Bag \<Rightarrow> (BagError + 'T option) \<times> Bag" where
  "instantiateBuffer T index_entry s =
     (if version s = 200 then
        andThen (decompressChunk (chunk_pos index_entry) s) (\<lambda>_ s.
        andThen (deref_current_buffer s, s) (\<lambda>buffer s.
        andThen (readMessageDataHeaderFromBuffer buffer (offset index_entry), s) (\<lambda>r s.
          (let hdr = fst r; data_size = fst (snd r); bytes_read = snd (snd r) in
        andThen (readField_u32 hdr CONNECTION_FIELD_NAME True 0, s) (\<lambda>connection_id s.
          case map_find (connections s) connection_id of
            None \<Rightarrow>
              (Inl (BagFormatException
                      (''Unknown connection ID: '' @ dec_string (unat connection_id))), s)
          | Some None \<Rightarrow> (Inl (OtherException ''null ConnectionInfo''), s)
          | Some (Some connection_info) \<Rightarrow>
              (case mt_deserialize T (ci_header connection_info)
                      (take (unat data_size)
                         (drop (unat (offset index_entry) + unat bytes_read) (buf_data buffer))) of
                 Inl e \<Rightarrow> (Inl e, s)
               | Inr p \<Rightarrow> (Inr (Some p), s)))))))
      else if version s = 102 then
        andThen (readMessageDataRecord102 (chunk_pos index_entry) s) (\<lambda>hdr s.
        andThen (readField_string hdr TOPIC_FIELD_NAME True [], s) (\<lambda>topic s.
        andThen (readField_string hdr LATCHING_FIELD_NAME False ''0'', s) (\<lambda>latching s.
        andThen (readField_string hdr CALLERID_FIELD_NAME False [], s) (\<lambda>callerid s.
          case topic_connection_ids s topic of
            None \<Rightarrow> (Inl (BagFormatException (''Unknown topic: '' @ topic)), s)
          | Some connection_id \<Rightarrow>
              (case map_find (connections s) connection_id of
                 None \<Rightarrow>
                   (Inl (BagFormatException
                           (''Unknown connection ID: '' @ dec_string (unat connection_id))), s)
               | Some None \<Rightarrow> (Inl (OtherException ''null ConnectionInfo''), s)
               | Some (Some connection_info) \<Rightarrow>
                   (let message_header =
                          map_set ''callerid'' callerid
                            (map_set ''latching'' latching (ci_header connection_info))
                    in case mt_deserialize T message_header
                              (take (unat (buf_size (record_buffer s)))
                                 (buf_data (record_buffer s))) of
                         Inl e \<Rightarrow> (Inl e, s)
                       | Inr p \<Rightarrow> (Inr (Some p), s)))))))
      else (Inl (BagFormatException (''Unhandled version: '' @ int_string (version s))), s))"

subsection \<open>MessageInstance\<close>

text \<open>
  \<^verbatim>\<open>class MessageInstance\<close> (\<^verbatim>\<open>message_instance.h\<close>): a connection and an
  index entry of the bag it points into; the bag is the state the operations run on.
  \<^verbatim>\<open>isType<T>\<close>, \<^verbatim>\<open>instantiate<T>\<close> and \<^verbatim>\<open>write\<close> are lines 153 to 171.
  Modelled from the spec: the getters are defined in a file that is not among the
  sources; the md5sum, topic and time of an instance are those of its connection and of
  its index entry.
\<close>

record MessageInstance =
  mi_connection_info :: ConnectionInfo
  mi_index_entry :: IndexEntry

definition getMD5Sum :: "MessageInstance \<Rightarrow> string" where
  "getMD5Sum m = ci_md5sum (mi_connection_info m)"

definition getTopic :: "MessageInstance \<Rightarrow> string" where
  "getTopic m = ci_topic (mi_connection_info m)"

definition getTime :: "MessageInstance \<Rightarrow> Time" where
  "getTime m = time (mi_index_entry m)"

definition isType :: "'T MsgType \<Rightarrow> MessageInstance \<Rightarrow> bool" where
  "isType T m = (mt_md5sum T = ''*'' \<or> mt_md5sum T = getMD5Sum m)"

definition instantiate :: "'T MsgType \<Rightarrow> MessageInstance \<Rightarrow> Bag \<Rightarrow> (BagError + 'T option) \<times> Bag" where
  "instantiate T m s =
     (if \<not> isType T m then (Inr None, s)
      else instantiateBuffer T (mi_index_entry m) s)"

definition MessageInstance_write :: "MessageInstance \<Rightarrow> Bag \<Rightarrow> (BagError + string) \<times> Bag" where
  "MessageInstance_write m s = readMessageDataIntoStream (mi_index_entry m) s"

section \<open>A new engine\<close>

text \<open>
  Modelled from the spec: the constructor of \<^verbatim>\<open>Bag\<close> is not among the sources. A
  new engine is Closed: it holds no file handle, no chunk is open, its maps and buffers
  are empty, and the built-in no-op encryptor is selected; chunks are not compressed. The
  chunk threshold (\<open>set_chunk_threshold\<close>) and the two codec functions of the file
  object are parameters.
\<close>

definition new_ChunkedFile ::
  "(CompressionType \<Rightarrow> string \<Rightarrow> string) \<Rightarrow> (CompressionType \<Rightarrow> string \<Rightarrow> BagError + string) \<Rightarrow> ChunkedFile" where
  "new_ChunkedFile compress decompress =
     \<lparr>cf_open = False, cf_writable = False, cf_bytes = [], cf_offset = 0, cf_state = Idle,
      cf_bytes_in = 0, cf_pending = [], cf_compress = compress, cf_decompress = decompress\<rparr>"

definition Bag_init ::
  "u32 \<Rightarrow> (CompressionType \<Rightarrow> string \<Rightarrow> string) \<Rightarrow> (CompressionType \<Rightarrow> string \<Rightarrow> BagError + string) \<Rightarrow> Bag" where
  "Bag_init threshold compress decompress =
     \<lparr>mode = Write, bag_file = new_ChunkedFile compress decompress, version = 0,
      compression = Uncompressed, chunk_threshold = threshold, bag_revision = 0,
      file_size = 0, file_header_pos = 0, index_data_pos = 0, connection_count = 0,
      chunk_count = 0, chunk_open = False,
      curr_chunk_info = \<lparr>start_time = \<lparr>sec = 0, nsec = 0\<rparr>, end_time = \<lparr>sec = 0, nsec = 0\<rparr>,
                         pos = 0, connection_counts = []\<rparr>,
      curr_chunk_data_pos = 0, topic_connection_ids = Map.empty,
      header_connection_ids = Map.empty, connections = [], chunks = [],
      connection_indexes = [], curr_chunk_connection_indexes = [],
      header_buffer = empty_Buffer, record_buffer = empty_Buffer, chunk_buffer = empty_Buffer,
      decompress_buffer = empty_Buffer, outgoing_chunk_buffer = empty_Buffer,
      current_buffer = NullBuffer, decompressed_chunk = 0, encryptor = NoEncryptor\<rparr>"

section \<open>Predicates and example values\<close>


text \<open>
  A header that the record framing can carry: its keys are in strictly increasing order
  and free of \<open>=\<close>, and each field fits the \<open>u32\<close> that frames it.
\<close>

definition wf_header :: "M_string \<Rightarrow> bool" where
  "wf_header m =
     (sorted_wrt (<) (map fst m) \<and>
      (\<forall>kv\<in>set m. CHR ''='' \<notin> set (fst kv) \<and> length (fst kv) + 1 + length (snd kv) < 2 ^ 32))"

text \<open>
  Values for concrete runs: a codec that stores the bytes as they are, a new engine with
  a chunk threshold of 16 bytes, and the message of scenario S2 of the specification.
\<close>

definition raw_compress :: "CompressionType \<Rightarrow> string \<Rightarrow> string" where
  "raw_compress c d = d"

definition raw_decompress :: "CompressionType \<Rightarrow> string \<Rightarrow> BagError + string" where
  "raw_decompress c d = Inr d"

definition example_Bag :: Bag where
  "example_Bag = Bag_init 16 raw_compress raw_decompress"

definition example_Message :: Message where
  "example_Message =
     \<lparr>msg_datatype = ''std_msgs/String'', msg_md5sum = ''abc'',
      msg_definition = ''string data'', msg_bytes = [CHR 0xDE, CHR 0xAD]\<rparr>"

definition example_Time :: Time where
  "example_Time = \<lparr>sec = 10, nsec = 0\<rparr>"

definition example_ConnectionInfo :: ConnectionInfo where
  "example_ConnectionInfo = new_ConnectionInfo 0 ''/a'' example_Message None"

text \<open>
  What \<open>writeHeader\<close> puts into the file for a header: its length and its fields.
  \<open>file_at s bs\<close>: the file of \<open>s\<close> is open and \<open>bs\<close> are its bytes from the
  current position on; \<open>advance n\<close> moves the position by \<open>n\<close>.
\<close>

definition framed_header :: "M_string \<Rightarrow> string" where
  "framed_header hdr = u32_bytes (of_nat (length (header_bytes hdr))) @ header_bytes hdr"

text \<open>
  A decompressed chunk that holds one message-data record of connection 7, loaded as the
  chunk at position 4109 of a version 2.00 bag whose connections are \<open>conns\<close>; a
  message instance that points at it; a message type with the md5sum \<open>md5\<close> whose
  deserializer returns the bytes as they are.
\<close>

definition example_record :: string where
  "example_record =
     framed_header (message_record_header 7 example_Time) @ u32_bytes 2 @ msg_bytes example_Message"

definition example_Bag_200 :: "(u32, ConnectionInfo option) std_map \<Rightarrow> Bag" where
  "example_Bag_200 conns =
     example_Bag\<lparr>version := 200, connections := conns,
       decompress_buffer := \<lparr>buf_data = example_record, buf_size = 48\<rparr>,
       current_buffer := DecompressBuffer, decompressed_chunk := 4109\<rparr>"

definition example_IndexEntry :: IndexEntry where
  "example_IndexEntry = \<lparr>time = example_Time, chunk_pos = 4109, offset = 0\<rparr>"

definition example_MessageInstance :: MessageInstance where
  "example_MessageInstance =
     \<lparr>mi_connection_info = example_ConnectionInfo\<lparr>ci_id := 7\<rparr>,
      mi_index_entry = example_IndexEntry\<rparr>"

definition raw_MsgType :: "string \<Rightarrow> string MsgType" where
  "raw_MsgType md5 = \<lparr>mt_md5sum = md5, mt_deserialize = (\<lambda>h d. Inr d)\<rparr>"

definition file_at :: "Bag \<Rightarrow> string \<Rightarrow> bool" where
  "file_at s bs =
     (cf_open (bag_file s) \<and> cf_offset (bag_file s) \<le> length (cf_bytes (bag_file s)) \<and>
      drop (cf_offset (bag_file s)) (cf_bytes (bag_file s)) = bs)"

definition advance :: "nat \<Rightarrow> Bag \<Rightarrow> Bag" where
  "advance n s = s\<lparr>bag_file := (bag_file s)\<lparr>cf_offset := cf_offset (bag_file s) + n\<rparr>\<rparr>"

text \<open>A version 1.02 bag whose file is one message-data record on topic \<open>/a\<close>.\<close>

definition example_header_102 :: M_string where
  "example_header_102 = [(''op'', u8_bytes OP_MSG_DATA), (''topic'', ''/a'')]"

definition example_file_102 :: string where
  "example_file_102 =
     framed_header example_header_102 @ u32_bytes 2 @ msg_bytes example_Message"

definition example_Bag_102 :: Bag where
  "example_Bag_102 =
     example_Bag\<lparr>version := 102,
       bag_file := cf_openRead example_file_102 (bag_file example_Bag)\<rparr>"

text \<open>
  The same version 1.02 bag in an engine that knows the topic \<open>/a\<close> as connection 0.
\<close>

definition example_Bag_102_known :: Bag where
  "example_Bag_102_known =
     example_Bag_102\<lparr>topic_connection_ids := [''/a'' \<mapsto> 0],
       connections := [(0, Some example_ConnectionInfo)]\<rparr>"

section \<open>Predicates for the proofs about writing\<close>

text \<open>
  \<open>hoare P m Q\<close>: when \<open>m\<close> starts in a state that satisfies \<open>P\<close> and returns
  normally, the value returned and the state reached satisfy \<open>Q\<close>.
\<close>

definition hoare :: "('s \<Rightarrow> bool) \<Rightarrow> ('s \<Rightarrow> ('e + 'a) \<times> 's) \<Rightarrow> ('a \<Rightarrow> 's \<Rightarrow> bool) \<Rightarrow> bool" where
  "hoare P m Q = (\<forall>s a s'. P s \<longrightarrow> m s = (Inr a, s') \<longrightarrow> Q a s')"

text \<open>
  The key under which lines 522 to 557 of \<^verbatim>\<open>bag.h\<close> look a connection up: the
  topic when no connection header is supplied, else the copy of the header with the
  topic stored under \<open>topic\<close>. \<open>connection_id_of\<close> is the id the engine holds for
  a key, in \<open>topic_connection_ids\<close> or in \<open>header_connection_ids\<close>.
  \<open>dense_ids\<close>: the keys of \<open>connections\<close> are \<open>0, \<dots>, n - 1\<close> in this order,
  each with a connection that carries its own id, and the ids held for the keys are
  exactly these, each for one key.
\<close>

definition connection_key :: "string \<Rightarrow> M_string option \<Rightarrow> string + M_string" where
  "connection_key topic connection_header =
     (case connection_header of
        None \<Rightarrow> Inl topic
      | Some h \<Rightarrow> Inr (map_set ''topic'' topic h))"

definition connection_id_of :: "Bag \<Rightarrow> string + M_string \<Rightarrow> u32 option" where
  "connection_id_of s k =
     (case k of Inl topic \<Rightarrow> topic_connection_ids s topic
              | Inr h \<Rightarrow> header_connection_ids s h)"

definition dense_ids :: "Bag \<Rightarrow> bool" where
  "dense_ids s =
     (map fst (connections s) = map of_nat [0..<length (connections s)]
      \<and> (\<forall>c\<in>set (connections s). \<exists>info. snd c = Some info \<and> ci_id info = fst c)
      \<and> (\<forall>k i. connection_id_of s k = Some i \<longrightarrow> unat i < length (connections s))
      \<and> (\<forall>n. n < length (connections s) \<longrightarrow> (\<exists>k. connection_id_of s k = Some (of_nat n)))
      \<and> (\<forall>k k' i. connection_id_of s k = Some i \<and> connection_id_of s k' = Some i \<longrightarrow> k = k'))"

text \<open>
  A file that is open and writable; an engine whose file is so and that does not
  encrypt. \<open>cf_total\<close> and \<open>total\<close>: from such a state the operation returns
  normally and leaves such a state, and keeps \<open>P\<close>.
\<close>

definition cf_ok :: "ChunkedFile \<Rightarrow> bool" where
  "cf_ok f = (cf_open f \<and> cf_writable f)"

definition cf_total :: "(ChunkedFile \<Rightarrow> ('e + 'a) \<times> ChunkedFile) \<Rightarrow> bool" where
  "cf_total g = (\<forall>f. cf_ok f \<longrightarrow> returned (g f) \<and> cf_ok (snd (g f)))"

definition ok :: "Bag \<Rightarrow> bool" where
  "ok s = (cf_ok (bag_file s) \<and> encryptor s = NoEncryptor)"

definition total :: "(Bag \<Rightarrow> bool) \<Rightarrow> (Bag \<Rightarrow> ('e + 'a) \<times> Bag) \<Rightarrow> bool" where
  "total P m = (\<forall>s. ok s \<and> P s \<longrightarrow> returned (m s) \<and> ok (snd (m s)) \<and> P (snd (m s)))"

abbreviation tot :: "(Bag \<Rightarrow> ('e + 'a) \<times> Bag) \<Rightarrow> bool" where
  "tot \<equiv> total (\<lambda>_. True)"

text \<open>The example engine with its file open for writing.\<close>

definition example_Bag_open :: Bag where
  "example_Bag_open = example_Bag\<lparr>bag_file := cf_openWrite (bag_file example_Bag)\<rparr>"

text \<open>
  The id under which lines 591 to 606 of \<^verbatim>\<open>bag.h\<close> file the index entry of a
  write, \<^verbatim>\<open>connection_info->id\<close>: that of the connection found by lines 522 to
  557, or of the one that lines 568 to 589 create.
\<close>

definition doWrite_index_key :: "string \<Rightarrow> Message \<Rightarrow> M_string option \<Rightarrow> Bag \<Rightarrow> u32" where
  "doWrite_index_key topic msg connection_header s =
     (let r = doWrite_connection_id topic connection_header s in
      case snd (fst r) of
        None \<Rightarrow> ci_id (new_ConnectionInfo (fst (fst r)) topic msg connection_header)
      | Some connection_info \<Rightarrow> ci_id connection_info)"

text \<open>
  The example engine open for writing in mode \<open>m\<close>, with a chunk threshold that no
  chunk exceeds.
\<close>

definition example_Bag_writing :: "BagMode \<Rightarrow> Bag" where
  "example_Bag_writing m = example_Bag_open\<lparr>mode := m, chunk_threshold := - 1\<rparr>"

text \<open>No connection of the engine is a null pointer.\<close>

definition connections_set :: "Bag \<Rightarrow> bool" where
  "connections_set s = (\<forall>c\<in>set (connections s). snd c \<noteq> None)"

text \<open>
  \<open>time_in_range t c\<close>: the time range recorded in the chunk info \<open>c\<close> brackets
  \<open>t\<close>. The messages written into the open chunk are those whose index entries
  \<open>curr_chunk_connection_indexes\<close> holds: a write puts the entry of its message
  there, and they are dropped when the chunk is closed. \<open>chunk_bracketed\<close>: while a
  chunk is open its time range is not empty and brackets the time of every such entry;
  while none is open there are no entries.
\<close>

definition time_in_range :: "Time \<Rightarrow> ChunkInfo \<Rightarrow> bool" where
  "time_in_range t chunk_info =
     (time_le (start_time chunk_info) t \<and> time_le t (end_time chunk_info))"

definition range_ok :: "ChunkInfo \<Rightarrow> (u32, IndexEntry list) std_map \<Rightarrow> bool" where
  "range_ok chunk_info idx =
     (time_le (start_time chunk_info) (end_time chunk_info)
      \<and> (\<forall>c\<in>set idx. \<forall>e\<in>set (snd c). time_in_range (time e) chunk_info))"


section \<open>The operations of the engine\<close>

text \<open>
  The operations on an engine: open a file in a mode (\<open>disk\<close> is the content the
  path names), write a message, close, and the two reads of a message instance,
  \<^verbatim>\<open>instantiate<T>\<close> and \<^verbatim>\<open>write\<close>. \<open>run\<close> is the engine after an
  operation, whatever its outcome.
\<close>

datatype 'T EngineOp =
    Op_open string BagMode
  | Op_write string Time Message "M_string option"
  | Op_close
  | Op_instantiate "'T MsgType" MessageInstance
  | Op_write_instance MessageInstance

fun run :: "(string \<Rightarrow> BagError + legacy_topic list) \<Rightarrow> 'T EngineOp \<Rightarrow> Bag \<Rightarrow> Bag" where
  "run legacy_index (Op_open disk m) s = snd (open_bag legacy_index disk m s)"
| "run legacy_index (Op_write topic t msg connection_header) s =
     snd (doWrite topic t msg connection_header s)"
| "run legacy_index Op_close s = snd (close s)"
| "run legacy_index (Op_instantiate T m) s = snd (instantiate T m s)"
| "run legacy_index (Op_write_instance m) s = snd (MessageInstance_write m s)"

section \<open>Properties\<close>

subsection \<open>Outcomes, frames and invariants\<close>

lemma andThen_Inl [simp]: "andThen (Inl e, s) f = (Inl e, s)"
  by (simp add: andThen_def)

lemma andThen_Inr [simp]: "andThen (Inr a, s) f = f a s"
  by (simp add: andThen_def)

lemma snd_andThen:
  "snd (andThen r f) = (case fst r of Inl e \<Rightarrow> snd r | Inr a \<Rightarrow> snd (f a (snd r)))"
  by (cases r) (auto simp: andThen_def split: sum.splits)

lemma fst_andThen:
  "fst (andThen r f) = (case fst r of Inl e \<Rightarrow> Inl e | Inr a \<Rightarrow> fst (f a (snd r)))"
  by (cases r) (auto simp: andThen_def split: sum.splits)

definition file_only :: "(Bag \<Rightarrow> ('e + 'a) \<times> Bag) \<Rightarrow> bool" where
  "file_only m = (\<forall>s. \<exists>f. snd (m s) = s\<lparr>bag_file := f\<rparr>)"

lemma file_only_on_file: "file_only (on_file f)"
  by (auto simp: file_only_def on_file_def split: prod.splits)

lemma file_only_andThen:
  assumes "file_only m" and "\<And>a. file_only (k a)"
  shows "file_only (\<lambda>s. andThen (m s) k)"
  unfolding file_only_def
proof
  fix s
  obtain f where f: "snd (m s) = s\<lparr>bag_file := f\<rparr>"
    using assms(1) by (auto simp: file_only_def)
  show "\<exists>f. snd (andThen (m s) k) = s\<lparr>bag_file := f\<rparr>"
  proof (cases "fst (m s)")
    case (Inl e)
    then show ?thesis using f by (auto simp: snd_andThen)
  next
    case (Inr a)
    obtain f' where "snd (k a (snd (m s))) = (snd (m s))\<lparr>bag_file := f'\<rparr>"
      using assms(2)[of a] by (auto simp: file_only_def)
    then show ?thesis using Inr f by (auto simp: snd_andThen)
  qed
qed

lemma file_only_forEach:
  assumes "\<And>x. file_only (g x)"
  shows "file_only (forEach g xs)"
proof (induction xs)
  case Nil
  show ?case unfolding file_only_def
  proof
    fix s :: Bag
    have "s = s\<lparr>bag_file := bag_file s\<rparr>" by simp
    then show "\<exists>f. snd (forEach g [] s) = s\<lparr>bag_file := f\<rparr>" by (metis forEach.simps(1) snd_conv)
  qed
next
  case (Cons x xs)
  have eq: "forEach g (x # xs) = (\<lambda>s. andThen (g x s) (\<lambda>_. forEach g xs))"
    by (rule ext) (simp add: andThen_def split: prod.splits sum.splits)
  show ?case unfolding eq by (rule file_only_andThen[OF assms]) (rule Cons.IH)
qed

lemma file_only_frame:
  assumes "file_only m"
  shows "mode (snd (m s)) = mode s \<and> version (snd (m s)) = version s
    \<and> compression (snd (m s)) = compression s
    \<and> chunk_threshold (snd (m s)) = chunk_threshold s
    \<and> bag_revision (snd (m s)) = bag_revision s
    \<and> file_size (snd (m s)) = file_size s
    \<and> file_header_pos (snd (m s)) = file_header_pos s
    \<and> index_data_pos (snd (m s)) = index_data_pos s
    \<and> connection_count (snd (m s)) = connection_count s
    \<and> chunk_count (snd (m s)) = chunk_count s
    \<and> chunk_open (snd (m s)) = chunk_open s
    \<and> curr_chunk_info (snd (m s)) = curr_chunk_info s
    \<and> curr_chunk_data_pos (snd (m s)) = curr_chunk_data_pos s
    \<and> topic_connection_ids (snd (m s)) = topic_connection_ids s
    \<and> header_connection_ids (snd (m s)) = header_connection_ids s
    \<and> connections (snd (m s)) = connections s
    \<and> chunks (snd (m s)) = chunks s
    \<and> connection_indexes (snd (m s)) = connection_indexes s
    \<and> curr_chunk_connection_indexes (snd (m s)) = curr_chunk_connection_indexes s
    \<and> header_buffer (snd (m s)) = header_buffer s
    \<and> record_buffer (snd (m s)) = record_buffer s
    \<and> chunk_buffer (snd (m s)) = chunk_buffer s
    \<and> decompress_buffer (snd (m s)) = decompress_buffer s
    \<and> outgoing_chunk_buffer (snd (m s)) = outgoing_chunk_buffer s
    \<and> current_buffer (snd (m s)) = current_buffer s
    \<and> decompressed_chunk (snd (m s)) = decompressed_chunk s
    \<and> encryptor (snd (m s)) = encryptor s"
proof -
  obtain f where "snd (m s) = s\<lparr>bag_file := f\<rparr>"
    using assms by (auto simp: file_only_def)
  then show ?thesis by simp
qed


lemma file_only_dep:
  assumes "\<And>x. file_only (m x)"
  shows "file_only (\<lambda>s. m (g s) s)"
  using assms unfolding file_only_def by blast

lemma file_only_bag_write: "file_only (bag_write d)"
  unfolding bag_write_def by (rule file_only_on_file)

lemma file_only_seek: "file_only (seek p origin)"
  unfolding seek_def by (rule file_only_on_file)

lemma file_only_writeHeader: "file_only (writeHeader hdr)"
  unfolding writeHeader_def by (rule file_only_on_file)

lemma file_only_writeDataLength: "file_only (writeDataLength n)"
  unfolding writeDataLength_def by (rule file_only_bag_write)

lemma file_only_writeChunkHeader: "file_only (writeChunkHeader c a b)"
  unfolding writeChunkHeader_def
  by (rule file_only_andThen[OF file_only_writeHeader]) (rule file_only_writeDataLength)

lemma file_only_writeConnectionRecord: "file_only (writeConnectionRecord info enc)"
proof (cases enc)
  case True
  have a: "file_only (\<lambda>s. on_file (writeEncryptedHeader (encryptor s) cf_writeHeader h) s)" for h
    by (rule file_only_dep[where m = "\<lambda>e. on_file (writeEncryptedHeader e cf_writeHeader h)"])
       (rule file_only_on_file)
  show ?thesis using True unfolding writeConnectionRecord_def Let_def
    by (simp add: file_only_andThen[OF a a])
next
  case False
  then show ?thesis unfolding writeConnectionRecord_def Let_def
    by (simp add: file_only_andThen[OF file_only_writeHeader file_only_writeHeader])
qed

lemma file_only_writeIndexEntry: "file_only (writeIndexEntry e)"
  unfolding writeIndexEntry_def
  by (rule file_only_andThen[OF file_only_bag_write]) (rule file_only_bag_write)

lemma file_only_writeIndexRecord: "file_only (writeIndexRecord ce)"
  unfolding writeIndexRecord_def Let_def
  by (intro file_only_andThen file_only_writeHeader file_only_writeDataLength
        file_only_forEach file_only_writeIndexEntry)

lemma file_only_writeIndexRecords: "file_only writeIndexRecords"
proof -
  have "file_only (\<lambda>s. forEach writeIndexRecord (curr_chunk_connection_indexes s) s)"
    by (rule file_only_dep[where m = "\<lambda>xs. forEach writeIndexRecord xs"])
       (rule file_only_forEach[OF file_only_writeIndexRecord])
  then show ?thesis by (simp add: writeIndexRecords_def[abs_def])
qed

lemmas frame_bag_write [simp] = file_only_frame[OF file_only_bag_write]
lemmas frame_seek [simp] = file_only_frame[OF file_only_seek]
lemmas frame_on_file [simp] = file_only_frame[OF file_only_on_file]
lemmas frame_writeHeader [simp] = file_only_frame[OF file_only_writeHeader]
lemmas frame_writeDataLength [simp] = file_only_frame[OF file_only_writeDataLength]
lemmas frame_writeChunkHeader [simp] = file_only_frame[OF file_only_writeChunkHeader]
lemmas frame_writeConnectionRecord [simp] = file_only_frame[OF file_only_writeConnectionRecord]
lemmas frame_writeIndexRecords [simp] = file_only_frame[OF file_only_writeIndexRecords]


definition preserved :: "(Bag \<Rightarrow> bool) \<Rightarrow> (Bag \<Rightarrow> ('e + 'a) \<times> Bag) \<Rightarrow> bool" where
  "preserved I m = (\<forall>s. I s \<longrightarrow> I (snd (m s)))"

lemma preservedD: "preserved I m \<Longrightarrow> I s \<Longrightarrow> I (snd (m s))"
  by (simp add: preserved_def)

lemma preserved_andThen:
  assumes "preserved I m" and "\<And>a. preserved I (k a)"
  shows "preserved I (\<lambda>s. andThen (m s) k)"
  using assms unfolding preserved_def by (auto simp: snd_andThen split: sum.splits)

lemma preserved_return:
  assumes "\<And>s. I s \<Longrightarrow> I (h s)"
  shows "preserved I (\<lambda>s. (r s, h s))"
  using assms by (simp add: preserved_def)

lemma preserved_if:
  assumes "preserved I m1" and "preserved I m2"
  shows "preserved I (\<lambda>s. if b s then m1 s else m2 s)"
  using assms by (simp add: preserved_def)

lemma preserved_dep:
  assumes "\<And>x. preserved I (m x)"
  shows "preserved I (\<lambda>s. m (g s) s)"
  using assms unfolding preserved_def by blast

lemma preserved_file_only:
  assumes "file_only m" and "\<And>s f. I (s\<lparr>bag_file := f\<rparr>) = I s"
  shows "preserved I m"
  unfolding preserved_def
proof (intro allI impI)
  fix s assume "I s"
  obtain f where "snd (m s) = s\<lparr>bag_file := f\<rparr>" using assms(1) by (auto simp: file_only_def)
  then show "I (snd (m s))" using \<open>I s\<close> assms(2) by simp
qed

lemma stopWritingChunk_preserved:
  assumes f: "\<And>s f. I (s\<lparr>bag_file := f\<rparr>) = I s"
    and "\<And>s x. I (s\<lparr>chunks := x\<rparr>) = I s"
    and "\<And>s x. I (s\<lparr>curr_chunk_connection_indexes := x\<rparr>) = I s"
    and "\<And>s x. I (s\<lparr>chunk_open := x\<rparr>) = I s"
  shows "preserved I stopWritingChunk"
proof -
  note fo = preserved_file_only[OF _ f]
  have enc: "preserved I (\<lambda>s. on_file (encryptChunk (encryptor s) a (curr_chunk_data_pos s)) s)" for a
    by (rule preserved_dep[where m = "\<lambda>x. on_file (encryptChunk (fst x) a (snd x))"
          and g = "\<lambda>s. (encryptor s, curr_chunk_data_pos s)", simplified])
       (rule fo[OF file_only_on_file])
  have sk: "preserved I (\<lambda>s. seek (pos (curr_chunk_info s)) ios_beg s)"
    by (rule preserved_dep[where m = "\<lambda>x. seek x ios_beg"]) (rule fo[OF file_only_seek])
  have wch: "preserved I (\<lambda>s. writeChunkHeader (compression s) a b s)" for a b
    by (rule preserved_dep[where m = "\<lambda>x. writeChunkHeader x a b"])
       (rule fo[OF file_only_writeChunkHeader])
  show ?thesis
    unfolding stopWritingChunk_def[abs_def]
    by (intro preserved_andThen fo[OF file_only_on_file] enc sk wch fo[OF file_only_seek]
          fo[OF file_only_writeIndexRecords] preserved_return)
       (simp add: assms)
qed


lemma preserved_comp:
  assumes "\<And>s. I s \<Longrightarrow> I (h s)" and "preserved I m"
  shows "preserved I (\<lambda>s. m (h s))"
  using assms by (simp add: preserved_def)

lemma startWritingChunk_preserved:
  assumes f: "\<And>s f. I (s\<lparr>bag_file := f\<rparr>) = I s"
    and "\<And>s x. I (s\<lparr>curr_chunk_info := x\<rparr>) = I s"
    and "\<And>s x. I (s\<lparr>curr_chunk_data_pos := x\<rparr>) = I s"
    and "\<And>s x. I (s\<lparr>chunk_open := x\<rparr>) = I s"
  shows "preserved I (startWritingChunk t)"
proof -
  note fo = preserved_file_only[OF _ f]
  have wch: "preserved I (\<lambda>s. writeChunkHeader (compression s) a b s)" for a b
    by (rule preserved_dep[where m = "\<lambda>x. writeChunkHeader x a b"])
       (rule fo[OF file_only_writeChunkHeader])
  have swm: "preserved I (\<lambda>s. on_file (cf_set_write_mode (compression s)) s)"
    by (rule preserved_dep[where m = "\<lambda>x. on_file (cf_set_write_mode x)"])
       (rule fo[OF file_only_on_file])
  have body: "preserved I (\<lambda>s. andThen (writeChunkHeader (compression s) 0 0 s) (\<lambda>_ s.
      andThen (on_file (cf_set_write_mode (compression s)) s) (\<lambda>_ s.
        (Inr (),
         s\<lparr>curr_chunk_info :=
             update_time_range t
               \<lparr>start_time = TIME_INFINITY, end_time = TIME_INFINITY, pos = p,
                connection_counts = []\<rparr>,
           curr_chunk_data_pos := cf_getOffset (bag_file s),
           chunk_open := True\<rparr>))))" for p
    by (intro preserved_andThen wch swm preserved_return) (simp add: assms)
  show ?thesis
    unfolding startWritingChunk_def[abs_def] Let_def
    by (rule preserved_dep[where g = "\<lambda>s. cf_getOffset (bag_file s)"]) (rule body)
qed

lemma writeMessageDataRecord_preserved:
  assumes f: "\<And>s f. I (s\<lparr>bag_file := f\<rparr>) = I s"
    and "\<And>s x. I (s\<lparr>record_buffer := x\<rparr>) = I s"
    and "\<And>s x. I (s\<lparr>file_size := x\<rparr>) = I s"
    and "\<And>s x. I (s\<lparr>outgoing_chunk_buffer := x\<rparr>) = I s"
    and "\<And>s. I s \<Longrightarrow> I (s\<lparr>curr_chunk_info := update_time_range t (curr_chunk_info s)\<rparr>)"
  shows "preserved I (writeMessageDataRecord conn_id t msg)"
proof -
  note fo = preserved_file_only[OF _ f]
  have wr: "preserved I (\<lambda>s. bag_write (g s) s)" for g
    by (rule preserved_dep[where m = bag_write]) (rule fo[OF file_only_bag_write])
  have fin: "I s \<Longrightarrow> I (s\<lparr>outgoing_chunk_buffer := X,
      curr_chunk_info := update_time_range t (curr_chunk_info s)\<rparr>)" for s X
    using assms(5)[of "s\<lparr>outgoing_chunk_buffer := X\<rparr>"] assms(4) by simp
  show ?thesis
    unfolding writeMessageDataRecord_def[abs_def] Let_def
    by (rule preserved_comp[where h = "\<lambda>s. s\<lparr>record_buffer := buffer_memcpy 0
            (take (unat (serializationLength msg)) (msg_bytes msg))
            (setSize (serializationLength msg) (record_buffer s))\<rparr>"],
        simp add: assms,
        intro preserved_andThen fo[OF file_only_seek] fo[OF file_only_writeHeader]
          fo[OF file_only_writeDataLength] wr preserved_return)
       (simp_all add: assms(1-4) fin)
qed

lemma doWrite_connection_info_preserved:
  assumes f: "\<And>s f. I (s\<lparr>bag_file := f\<rparr>) = I s"
    and o: "\<And>s x. I (s\<lparr>outgoing_chunk_buffer := x\<rparr>) = I s"
    and c: "\<And>s. \<lbrakk>I s; ci = None\<rbrakk> \<Longrightarrow>
             I (s\<lparr>connections := map_set conn_id
                   (Some (new_ConnectionInfo conn_id topic msg h)) (connections s)\<rparr>)"
  shows "preserved I (doWrite_connection_info conn_id ci topic msg h)"
proof (cases ci)
  case None
  note fo = preserved_file_only[OF _ f]
  show ?thesis
    unfolding doWrite_connection_info_def[abs_def] Let_def None option.case
    by (rule preserved_comp[where h = "\<lambda>s. s\<lparr>connections := map_set conn_id
            (Some (new_ConnectionInfo conn_id topic msg h)) (connections s)\<rparr>"],
        simp add: c None,
        intro preserved_andThen fo[OF file_only_writeConnectionRecord] preserved_return)
       (simp add: o)
next
  case (Some info)
  show ?thesis
    unfolding doWrite_connection_info_def[abs_def] Some option.case
    by (rule preserved_return) simp
qed

lemma doWrite_block_preserved:
  assumes f: "\<And>s f. I (s\<lparr>bag_file := f\<rparr>) = I s"
    and fs: "\<And>s x. I (s\<lparr>file_size := x\<rparr>) = I s"
    and st: "preserved I (\<lambda>s. if \<not> chunk_open s then startWritingChunk t s else (Inr (), s))"
    and ci: "preserved I (doWrite_connection_info conn_id ci topic msg h)"
    and ix: "\<And>info s. I s \<Longrightarrow> I (doWrite_index info t s)"
    and wm: "preserved I (writeMessageDataRecord conn_id t msg)"
    and sp: "preserved I (\<lambda>s. if getChunkOffset s > chunk_threshold s
               then andThen (stopWritingChunk s) (\<lambda>_ s.
                 (Inr (), s\<lparr>outgoing_chunk_buffer := setSize 0 (outgoing_chunk_buffer s),
                           curr_chunk_info := (curr_chunk_info s)\<lparr>pos := - 1\<rparr>\<rparr>))
               else (Inr (), s))"
  shows "preserved I (doWrite_block conn_id ci topic t msg h)"
proof -
  note fo = preserved_file_only[OF _ f]
  have wmi: "preserved I (\<lambda>s. writeMessageDataRecord conn_id t msg (doWrite_index info t s))" for info
    by (rule preserved_comp[OF ix wm])
  show ?thesis
    unfolding doWrite_block_def[abs_def] Let_def
    by (intro preserved_andThen fo[OF file_only_seek] st ci wmi sp preserved_return)
       (simp add: fs)
qed


lemma time_le_iff: "time_le a b \<longleftrightarrow> \<not> time_less b a"
  by (auto simp: time_le_def time_less_def)


lemma stop_part_preserved:
  assumes f: "\<And>s f. I (s\<lparr>bag_file := f\<rparr>) = I s"
    and "\<And>s x. I (s\<lparr>chunks := x\<rparr>) = I s"
    and "\<And>s x. I (s\<lparr>curr_chunk_connection_indexes := x\<rparr>) = I s"
    and "\<And>s x. I (s\<lparr>chunk_open := x\<rparr>) = I s"
    and "\<And>s x. I (s\<lparr>outgoing_chunk_buffer := x\<rparr>) = I s"
    and "\<And>s x. I (s\<lparr>curr_chunk_info := x\<rparr>) = I s"
  shows "preserved I (\<lambda>s. if getChunkOffset s > chunk_threshold s
               then andThen (stopWritingChunk s) (\<lambda>_ s.
                 (Inr (), s\<lparr>outgoing_chunk_buffer := setSize 0 (outgoing_chunk_buffer s),
                           curr_chunk_info := (curr_chunk_info s)\<lparr>pos := - 1\<rparr>\<rparr>))
               else (Inr (), s))"
  by (intro preserved_if preserved_andThen stopWritingChunk_preserved preserved_return)
     (simp_all add: assms)

lemma doWrite_block_bag_revision:
  "bag_revision (snd (doWrite_block conn_id ci topic t msg h s)) = bag_revision s"
proof -
  have "preserved (\<lambda>s'. bag_revision s' = bag_revision s) (doWrite_block conn_id ci topic t msg h)"
    by (intro doWrite_block_preserved preserved_if startWritingChunk_preserved
          doWrite_connection_info_preserved writeMessageDataRecord_preserved
          stop_part_preserved preserved_return)
       (simp_all add: doWrite_index_def Let_def)
  then show ?thesis by (simp add: preserved_def)
qed

lemma doWrite_connection_id_bag_revision:
  "bag_revision (snd (doWrite_connection_id topic h s)) = bag_revision s"
  by (simp add: doWrite_connection_id_def Let_def split: option.splits)

subsection \<open>The time check of a write\<close>

text \<open>
  Claim C2. A write whose time is strictly less than \<open>TIME_MIN = (0,1)\<close> throws the
  \<^verbatim>\<open>BagException\<close> of the time check (the specification's InvalidArgument) and
  leaves the whole engine state as it was: the file's bytes, its length and its position
  are those before the call. A write whose time is at least \<open>TIME_MIN\<close> passes the
  check: whatever its outcome, it has executed the statement behind the check, which
  increments \<open>bag_revision\<close>.
\<close>

theorem doWrite_time_check:
  "(time_less t TIME_MIN \<longrightarrow>
      doWrite topic t msg connection_header s =
        (Inl (BagException ''Tried to insert a message with time less than ros::TIME_MIN''), s))
   \<and> (time_le TIME_MIN t \<longrightarrow>
        bag_revision (snd (doWrite topic t msg connection_header s)) = bag_revision s + 1)"
  by (simp add: doWrite_def Let_def time_le_iff doWrite_block_bag_revision
        doWrite_connection_id_bag_revision)

theorem doWrite_time_check_witness:
  "time_less \<lparr>sec = 0, nsec = 0\<rparr> TIME_MIN
   \<and> doWrite ''/a'' \<lparr>sec = 0, nsec = 0\<rparr>
        \<lparr>msg_datatype = ''t'', msg_md5sum = ''abc'', msg_definition = ''d'', msg_bytes = ''xy''\<rparr>
        None (Bag_init 16 (\<lambda>c x. x) (\<lambda>c x. Inr x)) =
        (Inl (BagException ''Tried to insert a message with time less than ros::TIME_MIN''),
         Bag_init 16 (\<lambda>c x. x) (\<lambda>c x. Inr x))
   \<and> time_le TIME_MIN \<lparr>sec = 10, nsec = 0\<rparr>
   \<and> bag_revision (snd (doWrite ''/a'' \<lparr>sec = 10, nsec = 0\<rparr>
        \<lparr>msg_datatype = ''t'', msg_md5sum = ''abc'', msg_definition = ''d'', msg_bytes = ''xy''\<rparr>
        None (Bag_init 16 (\<lambda>c x. x) (\<lambda>c x. Inr x)))) =
       bag_revision (Bag_init 16 (\<lambda>c x. x) (\<lambda>c x. Inr x)) + 1"
proof -
  have a: "time_less \<lparr>sec = 0, nsec = 0\<rparr> TIME_MIN"
    by (simp add: time_less_def TIME_MIN_def)
  have b: "time_le TIME_MIN \<lparr>sec = 10, nsec = 0\<rparr>"
    by (simp add: time_le_def TIME_MIN_def)
  show ?thesis
    using a b doWrite_time_check[of "\<lparr>sec = 0, nsec = 0\<rparr>" "''/a''" _ None
        "Bag_init 16 (\<lambda>c x. x) (\<lambda>c x. Inr x)"]
      doWrite_time_check[of "\<lparr>sec = 10, nsec = 0\<rparr>" "''/a''" _ None
        "Bag_init 16 (\<lambda>c x. x) (\<lambda>c x. Inr x)"]
    by blast
qed

subsection \<open>Maps, multisets and the order of index entries\<close>



lemma doWrite_connection_id_mode_indexes:
  "mode (snd (doWrite_connection_id topic h s)) = mode s \<and>
   connection_indexes (snd (doWrite_connection_id topic h s)) = connection_indexes s"
  by (simp add: doWrite_connection_id_def Let_def split: option.splits)

lemma doWrite_block_Write_indexes:
  assumes "mode s = Write"
  shows "connection_indexes (snd (doWrite_block conn_id ci topic t msg h s)) = connection_indexes s"
proof -
  have "preserved (\<lambda>s'. mode s' = Write \<and> connection_indexes s' = connection_indexes s)
          (doWrite_block conn_id ci topic t msg h)"
    by (intro doWrite_block_preserved preserved_if startWritingChunk_preserved
          doWrite_connection_info_preserved writeMessageDataRecord_preserved
          stop_part_preserved preserved_return)
       (simp_all add: doWrite_index_def Let_def)
  then show ?thesis using assms by (simp add: preserved_def)
qed

lemma time_less_asym: "time_less a b \<Longrightarrow> \<not> time_less b a"
  by (auto simp: time_less_def split: if_splits)

lemma time_less_trans: "time_less a b \<Longrightarrow> time_less b c \<Longrightarrow> time_less a c"
  by (auto simp: time_less_def split: if_splits)

lemma time_less_total: "\<not> time_less a b \<Longrightarrow> \<not> time_less b a \<Longrightarrow> sec a = sec b \<and> nsec a = nsec b"
  by (auto simp: time_less_def split: if_splits)

lemma time_less_cotrans: "time_less a c \<Longrightarrow> time_less a b \<or> time_less b c"
  by (auto simp: time_less_def split: if_splits)










lemma index_of_Nil: "index_of [] k = []"
  by (simp add: index_of_def)

subsection \<open>Record framing: what is written is read back\<close>

lemma message_record_header_eq:
  "message_record_header c t =
     [(''conn'', u32_bytes c), (''op'', u8_bytes OP_MSG_DATA), (''time'', time_bytes t)]"
  by (simp add: message_record_header_def TIME_FIELD_NAME_def CONNECTION_FIELD_NAME_def
        OP_FIELD_NAME_def)

lemma length_le_bytes [simp]: "length (le_bytes n v) = n"
  by (induction n arbitrary: v) auto

lemma le_nat_le_bytes: "le_nat (le_bytes n v) = v mod 256 ^ n"
proof (induction n arbitrary: v)
  case 0
  then show ?case by simp
next
  case (Suc n)
  have "le_nat (le_bytes (Suc n) v) = v mod 256 + 256 * ((v div 256) mod 256 ^ n)"
    by (simp add: Suc)
  also have "\<dots> = v mod 256 ^ Suc n"
    by (simp add: mod_mult2_eq)
  finally show ?case .
qed

lemma bytes_u32_u32_bytes [simp]: "bytes_u32 (u32_bytes w) = w"
proof -
  have "unat w < 256 ^ 4" using unsigned_less[of w, where ?'a = nat] by simp
  then show ?thesis by (simp add: bytes_u32_def u32_bytes_def le_nat_le_bytes)
qed

lemma bytes_u64_u64_bytes [simp]: "bytes_u64 (u64_bytes w) = w"
proof -
  have "unat w < 256 ^ 8" using unsigned_less[of w, where ?'a = nat] by simp
  then show ?thesis by (simp add: bytes_u64_def u64_bytes_def le_nat_le_bytes)
qed

lemma bytes_u8_u8_bytes [simp]: "bytes_u8 (u8_bytes w) = w"
proof -
  have "unat w < 256 ^ 1" using unsigned_less[of w, where ?'a = nat] by simp
  then show ?thesis by (simp add: bytes_u8_def u8_bytes_def le_nat_le_bytes del: le_bytes.simps)
qed

lemma length_u32_bytes [simp]: "length (u32_bytes w) = 4"
  by (simp add: u32_bytes_def)

lemma length_u64_bytes [simp]: "length (u64_bytes w) = 8"
  by (simp add: u64_bytes_def)

lemma length_u8_bytes [simp]: "length (u8_bytes w) = 1"
  by (simp add: u8_bytes_def)

lemma length_time_bytes [simp]: "length (time_bytes t) = 8"
  by (simp add: time_bytes_def)

lemma bytes_time_time_bytes [simp]: "bytes_time (time_bytes t) = t"
  by (simp add: bytes_time_def time_bytes_def)


lemma split_field_eq:
  "CHR ''='' \<notin> set k \<Longrightarrow> split_field (k @ CHR ''='' # v) = Some (k, v)"
  by (induction k) (auto simp: split_field_def)

lemma map_find_None: "\<forall>kv\<in>set m. fst kv \<noteq> k \<Longrightarrow> map_find m k = None"
  by (induction m) auto

lemma map_set_append:
  "\<forall>kv\<in>set m. fst kv < k \<Longrightarrow> map_set k v m = m @ [(k, v)]"
  by (induction m) auto

lemma length_field_bytes [simp]: "length (field_bytes kv) = 4 + (length (fst kv) + 1 + length (snd kv))"
  by (simp add: field_bytes_def)

lemma unat_of_nat_32: "n < 2 ^ 32 \<Longrightarrow> unat (of_nat n :: u32) = n"
  by (simp add: unat_of_nat)

lemma take_length_app: "take (length xs) (xs @ ys) = xs"
  by simp

lemma drop_length_app: "drop (length xs) (xs @ ys) = ys"
  by simp

lemma parse_fields_step:
  assumes "CHR ''='' \<notin> set k" and "length k + 1 + length v < 2 ^ 32"
  shows "parse_fields (field_bytes (k, v) @ rest) acc =
           (if map_find acc k \<noteq> None then None else parse_fields rest (map_set k v acc))"
proof -
  let ?n = "length k + 1 + length v"
  let ?bs = "field_bytes (k, v) @ rest"
  have fb: "?bs = u32_bytes (of_nat ?n) @ (k @ CHR ''='' # v @ rest)"
    by (simp add: field_bytes_def)
  have t4: "take 4 ?bs = u32_bytes (of_nat ?n)" unfolding fb by simp
  have d4: "drop 4 ?bs = k @ CHR ''='' # v @ rest" unfolding fb by simp
  have "bytes_u32 (take 4 ?bs) = of_nat ?n"
    by (simp only: t4 bytes_u32_u32_bytes)
  then have n: "unat (bytes_u32 (take 4 ?bs)) = ?n"
    using unat_of_nat_32[OF assms(2)] by simp
  have ap: "k @ CHR ''='' # v @ rest = (k @ CHR ''='' # v) @ rest" by simp
  have ln: "?n = length (k @ CHR ''='' # v)" by simp
  have tk: "take ?n (drop 4 ?bs) = k @ CHR ''='' # v"
    unfolding d4 ap ln by (rule take_length_app)
  have dr: "drop ?n (drop 4 ?bs) = rest"
    unfolding d4 ap ln by (rule drop_length_app)
  have ne: "?bs \<noteq> []" by (simp add: field_bytes_def u32_bytes_def)
  have len: "\<not> length ?bs < 4" by simp
  have len2: "\<not> length (drop 4 ?bs) < ?n" unfolding d4 by simp
  show ?thesis
    by (subst parse_fields.simps)
       (simp only: ne len n len2 tk dr split_field_eq[OF assms(1)] if_False option.case
          fst_conv snd_conv)
qed

lemma parse_fields_header_bytes:
  assumes "wf_header m" and "\<forall>kv\<in>set acc. \<forall>kv'\<in>set m. fst kv < fst kv'"
  shows "parse_fields (header_bytes m) acc = Some (acc @ m)"
  using assms
proof (induction m arbitrary: acc)
  case Nil
  then show ?case by (simp add: header_bytes_def)
next
  case (Cons kv m)
  obtain k v where kv: "kv = (k, v)" by (cases kv)
  have wf: "wf_header m" using Cons.prems(1) by (simp add: wf_header_def)
  have k: "CHR ''='' \<notin> set k" "length k + 1 + length v < 2 ^ 32"
    using Cons.prems(1) by (auto simp: wf_header_def kv)
  have lt: "\<forall>x\<in>set acc. fst x < k" using Cons.prems(2) by (simp add: kv)
  then have nf: "map_find acc k = None" by (intro map_find_None) auto
  have ms: "map_set k v acc = acc @ [(k, v)]" using lt by (rule map_set_append)
  have lt': "\<forall>x\<in>set (acc @ [(k, v)]). \<forall>y\<in>set m. fst x < fst y"
    using Cons.prems by (auto simp: wf_header_def kv)
  have "parse_fields (header_bytes (kv # m)) acc = parse_fields (header_bytes m) (acc @ [(k, v)])"
    using parse_fields_step[OF k, of "header_bytes m" acc] nf ms
    by (simp add: header_bytes_def kv)
  also have "\<dots> = Some ((acc @ [(k, v)]) @ m)"
    by (rule Cons.IH[OF wf lt'])
  finally show ?case by (simp add: kv)
qed

lemma parse_header_header_bytes: "wf_header m \<Longrightarrow> parse_header (header_bytes m) = Some m"
  using parse_fields_header_bytes[of m "[]"] by (simp add: parse_header_def)

subsection \<open>Instantiating a message\<close>

lemma preserved_option_case:
  assumes "preserved I m1" and "\<And>x. preserved I (m2 x)"
  shows "preserved I (\<lambda>s. case a of None \<Rightarrow> m1 s | Some x \<Rightarrow> m2 x s)"
  using assms by (cases a) simp_all

lemma preserved_sum_case:
  assumes "\<And>x. preserved I (m1 x)" and "\<And>x. preserved I (m2 x)"
  shows "preserved I (\<lambda>s. case a of Inl x \<Rightarrow> m1 x s | Inr x \<Rightarrow> m2 x s)"
  using assms by (cases a) simp_all



lemmas preserved_intros =
  preserved_andThen preserved_return preserved_if preserved_option_case preserved_sum_case

lemma file_only_bag_read: "file_only (bag_read n)"
  unfolding bag_read_def by (rule file_only_on_file)

lemma file_only_readHeader: "file_only readHeader"
  unfolding readHeader_def[abs_def] by (rule file_only_on_file)

lemma readDataLength_preserved:
  assumes f: "\<And>s f. I (s\<lparr>bag_file := f\<rparr>) = I s"
  shows "preserved I readDataLength"
  unfolding readDataLength_def[abs_def]
  by (intro preserved_intros preserved_file_only[OF file_only_bag_read f]) simp

lemma readChunkHeader_preserved:
  assumes f: "\<And>s f. I (s\<lparr>bag_file := f\<rparr>) = I s"
  shows "preserved I readChunkHeader"
  unfolding readChunkHeader_def[abs_def]
  by (intro preserved_intros preserved_file_only[OF file_only_readHeader f]
        readDataLength_preserved f)
     simp_all

lemma decompressChunk_preserved:
  assumes f: "\<And>s f. I (s\<lparr>bag_file := f\<rparr>) = I s"
    and "\<And>s x. I (s\<lparr>decompress_buffer := x\<rparr>) = I s"
    and "\<And>s x. I (s\<lparr>current_buffer := x\<rparr>) = I s"
    and "\<And>s x. I (s\<lparr>decompressed_chunk := x\<rparr>) = I s"
  shows "preserved I (decompressChunk p)"
proof -
  have dc: "preserved I (\<lambda>s. on_file (decryptChunk (encryptor s) h) s)" for h
    by (rule preserved_dep[where m = "\<lambda>x. on_file (decryptChunk x h)"])
       (rule preserved_file_only[OF file_only_on_file f])
  have last: "preserved I (\<lambda>s. case (if c = Uncompressed then Inr raw
                  else cf_decompress (bag_file s) c raw) of
             Inl e \<Rightarrow> (Inl e, s)
           | Inr d \<Rightarrow> (Inr (),
                    s\<lparr>decompress_buffer := store_buffer u d (decompress_buffer s),
                      current_buffer := DecompressBuffer,
                      decompressed_chunk := p\<rparr>))" for c raw u
    by (auto simp: preserved_def assms split: sum.splits)
  show ?thesis
    unfolding decompressChunk_def[abs_def]
    by (intro preserved_intros preserved_file_only[OF file_only_seek f]
          readChunkHeader_preserved f dc last)
       simp_all
qed

lemma readMessageDataRecord102_preserved:
  assumes f: "\<And>s f. I (s\<lparr>bag_file := f\<rparr>) = I s"
    and "\<And>s x. I (s\<lparr>record_buffer := x\<rparr>) = I s"
    and "\<And>s x. I (s\<lparr>current_buffer := x\<rparr>) = I s"
  shows "preserved I (readMessageDataRecord102 p)"
  unfolding readMessageDataRecord102_def[abs_def]
  by (intro preserved_intros preserved_file_only[OF file_only_seek f]
        preserved_file_only[OF file_only_readHeader f] readDataLength_preserved f
        preserved_file_only[OF file_only_bag_read f])
     (simp_all add: assms)

lemma length_framed_header: "length (framed_header hdr) = 4 + length (header_bytes hdr)"
  by (simp add: framed_header_def)

lemma cf_read_at:
  assumes "cf_open f" and "drop (cf_offset f) (cf_bytes f) = d @ rest"
    and "cf_offset f \<le> length (cf_bytes f)"
  shows "cf_read (length d) f = (Inr d, f\<lparr>cf_offset := cf_offset f + length d\<rparr>)"
proof -
  have "length (drop (cf_offset f) (cf_bytes f)) = length d + length rest"
    by (simp only: assms(2) length_append)
  then have len: "\<not> length (cf_bytes f) < cf_offset f + length d"
    using assms(3) by simp
  have "take (length d) (drop (cf_offset f) (cf_bytes f)) = d"
    by (simp only: assms(2) take_length_app)
  then show ?thesis using assms(1) len by (simp add: cf_read_def)
qed

lemma drop_drop_app:
  assumes "drop n xs = d @ rest"
  shows "drop (n + length d) xs = rest"
proof -
  have "drop (n + length d) xs = drop (length d) (drop n xs)" by (simp add: add.commute)
  then show ?thesis by (simp only: assms drop_length_app)
qed

lemma offset_le_app:
  assumes "drop n xs = d @ rest" and "n \<le> length xs"
  shows "n + length d \<le> length xs"
proof -
  have "length (drop n xs) = length d + length rest" by (simp only: assms(1) length_append)
  then show ?thesis using assms(2) by simp
qed

lemma cf_readHeader_at:
  assumes o: "cf_open f" and d: "drop (cf_offset f) (cf_bytes f) = framed_header hdr @ rest"
    and le: "cf_offset f \<le> length (cf_bytes f)"
    and wf: "wf_header hdr" and len: "length (header_bytes hdr) < 2 ^ 32"
  shows "cf_readHeader f =
           (Inr (Some hdr), f\<lparr>cf_offset := cf_offset f + length (framed_header hdr)\<rparr>)"
proof -
  let ?l = "u32_bytes (of_nat (length (header_bytes hdr)))"
  let ?f1 = "f\<lparr>cf_offset := cf_offset f + 4\<rparr>"
  have d1: "drop (cf_offset f) (cf_bytes f) = ?l @ (header_bytes hdr @ rest)"
    using d by (simp add: framed_header_def)
  have r1: "cf_read 4 f = (Inr ?l, ?f1)"
    using cf_read_at[OF o d1 le] by simp
  have d2: "drop (cf_offset ?f1) (cf_bytes ?f1) = header_bytes hdr @ rest"
    using drop_drop_app[OF d1] by simp
  have le2: "cf_offset ?f1 \<le> length (cf_bytes ?f1)"
    using offset_le_app[OF d1 le] by simp
  have n: "unat (of_nat (length (header_bytes hdr)) :: u32) = length (header_bytes hdr)"
    using len by (simp add: unat_of_nat_32)
  have r2: "cf_read (length (header_bytes hdr)) ?f1 =
              (Inr (header_bytes hdr), ?f1\<lparr>cf_offset := cf_offset ?f1 + length (header_bytes hdr)\<rparr>)"
    using o by (intro cf_read_at[OF _ d2 le2]) simp
  show ?thesis
    by (simp add: cf_readHeader_def r1 n r2 parse_header_header_bytes[OF wf] length_framed_header
          add.assoc)
qed

lemma readHeaderFromBuffer_at:
  assumes d: "drop (unat off) (buffer_contents b) = framed_header hdr @ u32_bytes n @ rest"
    and wf: "wf_header hdr" and len: "length (header_bytes hdr) < 2 ^ 32"
  shows "readHeaderFromBuffer b off = Inr (hdr, n, of_nat (length (header_bytes hdr)) + 8)"
proof -
  let ?l = "u32_bytes (of_nat (length (header_bytes hdr)))"
  let ?bs = "drop (unat off) (buffer_contents b)"
  have d1: "?bs = ?l @ (header_bytes hdr @ u32_bytes n @ rest)"
    using d by (simp add: framed_header_def)
  have l4: "\<not> length ?bs < 4" unfolding d1 by simp
  have t4: "take 4 ?bs = ?l" unfolding d1 by simp
  have d4: "drop 4 ?bs = header_bytes hdr @ (u32_bytes n @ rest)" unfolding d1 by simp
  have n': "unat (of_nat (length (header_bytes hdr)) :: u32) = length (header_bytes hdr)"
    using len by (simp add: unat_of_nat_32)
  have l2: "\<not> length (drop 4 ?bs) < length (header_bytes hdr) + 4" unfolding d4 by simp
  have tk: "take (length (header_bytes hdr)) (drop 4 ?bs) = header_bytes hdr"
    unfolding d4 by (rule take_length_app)
  have dr: "drop (length (header_bytes hdr)) (drop 4 ?bs) = u32_bytes n @ rest"
    unfolding d4 by (rule drop_length_app)
  have t4': "take 4 (u32_bytes n @ rest) = u32_bytes n" by simp
  show ?thesis
    unfolding readHeaderFromBuffer_def Let_def
    by (simp only: l4 t4 bytes_u32_u32_bytes n' l2 tk dr t4' if_False
          parse_header_header_bytes[OF wf] option.case)
qed

lemma wf_message_record_header: "wf_header (message_record_header c t)"
  by (simp add: message_record_header_eq wf_header_def)

lemma length_message_record_header: "length (header_bytes (message_record_header c t)) = 38"
  by (simp add: message_record_header_eq header_bytes_def)

lemma map_find_message_record_header:
  "map_find (message_record_header c t) k =
     (if k = ''conn'' then Some (u32_bytes c)
      else if k = ''op'' then Some (u8_bytes OP_MSG_DATA)
      else if k = ''time'' then Some (time_bytes t) else None)"
  by (simp add: message_record_header_eq)

lemma readMessageDataHeaderFromBuffer_at:
  assumes "drop (unat off) (buffer_contents b) =
             framed_header (message_record_header c t) @ u32_bytes n @ rest"
  shows "readMessageDataHeaderFromBuffer b off = Inr (message_record_header c t, n, 46)"
  using readHeaderFromBuffer_at[OF assms wf_message_record_header]
  by (simp add: readMessageDataHeaderFromBuffer_def length_message_record_header isOp_def
        readField_u8_def readField_raw_def checkField_def map_find_message_record_header
        OP_FIELD_NAME_def)

lemma instantiateBuffer_200:
  assumes "version s = 200"
    and "decompressChunk (chunk_pos e) s = (Inr (), s1)"
    and "deref_current_buffer s1 = Inr buffer"
    and "readMessageDataHeaderFromBuffer buffer (offset e) = Inr (hdr, data_size, bytes_read)"
    and "readField_u32 hdr CONNECTION_FIELD_NAME True 0 = Inr cid"
  shows "instantiateBuffer T e s =
     (case map_find (connections s1) cid of
        None \<Rightarrow> (Inl (BagFormatException (''Unknown connection ID: '' @ dec_string (unat cid))), s1)
      | Some None \<Rightarrow> (Inl (OtherException ''null ConnectionInfo''), s1)
      | Some (Some connection_info) \<Rightarrow>
          (case mt_deserialize T (ci_header connection_info)
                  (take (unat data_size) (drop (unat (offset e) + unat bytes_read) (buf_data buffer))) of
             Inl err \<Rightarrow> (Inl err, s1)
           | Inr p \<Rightarrow> (Inr (Some p), s1)))"
  using assms by (simp add: instantiateBuffer_def Let_def split: option.splits sum.splits)

lemma instantiateBuffer_102:
  assumes "version s = 102"
    and "readMessageDataRecord102 (chunk_pos e) s = (Inr hdr, s1)"
    and "readField_string hdr TOPIC_FIELD_NAME True [] = Inr topic"
    and "readField_string hdr LATCHING_FIELD_NAME False ''0'' = Inr latching"
    and "readField_string hdr CALLERID_FIELD_NAME False [] = Inr callerid"
    and "topic_connection_ids s1 topic = Some cid"
    and "map_find (connections s1) cid = Some (Some connection_info)"
  shows "instantiateBuffer T e s =
     (case mt_deserialize T
             (map_set ''callerid'' callerid (map_set ''latching'' latching (ci_header connection_info)))
             (take (unat (buf_size (record_buffer s1))) (buf_data (record_buffer s1))) of
        Inl err \<Rightarrow> (Inl err, s1)
      | Inr p \<Rightarrow> (Inr (Some p), s1))"
  using assms by (simp add: instantiateBuffer_def Let_def split: option.splits sum.splits)

lemma instantiateBuffer_returns_value:
  assumes "instantiateBuffer T e s = (Inr r, s')"
  shows "\<exists>hdr bytes p. r = Some p \<and> mt_deserialize T hdr bytes = Inr p"
proof -
  consider "version s = 200" | "version s = 102" | "version s \<noteq> 200" "version s \<noteq> 102"
    by blast
  then show ?thesis
  proof cases
    case 1
    then show ?thesis
      using assms
      by (auto simp: instantiateBuffer_def andThen_def Let_def
            split: prod.splits sum.splits option.splits)
  next
    case 2
    then show ?thesis
      using assms
      by (auto simp: instantiateBuffer_def andThen_def Let_def
            split: prod.splits sum.splits option.splits)
  next
    case 3
    then show ?thesis using assms by (simp add: instantiateBuffer_def)
  qed
qed

text \<open>
  Claim C9. \<open>instantiate<T>\<close> compares the md5sum registered for \<open>T\<close> with the
  md5sum of the instance. When they are equal or the registered md5sum is \<open>*\<close>, the
  result is that of \<open>instantiateBuffer<T>\<close> on the index entry of the instance. In
  a version 2.00 bag whose chunk decompresses and whose record header decodes, with a
  connection the engine knows, that is the value the deserializer of \<open>T\<close> makes of
  the data slice of the record, the \<open>data_size\<close> bytes behind the header region. In
  a version 1.02 bag whose record is read, with a topic and a connection the engine
  knows, it is the value the deserializer makes of the bytes of the record buffer. In
  every bag, whatever the version, a call that passes the md5sum check and returns
  normally returns a handle that is not empty and holds a value made by the
  deserializer of \<open>T\<close>; a version other than 2.00 and 1.02 throws. Otherwise, when
  the md5sums differ and the registered one is not \<open>*\<close>, an empty handle is
  returned and the engine state is untouched: nothing is read.
\<close>

theorem instantiate_md5sum_check:
  "(mt_md5sum T = getMD5Sum m \<or> mt_md5sum T = ''*'' \<longrightarrow>
      instantiate T m s = instantiateBuffer T (mi_index_entry m) s)
   \<and> (mt_md5sum T \<noteq> getMD5Sum m \<and> mt_md5sum T \<noteq> ''*'' \<longrightarrow>
        instantiate T m s = (Inr None, s))
   \<and> ((mt_md5sum T = getMD5Sum m \<or> mt_md5sum T = ''*'')
        \<and> version s = 200
        \<and> decompressChunk (chunk_pos (mi_index_entry m)) s = (Inr (), s1)
        \<and> deref_current_buffer s1 = Inr buffer
        \<and> readMessageDataHeaderFromBuffer buffer (offset (mi_index_entry m)) =
            Inr (hdr, data_size, bytes_read)
        \<and> readField_u32 hdr CONNECTION_FIELD_NAME True 0 = Inr cid
        \<and> map_find (connections s1) cid = Some (Some connection_info)
        \<and> mt_deserialize T (ci_header connection_info)
              (take (unat data_size)
                 (drop (unat (offset (mi_index_entry m)) + unat bytes_read) (buf_data buffer))) =
            Inr p
        \<longrightarrow> instantiate T m s = (Inr (Some p), s1))
   \<and> ((mt_md5sum T = getMD5Sum m \<or> mt_md5sum T = ''*'')
        \<and> version s = 102
        \<and> readMessageDataRecord102 (chunk_pos (mi_index_entry m)) s = (Inr legacy_hdr, legacy_s)
        \<and> readField_string legacy_hdr TOPIC_FIELD_NAME True [] = Inr topic
        \<and> readField_string legacy_hdr LATCHING_FIELD_NAME False ''0'' = Inr latching
        \<and> readField_string legacy_hdr CALLERID_FIELD_NAME False [] = Inr callerid
        \<and> topic_connection_ids legacy_s topic = Some legacy_cid
        \<and> map_find (connections legacy_s) legacy_cid = Some (Some legacy_info)
        \<and> mt_deserialize T
              (map_set ''callerid'' callerid
                 (map_set ''latching'' latching (ci_header legacy_info)))
              (take (unat (buf_size (record_buffer legacy_s))) (buf_data (record_buffer legacy_s))) =
            Inr legacy_p
        \<longrightarrow> instantiate T m s = (Inr (Some legacy_p), legacy_s))
   \<and> ((mt_md5sum T = getMD5Sum m \<or> mt_md5sum T = ''*'')
        \<and> instantiate T m s = (Inr r, s')
        \<longrightarrow> (\<exists>message_header bytes q.
               r = Some q \<and> mt_deserialize T message_header bytes = Inr q))
   \<and> ((mt_md5sum T = getMD5Sum m \<or> mt_md5sum T = ''*'')
        \<and> version s \<noteq> 200 \<and> version s \<noteq> 102
        \<longrightarrow> instantiate T m s =
              (Inl (BagFormatException (''Unhandled version: '' @ int_string (version s))), s))"
proof (intro conjI impI)
  assume "mt_md5sum T = getMD5Sum m \<or> mt_md5sum T = ''*''"
  then show "instantiate T m s = instantiateBuffer T (mi_index_entry m) s"
    by (auto simp: instantiate_def isType_def)
next
  assume "mt_md5sum T \<noteq> getMD5Sum m \<and> mt_md5sum T \<noteq> ''*''"
  then show "instantiate T m s = (Inr None, s)"
    by (simp add: instantiate_def isType_def)
next
  assume a: "(mt_md5sum T = getMD5Sum m \<or> mt_md5sum T = ''*'')
        \<and> version s = 200
        \<and> decompressChunk (chunk_pos (mi_index_entry m)) s = (Inr (), s1)
        \<and> deref_current_buffer s1 = Inr buffer
        \<and> readMessageDataHeaderFromBuffer buffer (offset (mi_index_entry m)) =
            Inr (hdr, data_size, bytes_read)
        \<and> readField_u32 hdr CONNECTION_FIELD_NAME True 0 = Inr cid
        \<and> map_find (connections s1) cid = Some (Some connection_info)
        \<and> mt_deserialize T (ci_header connection_info)
              (take (unat data_size)
                 (drop (unat (offset (mi_index_entry m)) + unat bytes_read) (buf_data buffer))) =
            Inr p"
  then have "isType T m" by (auto simp: isType_def)
  moreover have "instantiateBuffer T (mi_index_entry m) s = (Inr (Some p), s1)"
    using a by (subst instantiateBuffer_200[of s "mi_index_entry m" s1 buffer hdr data_size
          bytes_read cid]) simp_all
  ultimately show "instantiate T m s = (Inr (Some p), s1)"
    by (simp add: instantiate_def)
next
  assume a: "(mt_md5sum T = getMD5Sum m \<or> mt_md5sum T = ''*'')
        \<and> version s = 102
        \<and> readMessageDataRecord102 (chunk_pos (mi_index_entry m)) s = (Inr legacy_hdr, legacy_s)
        \<and> readField_string legacy_hdr TOPIC_FIELD_NAME True [] = Inr topic
        \<and> readField_string legacy_hdr LATCHING_FIELD_NAME False ''0'' = Inr latching
        \<and> readField_string legacy_hdr CALLERID_FIELD_NAME False [] = Inr callerid
        \<and> topic_connection_ids legacy_s topic = Some legacy_cid
        \<and> map_find (connections legacy_s) legacy_cid = Some (Some legacy_info)
        \<and> mt_deserialize T
              (map_set ''callerid'' callerid
                 (map_set ''latching'' latching (ci_header legacy_info)))
              (take (unat (buf_size (record_buffer legacy_s))) (buf_data (record_buffer legacy_s))) =
            Inr legacy_p"
  then have "isType T m" by (auto simp: isType_def)
  moreover have "instantiateBuffer T (mi_index_entry m) s = (Inr (Some legacy_p), legacy_s)"
    using a by (subst instantiateBuffer_102[of s "mi_index_entry m" legacy_hdr legacy_s topic latching
          callerid legacy_cid legacy_info]) simp_all
  ultimately show "instantiate T m s = (Inr (Some legacy_p), legacy_s)"
    by (simp add: instantiate_def)
next
  assume a: "(mt_md5sum T = getMD5Sum m \<or> mt_md5sum T = ''*'')
        \<and> instantiate T m s = (Inr r, s')"
  then have "isType T m" by (auto simp: isType_def)
  then have "instantiateBuffer T (mi_index_entry m) s = (Inr r, s')"
    using a by (simp add: instantiate_def)
  then show "\<exists>message_header bytes q. r = Some q \<and> mt_deserialize T message_header bytes = Inr q"
    by (rule instantiateBuffer_returns_value)
next
  assume a: "(mt_md5sum T = getMD5Sum m \<or> mt_md5sum T = ''*'')
        \<and> version s \<noteq> 200 \<and> version s \<noteq> 102"
  then have "isType T m" by (auto simp: isType_def)
  then show "instantiate T m s =
      (Inl (BagFormatException (''Unhandled version: '' @ int_string (version s))), s)"
    using a by (simp add: instantiate_def instantiateBuffer_def)
qed

lemma length_example_record: "length example_record = 48"
  by (simp add: example_record_def length_framed_header length_message_record_header
        example_Message_def)

lemma example_200_facts:
  "version (example_Bag_200 conns) = 200"
  "decompressChunk 4109 (example_Bag_200 conns) = (Inr (), example_Bag_200 conns)"
  "deref_current_buffer (example_Bag_200 conns) = Inr \<lparr>buf_data = example_record, buf_size = 48\<rparr>"
  "readMessageDataHeaderFromBuffer \<lparr>buf_data = example_record, buf_size = 48\<rparr> 0 =
     Inr (message_record_header 7 example_Time, 2, 46)"
  "readField_u32 (message_record_header 7 example_Time) CONNECTION_FIELD_NAME True 0 = Inr 7"
  "take (unat (2 :: u32)) (drop (unat (0 :: u32) + unat (46 :: u32)) example_record) =
     msg_bytes example_Message"
proof -
  show "version (example_Bag_200 conns) = 200"
    by (simp add: example_Bag_200_def)
  show "decompressChunk 4109 (example_Bag_200 conns) = (Inr (), example_Bag_200 conns)"
    by (simp add: decompressChunk_def example_Bag_200_def)
  show "deref_current_buffer (example_Bag_200 conns) = Inr \<lparr>buf_data = example_record, buf_size = 48\<rparr>"
    by (simp add: deref_current_buffer_def example_Bag_200_def)
  have c: "buffer_contents \<lparr>buf_data = example_record, buf_size = 48\<rparr> = example_record"
    by (simp add: buffer_contents_def length_example_record)
  show "readMessageDataHeaderFromBuffer \<lparr>buf_data = example_record, buf_size = 48\<rparr> 0 =
     Inr (message_record_header 7 example_Time, 2, 46)"
    by (rule readMessageDataHeaderFromBuffer_at[where rest = "msg_bytes example_Message"])
       (simp only: c, simp add: example_record_def)
  show "readField_u32 (message_record_header 7 example_Time) CONNECTION_FIELD_NAME True 0 = Inr 7"
    by (simp add: readField_u32_def readField_raw_def checkField_def
          map_find_message_record_header CONNECTION_FIELD_NAME_def)
  have "example_record =
          (framed_header (message_record_header 7 example_Time) @ u32_bytes 2) @
          msg_bytes example_Message"
    by (simp add: example_record_def)
  moreover have "length (framed_header (message_record_header 7 example_Time) @ u32_bytes 2) = 46"
    by (simp add: length_framed_header length_message_record_header)
  ultimately have "drop 46 example_record = msg_bytes example_Message"
    by (metis drop_length_app)
  then show "take (unat (2 :: u32)) (drop (unat (0 :: u32) + unat (46 :: u32)) example_record) =
     msg_bytes example_Message"
    by (simp add: example_Message_def)
qed

lemma file_at_advance: "file_at s (d @ rest) \<Longrightarrow> file_at (advance (length d) s) rest"
  unfolding file_at_def advance_def
  using drop_drop_app offset_le_app by fastforce

lemma bag_read_at:
  "file_at s (d @ rest) \<Longrightarrow> bag_read (length d) s = (Inr d, advance (length d) s)"
  unfolding file_at_def advance_def bag_read_def on_file_def
  by (simp add: cf_read_at)

lemma readHeader_at:
  assumes "file_at s (framed_header hdr @ rest)" and "wf_header hdr"
    and "length (header_bytes hdr) < 2 ^ 32"
  shows "readHeader s = (Inr (Some hdr), advance (length (framed_header hdr)) s)"
  using assms unfolding file_at_def advance_def readHeader_def on_file_def
  by (simp add: cf_readHeader_at)

lemma readDataLength_at:
  assumes "file_at s (u32_bytes n @ rest)"
  shows "readDataLength s = (Inr n, advance 4 s)"
  using bag_read_at[OF assms] by (simp add: readDataLength_def)

lemma seek_beg:
  "cf_open (bag_file s) \<Longrightarrow>
   seek p ios_beg s = (Inr (), s\<lparr>bag_file := (bag_file s)\<lparr>cf_offset := unat p\<rparr>\<rparr>)"
  by (simp add: seek_def on_file_def cf_seek_def)

lemma advance_advance: "advance n (advance m s) = advance (m + n) s"
  by (simp add: advance_def add.assoc)

lemma readMessageDataRecord102_at:
  assumes o: "cf_open (bag_file s)" and le: "unat off \<le> length (cf_bytes (bag_file s))"
    and d: "drop (unat off) (cf_bytes (bag_file s)) = framed_header hdr @ u32_bytes n @ dat @ rest"
    and wf: "wf_header hdr" and len: "length (header_bytes hdr) < 2 ^ 32"
    and op: "map_find hdr OP_FIELD_NAME = Some (u8_bytes OP_MSG_DATA)"
    and n: "length dat = unat n"
  shows "readMessageDataRecord102 off s =
     (Inr hdr,
      (advance (length (framed_header hdr) + 4 + unat n)
         (s\<lparr>bag_file := (bag_file s)\<lparr>cf_offset := unat off\<rparr>\<rparr>))
       \<lparr>record_buffer := store_buffer n dat (record_buffer s), current_buffer := RecordBuffer\<rparr>)"
proof -
  let ?s0 = "s\<lparr>bag_file := (bag_file s)\<lparr>cf_offset := unat off\<rparr>\<rparr>"
  have a0: "file_at ?s0 (framed_header hdr @ u32_bytes n @ dat @ rest)"
    using o le d by (simp add: file_at_def)
  have r1: "readHeader ?s0 = (Inr (Some hdr), advance (length (framed_header hdr)) ?s0)"
    by (rule readHeader_at[OF a0 wf len])
  have a1: "file_at (advance (length (framed_header hdr)) ?s0) (u32_bytes n @ dat @ rest)"
    by (rule file_at_advance[OF a0])
  have r2: "readDataLength (advance (length (framed_header hdr)) ?s0) =
              (Inr n, advance 4 (advance (length (framed_header hdr)) ?s0))"
    by (rule readDataLength_at[OF a1])
  have a2: "file_at (advance 4 (advance (length (framed_header hdr)) ?s0)) (dat @ rest)"
    using file_at_advance[OF a1] by simp
  have r3: "bag_read (unat n) (advance 4 (advance (length (framed_header hdr)) ?s0)) =
              (Inr dat, advance (unat n) (advance 4 (advance (length (framed_header hdr)) ?s0)))"
    using bag_read_at[OF a2] n by simp
  have isop: "isOp hdr OP_MSG_DATA = Inr True"
    using op by (simp add: isOp_def readField_u8_def readField_raw_def checkField_def)
  show ?thesis
    unfolding readMessageDataRecord102_def
    by (simp add: seek_beg[OF o] r1 r2 r3 isop) (simp add: advance_def add.assoc)
qed

lemma example_102_known_read:
  "readMessageDataRecord102 0 example_Bag_102_known =
     (Inr example_header_102,
      (advance (length (framed_header example_header_102) + 4 + unat (2 :: u32))
         (example_Bag_102_known
            \<lparr>bag_file := (bag_file example_Bag_102_known)\<lparr>cf_offset := unat (0 :: u64)\<rparr>\<rparr>))
       \<lparr>record_buffer := store_buffer 2 (msg_bytes example_Message)
                           (record_buffer example_Bag_102_known),
        current_buffer := RecordBuffer\<rparr>)"
proof -
  have wf: "wf_header example_header_102"
    by (simp add: example_header_102_def wf_header_def)
  have len: "length (header_bytes example_header_102) < 2 ^ 32"
    by (simp add: example_header_102_def header_bytes_def)
  have o: "cf_open (bag_file example_Bag_102_known)"
    by (simp add: example_Bag_102_known_def example_Bag_102_def cf_openRead_def)
  have b: "cf_bytes (bag_file example_Bag_102_known) = example_file_102"
    by (simp add: example_Bag_102_known_def example_Bag_102_def cf_openRead_def)
  have d: "drop (unat (0 :: u64)) (cf_bytes (bag_file example_Bag_102_known)) =
      framed_header example_header_102 @ u32_bytes 2 @ msg_bytes example_Message @ []"
    by (simp add: b example_file_102_def)
  have op: "map_find example_header_102 OP_FIELD_NAME = Some (u8_bytes OP_MSG_DATA)"
    by (simp add: example_header_102_def OP_FIELD_NAME_def)
  have n: "length (msg_bytes example_Message) = unat (2 :: u32)"
    by (simp add: example_Message_def)
  show ?thesis
    by (rule readMessageDataRecord102_at[OF o _ d wf len op n]) simp
qed

lemma example_102_known_facts:
  "version example_Bag_102_known = 102"
  "topic_connection_ids (snd (readMessageDataRecord102 0 example_Bag_102_known)) ''/a'' = Some 0"
  "map_find (connections (snd (readMessageDataRecord102 0 example_Bag_102_known))) 0 =
     Some (Some example_ConnectionInfo)"
  "take (unat (buf_size (record_buffer (snd (readMessageDataRecord102 0 example_Bag_102_known)))))
     (buf_data (record_buffer (snd (readMessageDataRecord102 0 example_Bag_102_known)))) =
   msg_bytes example_Message"
proof -
  show "version example_Bag_102_known = 102"
    by (simp add: example_Bag_102_known_def example_Bag_102_def)
  have t: "topic_connection_ids example_Bag_102_known ''/a'' = Some 0"
    and c: "connections example_Bag_102_known = [(0, Some example_ConnectionInfo)]"
    and b: "record_buffer example_Bag_102_known = empty_Buffer"
    by (simp_all add: example_Bag_102_known_def example_Bag_102_def example_Bag_def Bag_init_def)
  show "topic_connection_ids (snd (readMessageDataRecord102 0 example_Bag_102_known)) ''/a'' = Some 0"
    by (simp add: example_102_known_read advance_def t)
  show "map_find (connections (snd (readMessageDataRecord102 0 example_Bag_102_known))) 0 =
     Some (Some example_ConnectionInfo)"
    by (simp add: example_102_known_read advance_def c)
  have "take (unat (buf_size (store_buffer 2 (msg_bytes example_Message) empty_Buffer)))
          (buf_data (store_buffer 2 (msg_bytes example_Message) empty_Buffer)) =
        msg_bytes example_Message"
    by (simp add: store_buffer_def buffer_memcpy_def setSize_def ensureCapacity_def
          getCapacity_def overwrite_def example_Message_def empty_Buffer_def)
  then show "take (unat (buf_size (record_buffer (snd (readMessageDataRecord102 0 example_Bag_102_known)))))
     (buf_data (record_buffer (snd (readMessageDataRecord102 0 example_Bag_102_known)))) =
   msg_bytes example_Message"
    by (simp add: example_102_known_read advance_def b)
qed

theorem instantiate_md5sum_check_witness:
  "mt_md5sum (raw_MsgType ''*'') = ''*''
   \<and> instantiate (raw_MsgType ''*'') example_MessageInstance
         (example_Bag_200 [(7, Some (example_ConnectionInfo\<lparr>ci_id := 7\<rparr>))]) =
       (Inr (Some (msg_bytes example_Message)),
        example_Bag_200 [(7, Some (example_ConnectionInfo\<lparr>ci_id := 7\<rparr>))])
   \<and> mt_md5sum (raw_MsgType ''abc'') = getMD5Sum example_MessageInstance
   \<and> instantiate (raw_MsgType ''abc'') example_MessageInstance (example_Bag_200 []) =
       instantiateBuffer (raw_MsgType ''abc'') (mi_index_entry example_MessageInstance)
         (example_Bag_200 [])
   \<and> mt_md5sum (raw_MsgType ''xyz'') \<noteq> getMD5Sum example_MessageInstance
   \<and> mt_md5sum (raw_MsgType ''xyz'') \<noteq> ''*''
   \<and> instantiate (raw_MsgType ''xyz'') example_MessageInstance (example_Bag_200 []) =
       (Inr None, example_Bag_200 [])
   \<and> version example_Bag_102_known = 102
   \<and> instantiate (raw_MsgType ''abc'')
         \<lparr>mi_connection_info = example_ConnectionInfo,
          mi_index_entry = \<lparr>time = example_Time, chunk_pos = 0, offset = 0\<rparr>\<rparr>
         example_Bag_102_known =
       (Inr (Some (msg_bytes example_Message)),
        snd (readMessageDataRecord102 0 example_Bag_102_known))
   \<and> instantiate (raw_MsgType ''*'') example_MessageInstance (example_Bag_200 []\<lparr>version := 300\<rparr>) =
       (Inl (BagFormatException (''Unhandled version: '' @ int_string 300)),
        example_Bag_200 []\<lparr>version := 300\<rparr>)"
proof -
  let ?info = "example_ConnectionInfo\<lparr>ci_id := 7\<rparr>"
  let ?s = "example_Bag_200 [(7, Some ?info)]"
  let ?m2 = "\<lparr>mi_connection_info = example_ConnectionInfo,
          mi_index_entry = \<lparr>time = example_Time, chunk_pos = 0, offset = 0\<rparr>\<rparr>"
  have e: "mi_index_entry example_MessageInstance = example_IndexEntry"
    "chunk_pos example_IndexEntry = 4109" "offset example_IndexEntry = 0"
    by (simp_all add: example_MessageInstance_def example_IndexEntry_def)
  have md5: "getMD5Sum example_MessageInstance = ''abc''" "getMD5Sum ?m2 = ''abc''"
    by (simp_all add: getMD5Sum_def example_MessageInstance_def example_ConnectionInfo_def
          new_ConnectionInfo_def example_Message_def)
  have t: "mt_md5sum (raw_MsgType x) = x" for x
    by (simp add: raw_MsgType_def)
  have c: "map_find (connections ?s) 7 = Some (Some ?info)"
    by (simp add: example_Bag_200_def)
  have d: "take 2 (drop 46 example_record) = msg_bytes example_Message"
    using example_200_facts(6) by simp
  have d': "mt_deserialize (raw_MsgType x) h b = Inr b" for x h b
    by (simp add: raw_MsgType_def)
  have 1: "instantiate (raw_MsgType ''*'') example_MessageInstance ?s =
           (Inr (Some (msg_bytes example_Message)), ?s)"
    by (rule instantiate_md5sum_check[THEN conjunct2, THEN conjunct2, THEN conjunct1, rule_format,
          where buffer = "\<lparr>buf_data = example_record, buf_size = 48\<rparr>"
            and hdr = "message_record_header 7 example_Time" and data_size = 2
            and bytes_read = 46 and cid = 7 and connection_info = ?info])
       (simp add: t e example_200_facts(1-3)[of "[(7, Some ?info)]"] example_200_facts(4-5) c d d')
  have 2: "instantiate (raw_MsgType ''abc'') example_MessageInstance (example_Bag_200 []) =
       instantiateBuffer (raw_MsgType ''abc'') (mi_index_entry example_MessageInstance)
         (example_Bag_200 [])"
    using instantiate_md5sum_check[of "raw_MsgType ''abc''" example_MessageInstance
        "example_Bag_200 []", THEN conjunct1] md5
    by (simp add: t)
  have 3: "instantiate (raw_MsgType ''xyz'') example_MessageInstance (example_Bag_200 []) =
       (Inr None, example_Bag_200 [])"
    using instantiate_md5sum_check[of "raw_MsgType ''xyz''" example_MessageInstance
        "example_Bag_200 []", THEN conjunct2, THEN conjunct1] md5
    by (simp add: t)
  have f: "readField_string example_header_102 TOPIC_FIELD_NAME True [] = Inr ''/a''"
    "readField_string example_header_102 LATCHING_FIELD_NAME False ''0'' = Inr ''0''"
    "readField_string example_header_102 CALLERID_FIELD_NAME False [] = Inr []"
    by (simp_all add: readField_string_def checkField_def example_header_102_def
          TOPIC_FIELD_NAME_def LATCHING_FIELD_NAME_def CALLERID_FIELD_NAME_def)
  define sr where "sr = snd (readMessageDataRecord102 0 example_Bag_102_known)"
  have rd: "readMessageDataRecord102 0 example_Bag_102_known = (Inr example_header_102, sr)"
    unfolding sr_def using example_102_known_read by (simp add: prod_eq_iff)
  note k = example_102_known_facts[folded sr_def]
  have 4: "instantiate (raw_MsgType ''abc'') ?m2 example_Bag_102_known =
       (Inr (Some (msg_bytes example_Message)), sr)"
    by (rule instantiate_md5sum_check[THEN conjunct2, THEN conjunct2, THEN conjunct2,
          THEN conjunct1, rule_format,
          where legacy_hdr = example_header_102 and topic = "''/a''" and latching = "''0''"
            and callerid = "[]" and legacy_cid = 0 and legacy_info = example_ConnectionInfo])
       (simp add: t md5 k f rd d')
  have v: "version (example_Bag_200 []\<lparr>version := 300\<rparr>) = 300" by simp
  have 5: "instantiate (raw_MsgType ''*'') example_MessageInstance (example_Bag_200 []\<lparr>version := 300\<rparr>) =
       (Inl (BagFormatException (''Unhandled version: '' @ int_string 300)),
        example_Bag_200 []\<lparr>version := 300\<rparr>)"
    using instantiate_md5sum_check[of "raw_MsgType ''*''" example_MessageInstance
        "example_Bag_200 []\<lparr>version := 300\<rparr>", THEN conjunct2, THEN conjunct2, THEN conjunct2,
        THEN conjunct2, THEN conjunct2]
    by (simp add: t)
  show ?thesis using 1 2 3 4 5 by (simp add: t md5 example_102_known_facts(1) sr_def)
qed

lemma decompressChunk_connections:
  "connections (snd (decompressChunk p s)) = connections s"
proof -
  have "preserved (\<lambda>s'. connections s' = connections s) (decompressChunk p)"
    by (rule decompressChunk_preserved) simp_all
  then show ?thesis by (simp add: preserved_def)
qed

lemma readMessageDataRecord102_topic_connection_ids:
  "topic_connection_ids (snd (readMessageDataRecord102 p s)) = topic_connection_ids s"
proof -
  have "preserved (\<lambda>s'. topic_connection_ids s' = topic_connection_ids s)
          (readMessageDataRecord102 p)"
    by (rule readMessageDataRecord102_preserved) simp_all
  then show ?thesis by (simp add: preserved_def)
qed

text \<open>
  Claim C10. In a version 2.00 bag, when the chunk decompresses and the header of the
  message-data record decodes with a \<open>conn\<close> field \<open>cid\<close> that is not a key of
  \<open>connections\<close>, \<open>instantiateBuffer\<close> throws
  \<^verbatim>\<open>BagFormatException("Unknown connection ID: cid")\<close>; so does \<open>instantiate\<close>
  for a type that passes the md5sum check, instead of returning an empty handle. In a
  version 1.02 bag the same holds for a record whose topic is not a key of
  \<open>topic_connection_ids\<close>, with the message \<open>Unknown topic\<close>.
\<close>

theorem instantiateBuffer_unknown_connection:
  "(version s = 200
    \<and> decompressChunk (chunk_pos e) s = (Inr (), s1)
    \<and> deref_current_buffer s1 = Inr buffer
    \<and> readMessageDataHeaderFromBuffer buffer (offset e) = Inr (hdr, data_size, bytes_read)
    \<and> readField_u32 hdr CONNECTION_FIELD_NAME True 0 = Inr cid
    \<and> map_find (connections s) cid = None
    \<longrightarrow> instantiateBuffer T e s =
          (Inl (BagFormatException (''Unknown connection ID: '' @ dec_string (unat cid))), s1)
        \<and> (isType T m \<and> mi_index_entry m = e \<longrightarrow>
             instantiate T m s =
               (Inl (BagFormatException (''Unknown connection ID: '' @ dec_string (unat cid))), s1)))
   \<and> (version s = 102
       \<and> readMessageDataRecord102 (chunk_pos e) s = (Inr hdr, s1)
       \<and> readField_string hdr TOPIC_FIELD_NAME True [] = Inr topic
       \<and> readField_string hdr LATCHING_FIELD_NAME False ''0'' = Inr latching
       \<and> readField_string hdr CALLERID_FIELD_NAME False [] = Inr callerid
       \<and> topic_connection_ids s topic = None
       \<longrightarrow> instantiateBuffer T e s = (Inl (BagFormatException (''Unknown topic: '' @ topic)), s1)
           \<and> (isType T m \<and> mi_index_entry m = e \<longrightarrow>
                instantiate T m s = (Inl (BagFormatException (''Unknown topic: '' @ topic)), s1)))"
proof (intro conjI impI)
  assume a: "version s = 200
    \<and> decompressChunk (chunk_pos e) s = (Inr (), s1)
    \<and> deref_current_buffer s1 = Inr buffer
    \<and> readMessageDataHeaderFromBuffer buffer (offset e) = Inr (hdr, data_size, bytes_read)
    \<and> readField_u32 hdr CONNECTION_FIELD_NAME True 0 = Inr cid
    \<and> map_find (connections s) cid = None"
  have "connections s1 = connections s"
    using a decompressChunk_connections[of "chunk_pos e" s] by simp
  then have n: "map_find (connections s1) cid = None" using a by simp
  show r: "instantiateBuffer T e s =
          (Inl (BagFormatException (''Unknown connection ID: '' @ dec_string (unat cid))), s1)"
    using a n by (subst instantiateBuffer_200[of s e s1 buffer hdr data_size bytes_read cid]) simp_all
  assume "isType T m \<and> mi_index_entry m = e"
  then show "instantiate T m s =
          (Inl (BagFormatException (''Unknown connection ID: '' @ dec_string (unat cid))), s1)"
    using r by (simp add: instantiate_def)
next
  assume a: "version s = 102
       \<and> readMessageDataRecord102 (chunk_pos e) s = (Inr hdr, s1)
       \<and> readField_string hdr TOPIC_FIELD_NAME True [] = Inr topic
       \<and> readField_string hdr LATCHING_FIELD_NAME False ''0'' = Inr latching
       \<and> readField_string hdr CALLERID_FIELD_NAME False [] = Inr callerid
       \<and> topic_connection_ids s topic = None"
  have "topic_connection_ids s1 = topic_connection_ids s"
    using a readMessageDataRecord102_topic_connection_ids[of "chunk_pos e" s] by simp
  then have n: "topic_connection_ids s1 topic = None" using a by simp
  show r: "instantiateBuffer T e s = (Inl (BagFormatException (''Unknown topic: '' @ topic)), s1)"
    using a n by (simp add: instantiateBuffer_def)
  assume "isType T m \<and> mi_index_entry m = e"
  then show "instantiate T m s = (Inl (BagFormatException (''Unknown topic: '' @ topic)), s1)"
    using r by (simp add: instantiate_def)
qed

lemma example_102_read:
  "fst (readMessageDataRecord102 0 example_Bag_102) = Inr example_header_102"
proof -
  have wf: "wf_header example_header_102"
    by (simp add: example_header_102_def wf_header_def)
  have len: "length (header_bytes example_header_102) < 2 ^ 32"
    by (simp add: example_header_102_def header_bytes_def)
  have o: "cf_open (bag_file example_Bag_102)"
    by (simp add: example_Bag_102_def cf_openRead_def)
  have b: "cf_bytes (bag_file example_Bag_102) = example_file_102"
    by (simp add: example_Bag_102_def cf_openRead_def)
  have d: "drop (unat (0 :: u64)) (cf_bytes (bag_file example_Bag_102)) =
      framed_header example_header_102 @ u32_bytes 2 @ msg_bytes example_Message @ []"
    by (simp add: b example_file_102_def)
  have op: "map_find example_header_102 OP_FIELD_NAME = Some (u8_bytes OP_MSG_DATA)"
    by (simp add: example_header_102_def OP_FIELD_NAME_def)
  have n: "length (msg_bytes example_Message) = unat (2 :: u32)"
    by (simp add: example_Message_def)
  show ?thesis
    by (subst readMessageDataRecord102_at[OF o _ d wf len op n]) simp_all
qed

theorem instantiateBuffer_unknown_connection_witness:
  "version (example_Bag_200 []) = 200
   \<and> map_find (connections (example_Bag_200 [])) 7 = None
   \<and> instantiateBuffer (raw_MsgType ''*'') example_IndexEntry (example_Bag_200 []) =
       (Inl (BagFormatException (''Unknown connection ID: '' @ dec_string (unat (7 :: u32)))),
        example_Bag_200 [])
   \<and> isType (raw_MsgType ''*'') example_MessageInstance
   \<and> instantiate (raw_MsgType ''*'') example_MessageInstance (example_Bag_200 []) =
       (Inl (BagFormatException (''Unknown connection ID: '' @ dec_string (unat (7 :: u32)))),
        example_Bag_200 [])
   \<and> version example_Bag_102 = 102
   \<and> topic_connection_ids example_Bag_102 ''/a'' = None
   \<and> instantiateBuffer (raw_MsgType ''*'') \<lparr>time = example_Time, chunk_pos = 0, offset = 0\<rparr>
         example_Bag_102 =
       (Inl (BagFormatException (''Unknown topic: '' @ ''/a'')),
        snd (readMessageDataRecord102 0 example_Bag_102))"
proof -
  let ?T = "raw_MsgType ''*''"
  let ?e2 = "\<lparr>time = example_Time, chunk_pos = 0, offset = 0\<rparr>"
  have e: "mi_index_entry example_MessageInstance = example_IndexEntry"
    "chunk_pos example_IndexEntry = 4109" "offset example_IndexEntry = 0"
    by (simp_all add: example_MessageInstance_def example_IndexEntry_def)
  have ty: "isType ?T example_MessageInstance"
    by (simp add: isType_def raw_MsgType_def)
  have c: "map_find (connections (example_Bag_200 [])) 7 = None"
    by (simp add: example_Bag_200_def)
  note a = instantiateBuffer_unknown_connection[THEN conjunct1, rule_format]
  have pre: "version (example_Bag_200 []) = 200 \<and>
      decompressChunk (chunk_pos example_IndexEntry) (example_Bag_200 []) =
        (Inr (), example_Bag_200 []) \<and>
      deref_current_buffer (example_Bag_200 []) = Inr \<lparr>buf_data = example_record, buf_size = 48\<rparr> \<and>
      readMessageDataHeaderFromBuffer \<lparr>buf_data = example_record, buf_size = 48\<rparr>
        (offset example_IndexEntry) = Inr (message_record_header 7 example_Time, 2, 46) \<and>
      readField_u32 (message_record_header 7 example_Time) CONNECTION_FIELD_NAME True 0 = Inr 7 \<and>
      map_find (connections (example_Bag_200 [])) 7 = None"
    by (simp add: e example_200_facts(1-3)[of "[]"] example_200_facts(4-5) c)
  have v2: "version example_Bag_102 = 102" "topic_connection_ids example_Bag_102 ''/a'' = None"
    by (simp_all add: example_Bag_102_def example_Bag_def Bag_init_def)
  have f: "readField_string example_header_102 TOPIC_FIELD_NAME True [] = Inr ''/a''"
    "readField_string example_header_102 LATCHING_FIELD_NAME False ''0'' = Inr ''0''"
    "readField_string example_header_102 CALLERID_FIELD_NAME False [] = Inr []"
    by (simp_all add: readField_string_def checkField_def example_header_102_def
          TOPIC_FIELD_NAME_def LATCHING_FIELD_NAME_def CALLERID_FIELD_NAME_def)
  have rd: "readMessageDataRecord102 (chunk_pos ?e2) example_Bag_102 =
      (Inr example_header_102, snd (readMessageDataRecord102 0 example_Bag_102))"
    using example_102_read by (simp add: prod_eq_iff)
  note b = instantiateBuffer_unknown_connection[THEN conjunct2, rule_format, THEN conjunct1]
  have pre2: "version example_Bag_102 = 102 \<and>
      readMessageDataRecord102 (chunk_pos ?e2) example_Bag_102 =
        (Inr example_header_102, snd (readMessageDataRecord102 0 example_Bag_102)) \<and>
      readField_string example_header_102 TOPIC_FIELD_NAME True [] = Inr ''/a'' \<and>
      readField_string example_header_102 LATCHING_FIELD_NAME False ''0'' = Inr ''0'' \<and>
      readField_string example_header_102 CALLERID_FIELD_NAME False [] = Inr [] \<and>
      topic_connection_ids example_Bag_102 ''/a'' = None"
    using v2 f rd by simp
  have A: "instantiateBuffer ?T example_IndexEntry (example_Bag_200 []) =
        (Inl (BagFormatException (''Unknown connection ID: '' @ dec_string (unat (7 :: u32)))),
         example_Bag_200 []) \<and>
      (isType ?T example_MessageInstance \<and>
       mi_index_entry example_MessageInstance = example_IndexEntry \<longrightarrow>
       instantiate ?T example_MessageInstance (example_Bag_200 []) =
        (Inl (BagFormatException (''Unknown connection ID: '' @ dec_string (unat (7 :: u32)))),
         example_Bag_200 []))"
    by (rule a[OF pre])
  have B: "instantiateBuffer ?T ?e2 example_Bag_102 =
       (Inl (BagFormatException (''Unknown topic: '' @ ''/a'')),
        snd (readMessageDataRecord102 0 example_Bag_102))"
    by (rule b[OF pre2])
  show ?thesis
    using A B ty e v2 c example_200_facts(1)[of "[]"]
    by simp
qed

subsection \<open>Normal return: triples and writes that succeed\<close>

lemma hoareD: "hoare P m Q \<Longrightarrow> P s \<Longrightarrow> m s = (Inr a, s') \<Longrightarrow> Q a s'"
  by (simp add: hoare_def)

lemma hoare_andThen:
  assumes "hoare P m R" and "\<And>a. hoare (R a) (k a) Q"
  shows "hoare P (\<lambda>s. andThen (m s) k) Q"
  unfolding hoare_def
proof (intro allI impI)
  fix s b s' assume p: "P s" and r: "andThen (m s) k = (Inr b, s')"
  obtain x s1 where m: "m s = (x, s1)" by (cases "m s")
  show "Q b s'"
  proof (cases x)
    case (Inl e)
    then show ?thesis using r m by simp
  next
    case (Inr a)
    then have "R a s1" using assms(1) p m by (simp add: hoare_def)
    moreover have "k a s1 = (Inr b, s')" using r m Inr by simp
    ultimately show ?thesis using assms(2)[of a] by (simp add: hoare_def)
  qed
qed

lemma hoare_return:
  assumes "\<And>s. P s \<Longrightarrow> Q a (h s)"
  shows "hoare P (\<lambda>s. (Inr a, h s)) Q"
  using assms by (simp add: hoare_def)

lemma hoare_throw: "hoare P (\<lambda>s. (Inl e, h s)) Q"
  by (simp add: hoare_def)

lemma hoare_if:
  assumes "hoare (\<lambda>s. P s \<and> b s) m1 Q" and "hoare (\<lambda>s. P s \<and> \<not> b s) m2 Q"
  shows "hoare P (\<lambda>s. if b s then m1 s else m2 s) Q"
  using assms by (simp add: hoare_def)

lemma hoare_pre:
  assumes "hoare P' m Q" and "\<And>s. P s \<Longrightarrow> P' s"
  shows "hoare P m Q"
  using assms unfolding hoare_def by blast

lemma hoare_post:
  assumes "hoare P m Q'" and "\<And>a s. Q' a s \<Longrightarrow> Q a s"
  shows "hoare P m Q"
  using assms unfolding hoare_def by blast

lemma hoare_preserved:
  assumes "preserved I m"
  shows "hoare I m (\<lambda>_. I)"
  using assms unfolding hoare_def preserved_def by (metis snd_conv)

lemma hoare_comp:
  assumes "hoare P' m Q" and "\<And>s. P s \<Longrightarrow> P' (h s)"
  shows "hoare P (\<lambda>s. m (h s)) Q"
  using assms unfolding hoare_def by blast

lemma hoare_conj:
  assumes "hoare P m Q1" and "hoare P m Q2"
  shows "hoare P m (\<lambda>a s. Q1 a s \<and> Q2 a s)"
  using assms by (simp add: hoare_def)

lemma doWrite_connection_id_eq:
  "doWrite_connection_id topic h s =
     (case connection_id_of s (connection_key topic h) of
        None \<Rightarrow>
          ((of_nat (length (connections s)), None),
           (case h of
              None \<Rightarrow> s\<lparr>topic_connection_ids :=
                        (topic_connection_ids s)(topic \<mapsto> of_nat (length (connections s)))\<rparr>
            | Some ch \<Rightarrow> s\<lparr>header_connection_ids :=
                        (header_connection_ids s)(map_set ''topic'' topic ch \<mapsto>
                           of_nat (length (connections s)))\<rparr>))
      | Some conn_id \<Rightarrow>
          ((conn_id, fst (map_subscript None conn_id (connections s))),
           s\<lparr>connections := snd (map_subscript None conn_id (connections s))\<rparr>))"
  by (simp add: doWrite_connection_id_def connection_id_of_def connection_key_def Let_def
        split: option.splits)

lemma doWrite_connection_info_hoare:
  "hoare (\<lambda>s. connections s = C \<and> topic_connection_ids s = T \<and> header_connection_ids s = H)
     (doWrite_connection_info conn_id ci topic msg h)
     (\<lambda>info s'. connections s' =
          (case ci of None \<Rightarrow> map_set conn_id (Some (new_ConnectionInfo conn_id topic msg h)) C
                    | Some i \<Rightarrow> C)
        \<and> topic_connection_ids s' = T \<and> header_connection_ids s' = H
        \<and> info = (case ci of None \<Rightarrow> new_ConnectionInfo conn_id topic msg h | Some i \<Rightarrow> i))"
proof (cases ci)
  case None
  have "preserved (\<lambda>s'. connections s' =
            map_set conn_id (Some (new_ConnectionInfo conn_id topic msg h)) C
          \<and> topic_connection_ids s' = T \<and> header_connection_ids s' = H)
        (writeConnectionRecord (new_ConnectionInfo conn_id topic msg h) False)"
    by (rule preserved_file_only[OF file_only_writeConnectionRecord]) simp
  note w = hoare_preserved[OF this]
  show ?thesis
    unfolding None doWrite_connection_info_def[abs_def] Let_def option.case
    by (rule hoare_comp[where h = "\<lambda>s. s\<lparr>connections := map_set conn_id
            (Some (new_ConnectionInfo conn_id topic msg h)) (connections s)\<rparr>"],
        rule hoare_andThen[OF w], rule hoare_return, simp, simp)
next
  case (Some i)
  show ?thesis
    unfolding Some doWrite_connection_info_def[abs_def] option.case
    by (rule hoare_return) simp
qed

lemma doWrite_block_connections:
  "hoare (\<lambda>s. connections s = C \<and> topic_connection_ids s = T \<and> header_connection_ids s = H)
     (doWrite_block conn_id ci topic t msg h)
     (\<lambda>_ s'. connections s' =
          (case ci of None \<Rightarrow> map_set conn_id (Some (new_ConnectionInfo conn_id topic msg h)) C
                    | Some i \<Rightarrow> C)
        \<and> topic_connection_ids s' = T \<and> header_connection_ids s' = H)"
proof -
  let ?I = "\<lambda>C s. connections s = C \<and> topic_connection_ids s = T \<and> header_connection_ids s = H"
  let ?C' = "case ci of None \<Rightarrow> map_set conn_id (Some (new_ConnectionInfo conn_id topic msg h)) C
                    | Some i \<Rightarrow> C"
  have fo: "preserved (?I X) m" if "file_only m" for m :: "Bag \<Rightarrow> (BagError + unit) \<times> Bag" and X
    by (rule preserved_file_only[OF that]) simp
  have st: "preserved (?I X) (\<lambda>s. if \<not> chunk_open s then startWritingChunk t s else (Inr (), s))" for X
    by (intro preserved_if startWritingChunk_preserved preserved_return) simp_all
  have wm: "preserved (?I X) (\<lambda>s. writeMessageDataRecord conn_id t msg (doWrite_index info t s))"
    for X info
    by (rule preserved_comp[where h = "doWrite_index info t"],
        simp add: doWrite_index_def Let_def,
        rule writeMessageDataRecord_preserved) simp_all
  have sp: "preserved (?I X) (\<lambda>s. if getChunkOffset s > chunk_threshold s
               then andThen (stopWritingChunk s) (\<lambda>_ s.
                 (Inr (), s\<lparr>outgoing_chunk_buffer := setSize 0 (outgoing_chunk_buffer s),
                           curr_chunk_info := (curr_chunk_info s)\<lparr>pos := - 1\<rparr>\<rparr>))
               else (Inr (), s))" for X
    by (rule stop_part_preserved) simp_all
  have fs: "preserved (?I X) (\<lambda>s. (Inr (), s\<lparr>file_size := cf_getOffset (bag_file s)\<rparr>))" for X
    by (rule preserved_return) simp
  show ?thesis
    unfolding doWrite_block_def[abs_def] Let_def
    apply (rule hoare_andThen[OF hoare_preserved[OF fo[OF file_only_seek, of C]]])
    apply (rule hoare_andThen[OF hoare_preserved[OF fs[of C]]])
    apply (rule hoare_andThen[OF hoare_preserved[OF st[of C]]])
    apply (rule hoare_andThen[OF doWrite_connection_info_hoare])
    apply (rule hoare_pre[where P' = "?I ?C'"])
     apply (rule hoare_andThen[OF hoare_preserved[OF wm]])
     apply (rule hoare_preserved[OF sp])
    apply simp
    done
qed

lemma returned_Inr [simp]: "returned (Inr a, s)"
  by (simp add: returned_def)

lemma returned_Inl [simp]: "\<not> returned (Inl e, s)"
  by (simp add: returned_def)

lemma returned_andThen:
  "returned (andThen r k) \<longleftrightarrow> (\<exists>a. fst r = Inr a \<and> returned (k a (snd r)))"
  by (cases r) (auto simp: andThen_def returned_def split: sum.splits)

lemma returnedE: "returned r \<Longrightarrow> \<exists>a. r = (Inr a, snd r)"
  by (cases r) (auto simp: returned_def split: sum.splits)

lemma cf_total_andThen:
  assumes "cf_total g" and "\<And>a. cf_total (k a)"
  shows "cf_total (\<lambda>f. andThen (g f) k)"
  unfolding cf_total_def
proof (intro allI impI)
  fix f assume f: "cf_ok f"
  then have r: "returned (g f)" and o: "cf_ok (snd (g f))" using assms(1) by (auto simp: cf_total_def)
  obtain a where a: "g f = (Inr a, snd (g f))" using returnedE[OF r] by blast
  have "returned (k a (snd (g f))) \<and> cf_ok (snd (k a (snd (g f))))"
    using assms(2)[of a] o by (simp add: cf_total_def)
  then show "returned (andThen (g f) k) \<and> cf_ok (snd (andThen (g f) k))"
    by (subst (1 2) a) simp
qed

lemma cf_total_write: "cf_total (cf_write d)"
  by (auto simp: cf_total_def cf_ok_def cf_write_def cf_raw_write_def
      split: WriteState.splits CompressionType.splits)

lemma cf_total_seek: "cf_total (cf_seek p origin)"
  by (auto simp: cf_total_def cf_ok_def cf_seek_def split: seekdir.splits)

lemma cf_total_stop_write: "cf_total cf_stop_write"
  by (auto simp: cf_total_def cf_ok_def cf_stop_write_def cf_raw_write_def Let_def
      split: WriteState.splits CompressionType.splits)

lemma cf_total_set_write_mode: "cf_total (cf_set_write_mode c)"
  unfolding cf_set_write_mode_def
  by (rule cf_total_andThen[OF cf_total_stop_write]) (simp add: cf_total_def cf_ok_def)

lemma cf_total_writeHeader: "cf_total (cf_writeHeader hdr)"
  unfolding cf_writeHeader_def Let_def
  by (rule cf_total_andThen[OF cf_total_write]) (rule cf_total_write)

lemma total_andThen:
  assumes "total P m" and "\<And>a. total P (k a)"
  shows "total P (\<lambda>s. andThen (m s) k)"
  unfolding total_def
proof (intro allI impI)
  fix s assume s: "ok s \<and> P s"
  then have r: "returned (m s)" and o: "ok (snd (m s)) \<and> P (snd (m s))"
    using assms(1) by (auto simp: total_def)
  obtain a where a: "m s = (Inr a, snd (m s))" using returnedE[OF r] by blast
  have "returned (k a (snd (m s))) \<and> ok (snd (k a (snd (m s)))) \<and> P (snd (k a (snd (m s))))"
    using assms(2)[of a] o by (simp add: total_def)
  then show "returned (andThen (m s) k) \<and> ok (snd (andThen (m s) k)) \<and> P (snd (andThen (m s) k))"
    by (subst (1 2 3) a) simp
qed

lemma total_return:
  assumes "\<And>s. ok s \<Longrightarrow> P s \<Longrightarrow> ok (h s) \<and> P (h s)"
  shows "total P (\<lambda>s. (Inr a, h s))"
  using assms by (simp add: total_def)

lemma total_if:
  assumes "total P m1" and "total P m2"
  shows "total P (\<lambda>s. if b s then m1 s else m2 s)"
  using assms by (simp add: total_def)

lemma total_dep:
  assumes "\<And>x. total P (m x)"
  shows "total P (\<lambda>s. m (g s) s)"
  using assms unfolding total_def by blast

lemma total_comp:
  assumes "\<And>s. ok s \<Longrightarrow> P s \<Longrightarrow> ok (h s) \<and> P (h s)" and "total P m"
  shows "total P (\<lambda>s. m (h s))"
  using assms unfolding total_def by blast

lemma total_forEach:
  assumes "\<And>x. total P (g x)"
  shows "total P (forEach g xs)"
proof (induction xs)
  case Nil
  show ?case by (simp add: total_def)
next
  case (Cons x xs)
  have eq: "forEach g (x # xs) = (\<lambda>s. andThen (g x s) (\<lambda>_. forEach g xs))"
    by (rule ext) (simp add: andThen_def split: prod.splits sum.splits)
  show ?case unfolding eq by (rule total_andThen[OF assms]) (rule Cons)
qed

lemma total_on_file:
  assumes "cf_total g" and "\<And>s f. P (s\<lparr>bag_file := f\<rparr>) = P s"
  shows "total P (on_file g)"
  using assms
  by (auto simp: total_def cf_total_def ok_def on_file_def returned_def split: prod.splits)

lemma total_cong:
  assumes "\<And>s. ok s \<Longrightarrow> m s = m' s" and "total P m'"
  shows "total P m"
  using assms unfolding total_def by metis

lemma total_weaken:
  assumes "total (\<lambda>_. True) m" and "preserved P m"
  shows "total P m"
  using assms unfolding total_def preserved_def by blast

lemma tot_bag_write: "tot (bag_write d)"
  unfolding bag_write_def[abs_def] by (rule total_on_file[OF cf_total_write]) simp

lemma tot_seek: "tot (seek p origin)"
  unfolding seek_def[abs_def] by (rule total_on_file[OF cf_total_seek]) simp

lemma tot_writeHeader: "tot (writeHeader hdr)"
  unfolding writeHeader_def[abs_def] by (rule total_on_file[OF cf_total_writeHeader]) simp

lemma tot_writeDataLength: "tot (writeDataLength n)"
  unfolding writeDataLength_def[abs_def] by (rule tot_bag_write)

lemma tot_writeChunkHeader: "tot (writeChunkHeader c a b)"
  unfolding writeChunkHeader_def[abs_def]
  by (intro total_andThen tot_writeHeader tot_writeDataLength)

lemma tot_writeConnectionRecord_enc: "tot (writeConnectionRecord info True)"
proof -
  have e: "tot (\<lambda>s. on_file (writeEncryptedHeader (encryptor s) cf_writeHeader hdr) s)" for hdr
    by (rule total_cong[where m' = "writeHeader hdr"])
       (simp_all add: ok_def NoEncryptor_def writeHeader_def tot_writeHeader)
  show ?thesis
    unfolding writeConnectionRecord_def[abs_def] Let_def if_True
    by (intro total_andThen e)
qed

lemma tot_writeConnectionRecord_plain: "tot (writeConnectionRecord info False)"
  unfolding writeConnectionRecord_def[abs_def] Let_def if_False
  by (intro total_andThen tot_writeHeader)

lemma tot_writeConnectionRecord: "tot (writeConnectionRecord info enc)"
  by (cases enc) (simp_all add: tot_writeConnectionRecord_enc tot_writeConnectionRecord_plain)

lemma tot_writeIndexEntry: "tot (writeIndexEntry e)"
  unfolding writeIndexEntry_def[abs_def] by (intro total_andThen tot_bag_write)

lemma tot_writeIndexRecord: "tot (writeIndexRecord ce)"
  unfolding writeIndexRecord_def[abs_def] Let_def
  by (intro total_andThen tot_writeHeader tot_writeDataLength total_forEach tot_writeIndexEntry)

lemma tot_writeIndexRecords: "tot writeIndexRecords"
  unfolding writeIndexRecords_def[abs_def]
  by (rule total_dep[where m = "forEach writeIndexRecord"])
     (rule total_forEach[OF tot_writeIndexRecord])

lemma tot_startWritingChunk: "tot (startWritingChunk t)"
proof -
  have wch: "tot (\<lambda>s. writeChunkHeader (compression s) a b s)" for a b
    by (rule total_dep[where m = "\<lambda>x. writeChunkHeader x a b"]) (rule tot_writeChunkHeader)
  have swm: "tot (\<lambda>s. on_file (cf_set_write_mode (compression s)) s)"
    by (rule total_dep[where m = "\<lambda>x. on_file (cf_set_write_mode x)"])
       (rule total_on_file[OF cf_total_set_write_mode], simp)
  have body: "tot (\<lambda>s. andThen (writeChunkHeader (compression s) 0 0 s) (\<lambda>_ s.
      andThen (on_file (cf_set_write_mode (compression s)) s) (\<lambda>_ s.
        (Inr (),
         s\<lparr>curr_chunk_info :=
             update_time_range t
               \<lparr>start_time = TIME_INFINITY, end_time = TIME_INFINITY, pos = p,
                connection_counts = []\<rparr>,
           curr_chunk_data_pos := cf_getOffset (bag_file s),
           chunk_open := True\<rparr>))))" for p
    by (intro total_andThen wch swm total_return) (simp add: ok_def)
  show ?thesis
    unfolding startWritingChunk_def[abs_def] Let_def
    by (rule total_dep[where g = "\<lambda>s. cf_getOffset (bag_file s)"]) (rule body)
qed

lemma tot_stopWritingChunk: "tot stopWritingChunk"
proof -
  have enc: "tot (\<lambda>s. on_file (encryptChunk (encryptor s) a (curr_chunk_data_pos s)) s)" for a
    by (rule total_cong[where m' = "\<lambda>s. (Inr a, s)"])
       (simp_all add: ok_def NoEncryptor_def on_file_def total_def)
  have sk: "tot (\<lambda>s. seek (pos (curr_chunk_info s)) ios_beg s)"
    by (rule total_dep[where m = "\<lambda>x. seek x ios_beg"]) (rule tot_seek)
  have wch: "tot (\<lambda>s. writeChunkHeader (compression s) a b s)" for a b
    by (rule total_dep[where m = "\<lambda>x. writeChunkHeader x a b"]) (rule tot_writeChunkHeader)
  have st: "tot (on_file cf_stop_write)"
    by (rule total_on_file[OF cf_total_stop_write]) simp
  show ?thesis
    unfolding stopWritingChunk_def[abs_def]
    by (intro total_andThen st enc sk wch tot_seek tot_writeIndexRecords total_return)
       (simp add: ok_def)
qed

lemma tot_writeMessageDataRecord: "tot (writeMessageDataRecord conn_id t msg)"
proof -
  have wr: "tot (\<lambda>s. bag_write (g s) s)" for g
    by (rule total_dep[where m = bag_write]) (rule tot_bag_write)
  show ?thesis
    unfolding writeMessageDataRecord_def[abs_def] Let_def
    by (rule total_comp[where h = "\<lambda>s. s\<lparr>record_buffer := buffer_memcpy 0
            (take (unat (serializationLength msg)) (msg_bytes msg))
            (setSize (serializationLength msg) (record_buffer s))\<rparr>"],
        simp add: ok_def,
        intro total_andThen tot_seek tot_writeHeader tot_writeDataLength wr total_return)
       (simp_all add: ok_def)
qed

lemma tot_doWrite_connection_info: "tot (doWrite_connection_info conn_id ci topic msg h)"
proof (cases ci)
  case None
  show ?thesis
    unfolding doWrite_connection_info_def[abs_def] Let_def None option.case
    by (rule total_comp[where h = "\<lambda>s. s\<lparr>connections := map_set conn_id
            (Some (new_ConnectionInfo conn_id topic msg h)) (connections s)\<rparr>"],
        simp add: ok_def,
        intro total_andThen tot_writeConnectionRecord total_return)
       (simp add: ok_def)
next
  case (Some info)
  show ?thesis
    unfolding doWrite_connection_info_def[abs_def] Some option.case
    by (rule total_return) simp
qed

lemma ok_doWrite_index: "ok (doWrite_index info t s) = ok s"
  by (simp add: ok_def doWrite_index_def Let_def)

lemma tot_doWrite_block: "tot (doWrite_block conn_id ci topic t msg h)"
proof -
  have wmi: "tot (\<lambda>s. writeMessageDataRecord conn_id t msg (doWrite_index info t s))" for info
    by (rule total_comp[OF _ tot_writeMessageDataRecord]) (simp add: ok_doWrite_index)
  show ?thesis
    unfolding doWrite_block_def[abs_def] Let_def
    by (intro total_andThen tot_seek total_if tot_startWritingChunk tot_doWrite_connection_info
          wmi tot_stopWritingChunk total_return)
       (simp_all add: ok_def)
qed

lemma ok_doWrite_connection_id: "ok (snd (doWrite_connection_id topic h s)) = ok s"
  by (simp add: ok_def doWrite_connection_id_def Let_def split: option.splits)

lemma doWrite_returns:
  assumes "ok s" and "\<not> time_less t TIME_MIN"
  shows "returned (doWrite topic t msg h s) \<and> ok (snd (doWrite topic t msg h s))"
proof -
  have "ok (snd (doWrite_connection_id topic h (s\<lparr>bag_revision := bag_revision s + 1\<rparr>)))"
    using assms(1) by (simp add: ok_doWrite_connection_id) (simp add: ok_def)
  then show ?thesis
    using tot_doWrite_block assms(2) unfolding total_def
    by (simp add: doWrite_def Let_def)
qed


lemma of_nat_u32_less:
  "m < n \<Longrightarrow> n < 2 ^ 32 \<Longrightarrow> (of_nat m :: u32) < of_nat n"
  by (simp add: word_less_nat_alt unat_of_nat_32)


lemma map_set_dense:
  assumes "map fst C = map of_nat [0..<length C]" and "length C < 2 ^ 32"
  shows "map_set (of_nat (length C) :: u32) v C = C @ [(of_nat (length C), v)]"
proof (rule map_set_append, rule ballI)
  fix kv assume "kv \<in> set C"
  then have "fst kv \<in> set (map fst C)" by simp
  then obtain m where "m < length C" "fst kv = of_nat m"
    unfolding assms(1) by auto
  then show "fst kv < of_nat (length C)"
    using assms(2) by (simp add: of_nat_u32_less)
qed

lemma connection_id_of_cong:
  "topic_connection_ids s' = topic_connection_ids s \<Longrightarrow>
   header_connection_ids s' = header_connection_ids s \<Longrightarrow>
   connection_id_of s' = connection_id_of s"
  by (rule ext) (simp add: connection_id_of_def split: sum.splits)





lemma connection_id_of_bag_revision [simp]:
  "connection_id_of (s\<lparr>bag_revision := x\<rparr>) = connection_id_of s"
  by (rule connection_id_of_cong) simp_all

lemma connection_id_of_new_key:
  "connection_id_of
     (case h of
        None \<Rightarrow> s\<lparr>topic_connection_ids := (topic_connection_ids s)(topic \<mapsto> i)\<rparr>
      | Some ch \<Rightarrow> s\<lparr>header_connection_ids :=
                      (header_connection_ids s)(map_set ''topic'' topic ch \<mapsto> i)\<rparr>) =
   (connection_id_of s)(connection_key topic h \<mapsto> i)"
  by (rule ext) (auto simp: connection_id_of_def connection_key_def split: option.splits sum.splits)

lemma doWrite_run:
  assumes "doWrite topic t msg h s = (Inr (), s')"
  shows "doWrite_block (fst (fst (doWrite_connection_id topic h (s\<lparr>bag_revision := bag_revision s + 1\<rparr>))))
           (snd (fst (doWrite_connection_id topic h (s\<lparr>bag_revision := bag_revision s + 1\<rparr>))))
           topic t msg h
           (snd (doWrite_connection_id topic h (s\<lparr>bag_revision := bag_revision s + 1\<rparr>))) = (Inr (), s')"
  using assms by (simp add: doWrite_def Let_def split: if_splits)

lemma doWrite_new_connection:
  assumes d: "dense_ids s" and n: "length (connections s) < 2 ^ 32"
    and run: "doWrite topic t msg h s = (Inr (), s')"
    and new: "connection_id_of s (connection_key topic h) = None"
  shows "connections s' =
           connections s @ [(of_nat (length (connections s)),
              Some (new_ConnectionInfo (of_nat (length (connections s))) topic msg h))]
         \<and> connection_id_of s' =
             (connection_id_of s)(connection_key topic h \<mapsto> of_nat (length (connections s)))"
proof -
  define i :: u32 where "i = of_nat (length (connections s))"
  define s0 where "s0 = s\<lparr>bag_revision := bag_revision s + 1\<rparr>"
  define sa where "sa = (case h of
        None \<Rightarrow> s0\<lparr>topic_connection_ids := (topic_connection_ids s0)(topic \<mapsto> i)\<rparr>
      | Some ch \<Rightarrow> s0\<lparr>header_connection_ids :=
                      (header_connection_ids s0)(map_set ''topic'' topic ch \<mapsto> i)\<rparr>)"
  have r: "doWrite_connection_id topic h s0 = ((i, None), sa)"
    unfolding doWrite_connection_id_eq sa_def i_def s0_def
    by (simp add: new split: option.splits)
  have blk: "doWrite_block i None topic t msg h sa = (Inr (), s')"
    using doWrite_run[OF run] r by (simp add: s0_def)
  have c: "connections sa = connections s"
    by (simp add: sa_def s0_def split: option.splits)
  have pre: "connections sa = connections s
      \<and> topic_connection_ids sa = topic_connection_ids sa
      \<and> header_connection_ids sa = header_connection_ids sa"
    using c by simp
  have "connections s' =
          (case None :: ConnectionInfo option of
             None \<Rightarrow> map_set i (Some (new_ConnectionInfo i topic msg h)) (connections s)
           | Some x \<Rightarrow> connections s)
      \<and> topic_connection_ids s' = topic_connection_ids sa
      \<and> header_connection_ids s' = header_connection_ids sa"
    by (rule hoareD[where s = sa and s' = s' and a = "()",
          OF doWrite_block_connections[where C = "connections s"
              and T = "topic_connection_ids sa" and H = "header_connection_ids sa"
              and conn_id = i and ci = None and topic = topic and t = t and msg = msg and h = h]
          pre blk])
  then have post: "connections s' = map_set i (Some (new_ConnectionInfo i topic msg h)) (connections s)"
    "topic_connection_ids s' = topic_connection_ids sa"
    "header_connection_ids s' = header_connection_ids sa"
    by simp_all
  have keys: "map fst (connections s) = map of_nat [0..<length (connections s)]"
    using d by (simp add: dense_ids_def)
  have "connection_id_of s' = connection_id_of sa"
    by (rule connection_id_of_cong[OF post(2,3)])
  also have "\<dots> = (connection_id_of s0)(connection_key topic h \<mapsto> i)"
    unfolding sa_def by (rule connection_id_of_new_key)
  also have "\<dots> = (connection_id_of s)(connection_key topic h \<mapsto> i)"
    by (simp add: s0_def)
  finally have ids: "connection_id_of s' = (connection_id_of s)(connection_key topic h \<mapsto> i)" .
  have "connections s' = connections s @ [(i, Some (new_ConnectionInfo i topic msg h))]"
    using post(1) unfolding i_def map_set_dense[OF keys n] .
  then show ?thesis using ids unfolding i_def by (rule conjI)
qed


subsection \<open>Connection ids\<close>


lemma ok_example_Bag_open: "ok example_Bag_open"
  by (simp add: ok_def cf_ok_def example_Bag_open_def example_Bag_def Bag_init_def cf_openWrite_def)

lemma example_Bag_open_ids:
  "connections example_Bag_open = []" "connection_id_of example_Bag_open k = None"
  by (simp_all add: example_Bag_open_def example_Bag_def Bag_init_def connection_id_of_def
        split: sum.splits)

lemma dense_ids_example_Bag_open: "dense_ids example_Bag_open"
  by (simp add: dense_ids_def example_Bag_open_ids)

lemma example_Time_ok: "\<not> time_less example_Time TIME_MIN"
  by (simp add: time_less_def example_Time_def TIME_MIN_def)

lemma doWrite_run_eq:
  "ok s \<Longrightarrow> \<not> time_less t TIME_MIN \<Longrightarrow>
   doWrite topic t msg h s = (Inr (), snd (doWrite topic t msg h s))
   \<and> ok (snd (doWrite topic t msg h s))"
  using doWrite_returns[of s t topic msg h] returnedE[of "doWrite topic t msg h s"]
  by auto


subsection \<open>Index entries of a write\<close>

lemma andThen_InrE:
  assumes "andThen r k = (Inr b, s')"
  obtains a sm where "r = (Inr a, sm)" and "k a sm = (Inr b, s')"
  using assms by (cases r) (auto simp: andThen_def split: sum.splits)

lemma pos_update_time_range [simp]: "pos (update_time_range t c) = pos c"
  by (simp add: update_time_range_def)

lemma doWrite_index_fields:
  "curr_chunk_connection_indexes (doWrite_index info t s) =
     map_set (ci_id info)
       (multiset_insert_end index_less
          \<lparr>time = t, chunk_pos = pos (curr_chunk_info s), offset = getChunkOffset s\<rparr>
          (index_of (curr_chunk_connection_indexes s) (ci_id info)))
       (curr_chunk_connection_indexes s)"
  "connection_indexes (doWrite_index info t s) =
     (if mode s \<noteq> Write
      then map_set (ci_id info)
             (multiset_insert_end index_less
                \<lparr>time = t, chunk_pos = pos (curr_chunk_info s), offset = getChunkOffset s\<rparr>
                (index_of (connection_indexes s) (ci_id info)))
             (connection_indexes s)
      else connection_indexes s)"
  "chunk_threshold (doWrite_index info t s) = chunk_threshold s"
  "pos (curr_chunk_info (doWrite_index info t s)) = pos (curr_chunk_info s)"
  by (simp_all add: doWrite_index_def Let_def)

lemma doWrite_tail_effect:
  assumes run: "andThen (writeMessageDataRecord conn_id t msg (doWrite_index info t s)) (\<lambda>_ s.
       (let chunk_size = getChunkOffset s in
        if chunk_size > chunk_threshold s then
          andThen (stopWritingChunk s) (\<lambda>_ s.
            (Inr (),
             s\<lparr>outgoing_chunk_buffer := setSize 0 (outgoing_chunk_buffer s),
               curr_chunk_info := (curr_chunk_info s)\<lparr>pos := - 1\<rparr>\<rparr>))
        else (Inr (), s))) = (Inr u, s')"
  shows "\<exists>off sm.
      curr_chunk_connection_indexes sm =
        map_set (ci_id info)
          (multiset_insert_end index_less
             \<lparr>time = t, chunk_pos = pos (curr_chunk_info sm), offset = off\<rparr>
             (index_of (curr_chunk_connection_indexes s) (ci_id info)))
          (curr_chunk_connection_indexes s)
      \<and> connection_indexes s' =
          (if mode s \<noteq> Write
           then map_set (ci_id info)
                  (multiset_insert_end index_less
                     \<lparr>time = t, chunk_pos = pos (curr_chunk_info sm), offset = off\<rparr>
                     (index_of (connection_indexes s) (ci_id info)))
                  (connection_indexes s)
           else connection_indexes s)
      \<and> chunk_threshold sm = chunk_threshold s
      \<and> (if getChunkOffset sm > chunk_threshold sm
          then \<exists>sc. stopWritingChunk sm = (Inr (), sc)
                 \<and> s' = sc\<lparr>outgoing_chunk_buffer := setSize 0 (outgoing_chunk_buffer sc),
                          curr_chunk_info := (curr_chunk_info sc)\<lparr>pos := - 1\<rparr>\<rparr>
          else s' = sm)"
proof -
  define si where "si = doWrite_index info t s"
  obtain a sm where w: "writeMessageDataRecord conn_id t msg si = (Inr a, sm)"
    and k: "(let chunk_size = getChunkOffset sm in
        if chunk_size > chunk_threshold sm then
          andThen (stopWritingChunk sm) (\<lambda>_ s.
            (Inr (),
             s\<lparr>outgoing_chunk_buffer := setSize 0 (outgoing_chunk_buffer s),
               curr_chunk_info := (curr_chunk_info s)\<lparr>pos := - 1\<rparr>\<rparr>))
        else (Inr (), sm)) = (Inr u, s')"
    using run unfolding si_def[symmetric] by (rule andThen_InrE)
  define J :: "Bag \<Rightarrow> bool" where "J = (\<lambda>x. curr_chunk_connection_indexes x = curr_chunk_connection_indexes si
      \<and> connection_indexes x = connection_indexes si
      \<and> chunk_threshold x = chunk_threshold si
      \<and> pos (curr_chunk_info x) = pos (curr_chunk_info si))"
  have "preserved J (writeMessageDataRecord conn_id t msg)"
    unfolding J_def by (rule writeMessageDataRecord_preserved) simp_all
  then have "J (snd (writeMessageDataRecord conn_id t msg si))"
    by (rule preservedD) (simp add: J_def)
  then have sm: "curr_chunk_connection_indexes sm = curr_chunk_connection_indexes si"
    "connection_indexes sm = connection_indexes si"
    "chunk_threshold sm = chunk_threshold si"
    "pos (curr_chunk_info sm) = pos (curr_chunk_info si)"
    by (simp_all add: w J_def)
  have ci: "connection_indexes s' = connection_indexes sm"
    and fin: "if getChunkOffset sm > chunk_threshold sm
          then \<exists>sc. stopWritingChunk sm = (Inr (), sc)
                 \<and> s' = sc\<lparr>outgoing_chunk_buffer := setSize 0 (outgoing_chunk_buffer sc),
                          curr_chunk_info := (curr_chunk_info sc)\<lparr>pos := - 1\<rparr>\<rparr>
          else s' = sm"
  proof -
    show "if getChunkOffset sm > chunk_threshold sm
          then \<exists>sc. stopWritingChunk sm = (Inr (), sc)
                 \<and> s' = sc\<lparr>outgoing_chunk_buffer := setSize 0 (outgoing_chunk_buffer sc),
                          curr_chunk_info := (curr_chunk_info sc)\<lparr>pos := - 1\<rparr>\<rparr>
          else s' = sm"
    proof (cases "getChunkOffset sm > chunk_threshold sm")
      case True
      then have "andThen (stopWritingChunk sm) (\<lambda>_ s.
            (Inr (),
             s\<lparr>outgoing_chunk_buffer := setSize 0 (outgoing_chunk_buffer s),
               curr_chunk_info := (curr_chunk_info s)\<lparr>pos := - 1\<rparr>\<rparr>)) = (Inr u, s')"
        using k by (simp add: Let_def)
      then obtain b sc where "stopWritingChunk sm = (Inr b, sc)"
        and "(Inr (),
             sc\<lparr>outgoing_chunk_buffer := setSize 0 (outgoing_chunk_buffer sc),
               curr_chunk_info := (curr_chunk_info sc)\<lparr>pos := - 1\<rparr>\<rparr>) = (Inr u, s')"
        by (rule andThen_InrE) auto
      then show ?thesis using True by auto
    next
      case False
      then show ?thesis using k by (simp add: Let_def)
    qed
    then show "connection_indexes s' = connection_indexes sm"
    proof (cases "getChunkOffset sm > chunk_threshold sm")
      case True
      assume "if getChunkOffset sm > chunk_threshold sm
          then \<exists>sc. stopWritingChunk sm = (Inr (), sc)
                 \<and> s' = sc\<lparr>outgoing_chunk_buffer := setSize 0 (outgoing_chunk_buffer sc),
                          curr_chunk_info := (curr_chunk_info sc)\<lparr>pos := - 1\<rparr>\<rparr>
          else s' = sm"
      then obtain sc where sc: "stopWritingChunk sm = (Inr (), sc)"
        and s': "s' = sc\<lparr>outgoing_chunk_buffer := setSize 0 (outgoing_chunk_buffer sc),
                          curr_chunk_info := (curr_chunk_info sc)\<lparr>pos := - 1\<rparr>\<rparr>"
        using True by auto
      have "preserved (\<lambda>x. connection_indexes x = connection_indexes sm) stopWritingChunk"
        by (rule stopWritingChunk_preserved) simp_all
      then have "connection_indexes (snd (stopWritingChunk sm)) = connection_indexes sm"
        by (rule preservedD) simp
      then show ?thesis by (simp add: sc s')
    next
      case False
      assume "if getChunkOffset sm > chunk_threshold sm
          then \<exists>sc. stopWritingChunk sm = (Inr (), sc)
                 \<and> s' = sc\<lparr>outgoing_chunk_buffer := setSize 0 (outgoing_chunk_buffer sc),
                          curr_chunk_info := (curr_chunk_info sc)\<lparr>pos := - 1\<rparr>\<rparr>
          else s' = sm"
      then show ?thesis using False by simp
    qed
  qed
  have p: "pos (curr_chunk_info sm) = pos (curr_chunk_info s)"
    by (simp add: sm si_def doWrite_index_fields)
  have 1: "curr_chunk_connection_indexes sm =
        map_set (ci_id info)
          (multiset_insert_end index_less
             \<lparr>time = t, chunk_pos = pos (curr_chunk_info sm), offset = getChunkOffset s\<rparr>
             (index_of (curr_chunk_connection_indexes s) (ci_id info)))
          (curr_chunk_connection_indexes s)"
    unfolding p by (simp add: sm si_def doWrite_index_fields)
  have 2: "connection_indexes s' =
          (if mode s \<noteq> Write
           then map_set (ci_id info)
                  (multiset_insert_end index_less
                     \<lparr>time = t, chunk_pos = pos (curr_chunk_info sm), offset = getChunkOffset s\<rparr>
                     (index_of (connection_indexes s) (ci_id info)))
                  (connection_indexes s)
           else connection_indexes s)"
    unfolding p ci by (simp add: sm si_def doWrite_index_fields)
  have 3: "chunk_threshold sm = chunk_threshold s"
    by (simp add: sm si_def doWrite_index_fields)
  show ?thesis
    using 1 2 3 fin by blast
qed

lemma doWrite_connection_info_value:
  assumes "doWrite_connection_info conn_id ci topic msg h s = (Inr info, s')"
  shows "info = (case ci of None \<Rightarrow> new_ConnectionInfo conn_id topic msg h | Some i \<Rightarrow> i)"
proof (cases ci)
  case None
  then have "andThen (writeConnectionRecord (new_ConnectionInfo conn_id topic msg h) False
        (s\<lparr>connections := map_set conn_id (Some (new_ConnectionInfo conn_id topic msg h))
                             (connections s)\<rparr>))
      (\<lambda>_ s. (Inr (new_ConnectionInfo conn_id topic msg h),
               s\<lparr>outgoing_chunk_buffer :=
                   appendConnectionRecordToBuffer (new_ConnectionInfo conn_id topic msg h)
                     (outgoing_chunk_buffer s)\<rparr>)) = (Inr info, s')"
    using assms by (simp add: doWrite_connection_info_def Let_def)
  then show ?thesis
    by (rule andThen_InrE) (simp add: None)
next
  case (Some i)
  then show ?thesis using assms by (simp add: doWrite_connection_info_def)
qed

lemma doWrite_block_index_effect:
  assumes run: "doWrite_block conn_id ci topic t msg h s = (Inr (), s')"
    and k: "k = ci_id (case ci of None \<Rightarrow> new_ConnectionInfo conn_id topic msg h | Some i \<Rightarrow> i)"
  shows "\<exists>off sm.
      curr_chunk_connection_indexes sm =
        map_set k
          (multiset_insert_end index_less
             \<lparr>time = t, chunk_pos = pos (curr_chunk_info sm), offset = off\<rparr>
             (index_of (curr_chunk_connection_indexes s) k))
          (curr_chunk_connection_indexes s)
      \<and> connection_indexes s' =
          (if mode s \<noteq> Write
           then map_set k
                  (multiset_insert_end index_less
                     \<lparr>time = t, chunk_pos = pos (curr_chunk_info sm), offset = off\<rparr>
                     (index_of (connection_indexes s) k))
                  (connection_indexes s)
           else connection_indexes s)
      \<and> chunk_threshold sm = chunk_threshold s
      \<and> (if getChunkOffset sm > chunk_threshold sm
          then \<exists>sc. stopWritingChunk sm = (Inr (), sc)
                 \<and> s' = sc\<lparr>outgoing_chunk_buffer := setSize 0 (outgoing_chunk_buffer sc),
                          curr_chunk_info := (curr_chunk_info sc)\<lparr>pos := - 1\<rparr>\<rparr>
          else s' = sm)"
proof -
  define I :: "Bag \<Rightarrow> bool" where "I = (\<lambda>x.
      curr_chunk_connection_indexes x = curr_chunk_connection_indexes s
      \<and> connection_indexes x = connection_indexes s
      \<and> mode x = mode s \<and> chunk_threshold x = chunk_threshold s)"
  have I0: "I s" by (simp add: I_def)
  have p1: "preserved I (seek 0 ios_end)"
    unfolding I_def by (rule preserved_file_only[OF file_only_seek]) simp
  have p3: "preserved I (\<lambda>s. if \<not> chunk_open s then startWritingChunk t s else (Inr (), s))"
    unfolding I_def by (intro preserved_if startWritingChunk_preserved preserved_return) simp_all
  have p4: "preserved I (doWrite_connection_info conn_id ci topic msg h)"
    unfolding I_def by (rule doWrite_connection_info_preserved) simp_all
  obtain u1 sa where r1: "seek 0 ios_end s = (Inr u1, sa)"
    and k1: "andThen (Inr (), sa\<lparr>file_size := cf_getOffset (bag_file sa)\<rparr>) (\<lambda>_ s.
     andThen (if \<not> chunk_open s then startWritingChunk t s else (Inr (), s)) (\<lambda>_ s.
     andThen (doWrite_connection_info conn_id ci topic msg h s)
       (\<lambda>info s.
     andThen (writeMessageDataRecord conn_id t msg (doWrite_index info t s)) (\<lambda>_ s.
       (let chunk_size = getChunkOffset s in
        if chunk_size > chunk_threshold s then
          andThen (stopWritingChunk s) (\<lambda>_ s.
            (Inr (),
             s\<lparr>outgoing_chunk_buffer := setSize 0 (outgoing_chunk_buffer s),
               curr_chunk_info := (curr_chunk_info s)\<lparr>pos := - 1\<rparr>\<rparr>))
        else (Inr (), s)))))) = (Inr (), s')"
    using run unfolding doWrite_block_def by (rule andThen_InrE)
  define sb where "sb = sa\<lparr>file_size := cf_getOffset (bag_file sa)\<rparr>"
  have Ia: "I sa" using preservedD[OF p1 I0] r1 by simp
  then have Ib: "I sb" by (simp add: I_def sb_def)
  obtain u3 sc where r3: "(if \<not> chunk_open sb then startWritingChunk t sb else (Inr (), sb)) = (Inr u3, sc)"
    and k3: "andThen (doWrite_connection_info conn_id ci topic msg h sc)
       (\<lambda>info s.
     andThen (writeMessageDataRecord conn_id t msg (doWrite_index info t s)) (\<lambda>_ s.
       (let chunk_size = getChunkOffset s in
        if chunk_size > chunk_threshold s then
          andThen (stopWritingChunk s) (\<lambda>_ s.
            (Inr (),
             s\<lparr>outgoing_chunk_buffer := setSize 0 (outgoing_chunk_buffer s),
               curr_chunk_info := (curr_chunk_info s)\<lparr>pos := - 1\<rparr>\<rparr>))
        else (Inr (), s)))) = (Inr (), s')"
    using k1 unfolding andThen_Inr sb_def[symmetric] by (rule andThen_InrE)
  have Ic: "I sc" using preservedD[OF p3 Ib] r3 by simp
  obtain info sd where r4: "doWrite_connection_info conn_id ci topic msg h sc = (Inr info, sd)"
    and k4: "andThen (writeMessageDataRecord conn_id t msg (doWrite_index info t sd)) (\<lambda>_ s.
       (let chunk_size = getChunkOffset s in
        if chunk_size > chunk_threshold s then
          andThen (stopWritingChunk s) (\<lambda>_ s.
            (Inr (),
             s\<lparr>outgoing_chunk_buffer := setSize 0 (outgoing_chunk_buffer s),
               curr_chunk_info := (curr_chunk_info s)\<lparr>pos := - 1\<rparr>\<rparr>))
        else (Inr (), s))) = (Inr (), s')"
    using k3 by (rule andThen_InrE)
  have Id: "I sd" using preservedD[OF p4 Ic] r4 by simp
  have kk: "ci_id info = k"
    using doWrite_connection_info_value[OF r4] k by simp
  have d: "curr_chunk_connection_indexes sd = curr_chunk_connection_indexes s"
    "connection_indexes sd = connection_indexes s"
    "mode sd = mode s" "chunk_threshold sd = chunk_threshold s"
    using Id by (simp_all add: I_def)
  show ?thesis
    using doWrite_tail_effect[OF k4] unfolding kk d .
qed

lemma doWrite_connection_id_frame:
  "curr_chunk_connection_indexes (snd (doWrite_connection_id topic h s)) = curr_chunk_connection_indexes s"
  "connection_indexes (snd (doWrite_connection_id topic h s)) = connection_indexes s"
  "mode (snd (doWrite_connection_id topic h s)) = mode s"
  "chunk_threshold (snd (doWrite_connection_id topic h s)) = chunk_threshold s"
  by (simp_all add: doWrite_connection_id_def Let_def split: option.splits)

lemma doWrite_connection_id_bag_revision_indep:
  "fst (doWrite_connection_id topic h (s\<lparr>bag_revision := x\<rparr>)) = fst (doWrite_connection_id topic h s)"
  by (simp add: doWrite_connection_id_def Let_def split: option.splits)

lemma doWrite_index_effect_run:
  assumes "doWrite topic t msg h s = (Inr (), s')"
  shows "\<exists>off sm.
      curr_chunk_connection_indexes sm =
        map_set (doWrite_index_key topic msg h s)
          (multiset_insert_end index_less
             \<lparr>time = t, chunk_pos = pos (curr_chunk_info sm), offset = off\<rparr>
             (index_of (curr_chunk_connection_indexes s) (doWrite_index_key topic msg h s)))
          (curr_chunk_connection_indexes s)
      \<and> connection_indexes s' =
          (if mode s \<noteq> Write
           then map_set (doWrite_index_key topic msg h s)
                  (multiset_insert_end index_less
                     \<lparr>time = t, chunk_pos = pos (curr_chunk_info sm), offset = off\<rparr>
                     (index_of (connection_indexes s) (doWrite_index_key topic msg h s)))
                  (connection_indexes s)
           else connection_indexes s)
      \<and> chunk_threshold sm = chunk_threshold s
      \<and> (if getChunkOffset sm > chunk_threshold sm
          then \<exists>sc. stopWritingChunk sm = (Inr (), sc)
                 \<and> s' = sc\<lparr>outgoing_chunk_buffer := setSize 0 (outgoing_chunk_buffer sc),
                          curr_chunk_info := (curr_chunk_info sc)\<lparr>pos := - 1\<rparr>\<rparr>
          else s' = sm)"
proof -
  define s0 where "s0 = s\<lparr>bag_revision := bag_revision s + 1\<rparr>"
  define r where "r = doWrite_connection_id topic h s0"
  have blk: "doWrite_block (fst (fst r)) (snd (fst r)) topic t msg h (snd r) = (Inr (), s')"
    using doWrite_run[OF assms] by (simp add: r_def s0_def)
  have fr: "fst r = fst (doWrite_connection_id topic h s)"
    unfolding r_def s0_def by (rule doWrite_connection_id_bag_revision_indep)
  have k: "doWrite_index_key topic msg h s =
      ci_id (case snd (fst r) of None \<Rightarrow> new_ConnectionInfo (fst (fst r)) topic msg h | Some i \<Rightarrow> i)"
    unfolding fr by (simp add: doWrite_index_key_def Let_def split: option.splits)
  have f: "curr_chunk_connection_indexes (snd r) = curr_chunk_connection_indexes s"
    "connection_indexes (snd r) = connection_indexes s"
    "mode (snd r) = mode s" "chunk_threshold (snd r) = chunk_threshold s"
    by (simp_all add: r_def doWrite_connection_id_frame s0_def)
  show ?thesis
    using doWrite_block_index_effect[OF blk k] unfolding f .
qed

text \<open>
  Claim C8. In \<open>Write\<close> mode a write leaves \<open>connection_indexes\<close> unchanged,
  whatever its outcome. A write that returns normally has made the index entry of its
  message, with the time of the message and the position of the current chunk, and has
  put it into \<open>curr_chunk_connection_indexes\<close> under the id of the connection, in
  every mode: \<open>sm\<close> is the engine when the message record is written (line 609),
  and the check of the chunk size that follows either leaves it as it is or closes the
  chunk, which flushes the entries. When the mode is not \<open>Write\<close> the same entry is
  in \<open>connection_indexes\<close> after the write.
\<close>

theorem doWrite_index_effect:
  "(mode s = Write \<longrightarrow>
      connection_indexes (snd (doWrite topic t msg h s)) = connection_indexes s)
   \<and> (doWrite topic t msg h s = (Inr (), s') \<longrightarrow>
      (\<exists>off sm.
         curr_chunk_connection_indexes sm =
           map_set (doWrite_index_key topic msg h s)
             (multiset_insert_end index_less
                \<lparr>time = t, chunk_pos = pos (curr_chunk_info sm), offset = off\<rparr>
                (index_of (curr_chunk_connection_indexes s) (doWrite_index_key topic msg h s)))
             (curr_chunk_connection_indexes s)
         \<and> connection_indexes s' =
             (if mode s \<noteq> Write
              then map_set (doWrite_index_key topic msg h s)
                     (multiset_insert_end index_less
                        \<lparr>time = t, chunk_pos = pos (curr_chunk_info sm), offset = off\<rparr>
                        (index_of (connection_indexes s) (doWrite_index_key topic msg h s)))
                     (connection_indexes s)
              else connection_indexes s)
         \<and> chunk_threshold sm = chunk_threshold s
         \<and> (if getChunkOffset sm > chunk_threshold sm
             then \<exists>sc. stopWritingChunk sm = (Inr (), sc)
                    \<and> s' = sc\<lparr>outgoing_chunk_buffer := setSize 0 (outgoing_chunk_buffer sc),
                             curr_chunk_info := (curr_chunk_info sc)\<lparr>pos := - 1\<rparr>\<rparr>
             else s' = sm)))"
proof (intro conjI impI)
  assume "mode s = Write"
  then show "connection_indexes (snd (doWrite topic t msg h s)) = connection_indexes s"
    by (simp add: doWrite_def Let_def doWrite_block_Write_indexes
          doWrite_connection_id_mode_indexes)
next
  assume "doWrite topic t msg h s = (Inr (), s')"
  then show "\<exists>off sm.
         curr_chunk_connection_indexes sm =
           map_set (doWrite_index_key topic msg h s)
             (multiset_insert_end index_less
                \<lparr>time = t, chunk_pos = pos (curr_chunk_info sm), offset = off\<rparr>
                (index_of (curr_chunk_connection_indexes s) (doWrite_index_key topic msg h s)))
             (curr_chunk_connection_indexes s)
         \<and> connection_indexes s' =
             (if mode s \<noteq> Write
              then map_set (doWrite_index_key topic msg h s)
                     (multiset_insert_end index_less
                        \<lparr>time = t, chunk_pos = pos (curr_chunk_info sm), offset = off\<rparr>
                        (index_of (connection_indexes s) (doWrite_index_key topic msg h s)))
                     (connection_indexes s)
              else connection_indexes s)
         \<and> chunk_threshold sm = chunk_threshold s
         \<and> (if getChunkOffset sm > chunk_threshold sm
             then \<exists>sc. stopWritingChunk sm = (Inr (), sc)
                    \<and> s' = sc\<lparr>outgoing_chunk_buffer := setSize 0 (outgoing_chunk_buffer sc),
                             curr_chunk_info := (curr_chunk_info sc)\<lparr>pos := - 1\<rparr>\<rparr>
             else s' = sm)"
    by (rule doWrite_index_effect_run)
qed

lemma example_Bag_writing_facts:
  "ok (example_Bag_writing m)"
  "mode (example_Bag_writing m) = m"
  "chunk_threshold (example_Bag_writing m) = - 1"
  "curr_chunk_connection_indexes (example_Bag_writing m) = []"
  "connection_indexes (example_Bag_writing m) = []"
  "doWrite_index_key ''/a'' example_Message None (example_Bag_writing m) = 0"
  using ok_example_Bag_open
  by (simp_all add: example_Bag_writing_def ok_def example_Bag_open_def example_Bag_def
        Bag_init_def doWrite_index_key_def doWrite_connection_id_def new_ConnectionInfo_def)

lemma doWrite_example_Bag_writing:
  assumes ex: "\<exists>off sm.
      curr_chunk_connection_indexes sm =
        map_set 0
          (multiset_insert_end index_less
             \<lparr>time = example_Time, chunk_pos = pos (curr_chunk_info sm), offset = off\<rparr>
             (index_of [] 0))
          []
      \<and> connection_indexes s' =
          (if m \<noteq> Write
           then map_set 0
                  (multiset_insert_end index_less
                     \<lparr>time = example_Time, chunk_pos = pos (curr_chunk_info sm), offset = off\<rparr>
                     (index_of [] 0))
                  []
           else [])
      \<and> chunk_threshold sm = - 1
      \<and> (if getChunkOffset sm > chunk_threshold sm
          then \<exists>sc. stopWritingChunk sm = (Inr (), sc)
                 \<and> s' = sc\<lparr>outgoing_chunk_buffer := setSize 0 (outgoing_chunk_buffer sc),
                          curr_chunk_info := (curr_chunk_info sc)\<lparr>pos := - 1\<rparr>\<rparr>
          else s' = sm)"
  shows "\<exists>off.
      curr_chunk_connection_indexes s' =
        [(0, [\<lparr>time = example_Time, chunk_pos = pos (curr_chunk_info s'), offset = off\<rparr>])]
      \<and> connection_indexes s' =
          (if m \<noteq> Write
           then [(0, [\<lparr>time = example_Time, chunk_pos = pos (curr_chunk_info s'), offset = off\<rparr>])]
           else [])"
proof -
  obtain off sm where a: "curr_chunk_connection_indexes sm =
        map_set 0
          (multiset_insert_end index_less
             \<lparr>time = example_Time, chunk_pos = pos (curr_chunk_info sm), offset = off\<rparr>
             (index_of [] 0))
          []"
    and b: "connection_indexes s' =
          (if m \<noteq> Write
           then map_set 0
                  (multiset_insert_end index_less
                     \<lparr>time = example_Time, chunk_pos = pos (curr_chunk_info sm), offset = off\<rparr>
                     (index_of [] 0))
                  []
           else [])"
    and c: "chunk_threshold sm = - 1"
    and d: "if getChunkOffset sm > chunk_threshold sm
          then \<exists>sc. stopWritingChunk sm = (Inr (), sc)
                 \<and> s' = sc\<lparr>outgoing_chunk_buffer := setSize 0 (outgoing_chunk_buffer sc),
                          curr_chunk_info := (curr_chunk_info sc)\<lparr>pos := - 1\<rparr>\<rparr>
          else s' = sm"
    using ex by blast
  have "\<not> getChunkOffset sm > chunk_threshold sm" by (simp add: c)
  then have e: "s' = sm" using d by simp
  show ?thesis
    using a b unfolding e by (intro exI[of _ off]) (simp add: index_of_Nil)
qed

theorem doWrite_index_effect_witness:
  "(\<exists>off.
      curr_chunk_connection_indexes
        (snd (doWrite ''/a'' example_Time example_Message None (example_Bag_writing Write))) =
        [(0, [\<lparr>time = example_Time,
               chunk_pos = pos (curr_chunk_info
                 (snd (doWrite ''/a'' example_Time example_Message None (example_Bag_writing Write)))),
               offset = off\<rparr>])])
   \<and> connection_indexes
        (snd (doWrite ''/a'' example_Time example_Message None (example_Bag_writing Write))) = []
   \<and> (\<exists>off.
      curr_chunk_connection_indexes
        (snd (doWrite ''/a'' example_Time example_Message None (example_Bag_writing Append))) =
        [(0, [\<lparr>time = example_Time,
               chunk_pos = pos (curr_chunk_info
                 (snd (doWrite ''/a'' example_Time example_Message None (example_Bag_writing Append)))),
               offset = off\<rparr>])]
      \<and> connection_indexes
        (snd (doWrite ''/a'' example_Time example_Message None (example_Bag_writing Append))) =
        [(0, [\<lparr>time = example_Time,
               chunk_pos = pos (curr_chunk_info
                 (snd (doWrite ''/a'' example_Time example_Message None (example_Bag_writing Append)))),
               offset = off\<rparr>])])"
proof -
  define sw where "sw = snd (doWrite ''/a'' example_Time example_Message None (example_Bag_writing Write))"
  define sp where "sp = snd (doWrite ''/a'' example_Time example_Message None (example_Bag_writing Append))"
  have rw: "doWrite ''/a'' example_Time example_Message None (example_Bag_writing Write) = (Inr (), sw)"
    using doWrite_run_eq[OF example_Bag_writing_facts(1) example_Time_ok] by (simp add: sw_def)
  have rp: "doWrite ''/a'' example_Time example_Message None (example_Bag_writing Append) = (Inr (), sp)"
    using doWrite_run_eq[OF example_Bag_writing_facts(1) example_Time_ok] by (simp add: sp_def)
  have w: "\<exists>off.
      curr_chunk_connection_indexes sw =
        [(0, [\<lparr>time = example_Time, chunk_pos = pos (curr_chunk_info sw), offset = off\<rparr>])]
      \<and> connection_indexes sw =
          (if Write \<noteq> Write
           then [(0, [\<lparr>time = example_Time, chunk_pos = pos (curr_chunk_info sw), offset = off\<rparr>])]
           else [])"
    by (rule doWrite_example_Bag_writing)
       (use doWrite_index_effect[THEN conjunct2, rule_format, OF rw] in \<open>simp only: example_Bag_writing_facts\<close>)
  have p: "\<exists>off.
      curr_chunk_connection_indexes sp =
        [(0, [\<lparr>time = example_Time, chunk_pos = pos (curr_chunk_info sp), offset = off\<rparr>])]
      \<and> connection_indexes sp =
          (if Append \<noteq> Write
           then [(0, [\<lparr>time = example_Time, chunk_pos = pos (curr_chunk_info sp), offset = off\<rparr>])]
           else [])"
    by (rule doWrite_example_Bag_writing)
       (use doWrite_index_effect[THEN conjunct2, rule_format, OF rp] in \<open>simp only: example_Bag_writing_facts\<close>)
  show ?thesis
    using w p unfolding sw_def[symmetric] sp_def[symmetric] by auto
qed

subsection \<open>Closing\<close>

lemma tot_writeFileHeaderRecord: "tot writeFileHeaderRecord"
  unfolding total_def
proof (intro allI impI)
  fix s assume a: "ok s \<and> True"
  define sa where "sa = s\<lparr>connection_count := of_nat (length (connections s)),
                chunk_count := of_nat (length (chunks s))\<rparr>"
  define hb where "hb = header_bytes (addFieldsToFileHeader (encryptor sa)
      (file_header_fields (index_data_pos sa) (connection_count sa) (chunk_count sa)))"
  define header_len :: u32 where "header_len = of_nat (length hb)"
  define data_len :: u32 where "data_len = (if header_len + 8 < FILE_HEADER_LENGTH
                      then FILE_HEADER_LENGTH - (header_len + 8) else 0)"
  define body :: "Bag \<Rightarrow> (BagError + unit) \<times> Bag" where "body = (\<lambda>s.
      andThen (bag_write (u32_bytes header_len) s) (\<lambda>_ s.
      andThen (bag_write hb s) (\<lambda>_ s.
      andThen (bag_write (u32_bytes data_len) s) (\<lambda>_ s.
        if data_len > 0 then bag_write (replicate (unat data_len) (CHR '' '')) s
        else (Inr (), s)))))"
  have eq: "writeFileHeaderRecord s = body sa"
    by (simp add: writeFileHeaderRecord_def Let_def body_def sa_def hb_def header_len_def
          data_len_def cong: if_cong)
  have "tot body"
    unfolding body_def
    by (intro total_andThen tot_bag_write total_if total_return) simp
  moreover have "ok sa" using a by (simp add: ok_def sa_def)
  ultimately show "returned (writeFileHeaderRecord s) \<and> ok (snd (writeFileHeaderRecord s)) \<and> True"
    unfolding eq total_def by blast
qed

lemma tot_writeConnectionCount: "tot (writeConnectionCount cc)"
  unfolding writeConnectionCount_def[abs_def] by (intro total_andThen tot_bag_write)

lemma tot_writeChunkInfoRecord: "tot (writeChunkInfoRecord chunk_info)"
  unfolding writeChunkInfoRecord_def[abs_def] Let_def
  by (intro total_andThen tot_writeHeader tot_writeDataLength total_forEach tot_writeConnectionCount)

lemma tot_writeChunkInfoRecords: "tot writeChunkInfoRecords"
  unfolding writeChunkInfoRecords_def[abs_def]
  by (rule total_dep[where m = "forEach writeChunkInfoRecord"])
     (rule total_forEach[OF tot_writeChunkInfoRecord])

lemma file_only_writeConnectionCount: "file_only (writeConnectionCount cc)"
  unfolding writeConnectionCount_def[abs_def]
  by (intro file_only_andThen file_only_bag_write)

lemma file_only_writeChunkInfoRecord: "file_only (writeChunkInfoRecord chunk_info)"
  unfolding writeChunkInfoRecord_def[abs_def] Let_def
  by (intro file_only_andThen file_only_writeHeader file_only_writeDataLength
        file_only_forEach file_only_writeConnectionCount)

lemma file_only_writeChunkInfoRecords: "file_only writeChunkInfoRecords"
  unfolding writeChunkInfoRecords_def[abs_def]
  by (rule file_only_dep[where m = "forEach writeChunkInfoRecord"])
     (rule file_only_forEach[OF file_only_writeChunkInfoRecord])

lemma file_only_writeConnectionRecords: "file_only writeConnectionRecords"
proof -
  have g: "file_only (\<lambda>s. case snd c of
                       None \<Rightarrow> (Inl (OtherException ''null ConnectionInfo''), s)
                     | Some connection_info \<Rightarrow> writeConnectionRecord connection_info True s)"
    for c :: "u32 \<times> ConnectionInfo option"
  proof (cases "snd c")
    case None
    have "s = s\<lparr>bag_file := bag_file s\<rparr>" for s :: Bag by simp
    then show ?thesis unfolding None option.case file_only_def by (metis snd_conv)
  next
    case (Some i)
    show ?thesis unfolding Some option.case by (rule file_only_writeConnectionRecord)
  qed
  show ?thesis
    unfolding writeConnectionRecords_def[abs_def]
    by (rule file_only_dep[where m = "forEach (\<lambda>c s. case snd c of
                       None \<Rightarrow> (Inl (OtherException ''null ConnectionInfo''), s)
                     | Some connection_info \<Rightarrow> writeConnectionRecord connection_info True s)"])
       (rule file_only_forEach[OF g])
qed

lemma forEach_returns:
  assumes "\<And>x. x \<in> set xs \<Longrightarrow> tot (g x)" and "ok s"
  shows "returned (forEach g xs s) \<and> ok (snd (forEach g xs s))"
  using assms
proof (induction xs arbitrary: s)
  case Nil
  then show ?case by simp
next
  case (Cons x xs)
  have "tot (g x)" using Cons.prems(1) by simp
  then have r: "returned (g x s)" and o: "ok (snd (g x s))"
    using Cons.prems(2) by (simp_all add: total_def)
  obtain a where a: "g x s = (Inr a, snd (g x s))" using returnedE[OF r] by blast
  have "returned (forEach g xs (snd (g x s))) \<and> ok (snd (forEach g xs (snd (g x s))))"
    using Cons.prems(1) o by (intro Cons.IH) simp_all
  then show ?case by (subst (1 2) forEach.simps(2)) (subst (1 2) a, simp)
qed

lemma total_writeConnectionRecords: "total connections_set writeConnectionRecords"
  unfolding total_def
proof (intro allI impI)
  fix s assume a: "ok s \<and> connections_set s"
  let ?g = "\<lambda>c s. case snd c of
                       None \<Rightarrow> (Inl (OtherException ''null ConnectionInfo''), s)
                     | Some connection_info \<Rightarrow> writeConnectionRecord connection_info True s"
  have g: "tot (?g c)" if c: "c \<in> set (connections s)" for c
  proof -
    obtain i where "snd c = Some i" using a c by (auto simp: connections_set_def)
    then show ?thesis by (simp add: tot_writeConnectionRecord)
  qed
  have "returned (forEach ?g (connections s) s) \<and> ok (snd (forEach ?g (connections s) s))"
    using a by (intro forEach_returns g) simp_all
  moreover have "connections (snd (writeConnectionRecords s)) = connections s"
    using file_only_frame[OF file_only_writeConnectionRecords, of s] by simp
  ultimately show "returned (writeConnectionRecords s) \<and> ok (snd (writeConnectionRecords s))
      \<and> connections_set (snd (writeConnectionRecords s))"
    using a by (simp add: writeConnectionRecords_def connections_set_def)
qed

lemma connections_set_frame [simp]:
  "connections_set (s\<lparr>bag_file := f\<rparr>) = connections_set s"
  "connections_set (s\<lparr>chunks := a\<rparr>) = connections_set s"
  "connections_set (s\<lparr>curr_chunk_connection_indexes := b\<rparr>) = connections_set s"
  "connections_set (s\<lparr>chunk_open := c\<rparr>) = connections_set s"
  "connections_set (s\<lparr>index_data_pos := d\<rparr>) = connections_set s"
  "connections_set (s\<lparr>connection_count := e\<rparr>) = connections_set s"
  "connections_set (s\<lparr>chunk_count := g\<rparr>) = connections_set s"
  by (simp_all add: connections_set_def)

lemma total_stopWriting: "total connections_set stopWriting"
proof -
  have fo: "total connections_set m" if "tot m" "file_only m"
    for m :: "Bag \<Rightarrow> (BagError + unit) \<times> Bag"
    by (rule total_weaken[OF that(1)], rule preserved_file_only[OF that(2)]) simp
  have sc: "total connections_set stopWritingChunk"
    by (rule total_weaken[OF tot_stopWritingChunk], rule stopWritingChunk_preserved) simp_all
  have sk: "total connections_set (\<lambda>s. seek (file_header_pos s) ios_beg s)"
    by (rule total_dep[where m = "\<lambda>x. seek x ios_beg"]) (rule fo[OF tot_seek file_only_seek])
  have fh: "total connections_set writeFileHeaderRecord"
    unfolding total_def
  proof (intro allI impI)
    fix s assume a: "ok s \<and> connections_set s"
    have "returned (writeFileHeaderRecord s) \<and> ok (snd (writeFileHeaderRecord s))"
      using tot_writeFileHeaderRecord a by (simp add: total_def)
    moreover have "connections (snd (writeFileHeaderRecord s)) = connections s"
    proof -
      have "preserved (\<lambda>x. connections x = connections s) writeFileHeaderRecord"
        unfolding writeFileHeaderRecord_def[abs_def] Let_def preserved_def
        by (auto simp: snd_andThen bag_write_def split: sum.splits if_splits)
      then show ?thesis by (simp add: preserved_def)
    qed
    ultimately show "returned (writeFileHeaderRecord s) \<and> ok (snd (writeFileHeaderRecord s))
        \<and> connections_set (snd (writeFileHeaderRecord s))"
      using a by (simp add: connections_set_def)
  qed
  show ?thesis
    unfolding stopWriting_def[abs_def]
    by (intro total_andThen total_if sc fo[OF tot_seek file_only_seek] total_writeConnectionRecords
          fo[OF tot_writeChunkInfoRecords file_only_writeChunkInfoRecords] sk fh total_return)
       (simp_all add: ok_def)
qed

lemma close_returns:
  assumes "ok s" and "connections_set s"
  shows "returned (close s) \<and> \<not> isOpen (snd (close s))"
proof -
  have o: "isOpen s" using assms(1) by (simp add: ok_def cf_ok_def isOpen_def cf_isOpen_def)
  have "returned (stopWriting s)" using total_stopWriting assms by (simp add: total_def)
  then obtain a where a: "stopWriting s = (Inr a, snd (stopWriting s))"
    using returnedE by blast
  show ?thesis
  proof (cases "mode s = Write \<or> mode s = Append")
    case True
    then have "close s = (Inr (), (snd (stopWriting s))\<lparr>bag_file := cf_close (bag_file (snd (stopWriting s)))\<rparr>)"
      using o by (simp add: close_def closeWrite_def) (subst a, simp)
    then show ?thesis by (simp add: isOpen_def cf_isOpen_def cf_close_def)
  next
    case False
    then have "close s = (Inr (), s\<lparr>bag_file := cf_close (bag_file s)\<rparr>)"
      using o by (simp add: close_def)
    then show ?thesis by (simp add: isOpen_def cf_isOpen_def cf_close_def)
  qed
qed

lemma doWrite_not_open:
  assumes "\<not> isOpen s" and "\<not> time_less t TIME_MIN"
  shows "doWrite topic t msg h s =
     (Inl (BagIOException ''seek: file not open''),
      snd (doWrite_connection_id topic h (s\<lparr>bag_revision := bag_revision s + 1\<rparr>)))"
proof -
  define sr where "sr = snd (doWrite_connection_id topic h (s\<lparr>bag_revision := bag_revision s + 1\<rparr>))"
  have "bag_file sr = bag_file s"
    by (simp add: sr_def doWrite_connection_id_def Let_def split: option.splits)
  then have "seek 0 ios_end sr = (Inl (BagIOException ''seek: file not open''), sr)"
    using assms(1) by (simp add: seek_def on_file_def cf_seek_def isOpen_def cf_isOpen_def)
  then have "doWrite_block c ci topic t msg h sr = (Inl (BagIOException ''seek: file not open''), sr)"
    for c ci
    by (simp add: doWrite_block_def)
  then show ?thesis
    using assms(2) by (simp add: doWrite_def Let_def sr_def)
qed

lemma doWrite_connection_id_bag_file:
  "bag_file (snd (doWrite_connection_id topic h s)) = bag_file s"
  by (simp add: doWrite_connection_id_def Let_def split: option.splits)

text \<open>
  Claim C4. \<open>close\<close> on an engine that is not open returns with the engine, and
  so the file, as it was. After a \<open>close\<close> that returned, the engine is not open,
  and a second \<open>close\<close> is this no-op. A write to an engine that is not open
  throws and leaves the file as it was: the time check throws for a time below
  \<open>TIME_MIN\<close>, and otherwise the first seek of the write throws a
  \<^verbatim>\<open>BagIOException\<close>.
\<close>

theorem close_idempotent:
  "(\<not> isOpen s \<longrightarrow> close s = (Inr (), s))
   \<and> (close s = (Inr (), s1) \<longrightarrow> \<not> isOpen s1 \<and> close s1 = (Inr (), s1))
   \<and> (\<not> isOpen s \<longrightarrow>
        (\<exists>e. fst (doWrite topic t msg h s) = Inl e)
        \<and> bag_file (snd (doWrite topic t msg h s)) = bag_file s)
   \<and> (\<not> isOpen s \<and> \<not> time_less t TIME_MIN \<longrightarrow>
        fst (doWrite topic t msg h s) = Inl (BagIOException ''seek: file not open''))"
proof (intro conjI impI)
  assume "\<not> isOpen s"
  then show "close s = (Inr (), s)" by (simp add: close_def)
next
  assume c: "close s = (Inr (), s1)"
  show n: "\<not> isOpen s1"
  proof (cases "isOpen s")
    case False
    then show ?thesis using c by (simp add: close_def)
  next
    case True
    then have "andThen (if mode s = Write \<or> mode s = Append then closeWrite s else (Inr (), s))
          (\<lambda>_ s. (Inr (), s\<lparr>bag_file := cf_close (bag_file s)\<rparr>)) = (Inr (), s1)"
      using c by (simp add: close_def)
    then obtain a sm where "(Inr (), sm\<lparr>bag_file := cf_close (bag_file sm)\<rparr>) = (Inr (), s1)"
      by (rule andThen_InrE) auto
    then show ?thesis by (auto simp: isOpen_def cf_isOpen_def cf_close_def)
  qed
  then show "close s1 = (Inr (), s1)" by (simp add: close_def)
next
  assume n: "\<not> isOpen s"
  show "\<exists>e. fst (doWrite topic t msg h s) = Inl e"
    using doWrite_not_open[OF n, of t topic msg h]
    by (cases "time_less t TIME_MIN") (simp_all add: doWrite_def)
  show "bag_file (snd (doWrite topic t msg h s)) = bag_file s"
    using doWrite_not_open[OF n, of t topic msg h]
    by (cases "time_less t TIME_MIN") (simp_all add: doWrite_def doWrite_connection_id_bag_file)
next
  assume "\<not> isOpen s \<and> \<not> time_less t TIME_MIN"
  then show "fst (doWrite topic t msg h s) = Inl (BagIOException ''seek: file not open'')"
    using doWrite_not_open[of s t topic msg h] by simp
qed

theorem close_idempotent_witness:
  "\<not> isOpen example_Bag
   \<and> close example_Bag = (Inr (), example_Bag)
   \<and> isOpen (snd (doWrite ''/a'' example_Time example_Message None example_Bag_open))
   \<and> \<not> isOpen (snd (close (snd (doWrite ''/a'' example_Time example_Message None example_Bag_open))))
   \<and> close (snd (close (snd (doWrite ''/a'' example_Time example_Message None example_Bag_open)))) =
       (Inr (), snd (close (snd (doWrite ''/a'' example_Time example_Message None example_Bag_open))))
   \<and> fst (doWrite ''/b'' example_Time example_Message None
            (snd (close (snd (doWrite ''/a'' example_Time example_Message None example_Bag_open))))) =
       Inl (BagIOException ''seek: file not open'')"
proof -
  define sa where "sa = snd (doWrite ''/a'' example_Time example_Message None example_Bag_open)"
  define sc where "sc = snd (close sa)"
  have n0: "\<not> isOpen example_Bag"
    by (simp add: isOpen_def cf_isOpen_def example_Bag_def Bag_init_def new_ChunkedFile_def)
  have ra: "doWrite ''/a'' example_Time example_Message None example_Bag_open = (Inr (), sa)"
    and oka: "ok sa"
    using doWrite_run_eq[OF ok_example_Bag_open example_Time_ok] by (simp_all add: sa_def)
  have oa: "isOpen sa" using oka by (simp add: ok_def cf_ok_def isOpen_def cf_isOpen_def)
  have "connections sa = connections example_Bag_open @
      [(of_nat (length (connections example_Bag_open)),
        Some (new_ConnectionInfo (of_nat (length (connections example_Bag_open))) ''/a''
                example_Message None))]"
    by (rule doWrite_new_connection[OF dense_ids_example_Bag_open _ ra, THEN conjunct1])
       (simp_all add: example_Bag_open_ids)
  then have cs: "connections_set sa"
    by (simp add: connections_set_def example_Bag_open_ids)
  have rc: "close sa = (Inr (), sc)"
    using close_returns[OF oka cs] returnedE[of "close sa"] by (auto simp: sc_def)
  have t1: "close example_Bag = (Inr (), example_Bag)"
    using close_idempotent[where s = example_Bag, THEN conjunct1] n0 by simp
  have t2: "\<not> isOpen sc \<and> close sc = (Inr (), sc)"
    using close_idempotent[where s = sa and ?s1.0 = sc, THEN conjunct2, THEN conjunct1] rc by simp
  have t3: "fst (doWrite ''/b'' example_Time example_Message None sc) =
      Inl (BagIOException ''seek: file not open'')"
    using close_idempotent[where s = sc and t = example_Time and topic = "''/b''"
        and msg = example_Message and h = None,
        THEN conjunct2, THEN conjunct2, THEN conjunct2] t2 example_Time_ok
    by simp
  show ?thesis
    using n0 t1 oa t2 t3 unfolding sc_def sa_def by simp
qed

subsection \<open>The time range of the current chunk\<close>






lemma time_le_TIME_INFINITY: "time_le a TIME_INFINITY"
proof -
  have "sec a \<le> - 1" "nsec a \<le> - 1" by simp_all
  then show ?thesis
    unfolding time_le_def TIME_INFINITY_def by (auto simp: less_le)
qed




lemma range_ok_counts [simp]:
  "range_ok (update_time_range t (ci\<lparr>connection_counts := x\<rparr>)) idx =
   range_ok (update_time_range t ci) idx"
  "time_in_range u (update_time_range t (ci\<lparr>connection_counts := x\<rparr>)) =
   time_in_range u (update_time_range t ci)"
  by (simp_all add: range_ok_def time_in_range_def update_time_range_def)








subsection \<open>The order of the index\<close>

































end
